theory Spec2Isabelle
  imports Main "HOL-Library.Word"
begin

unbundle bit_operations_syntax

section \<open>Pixel formats: the data model\<close>

text \<open>
  The descriptor structures are declared in \<^verbatim>\<open>util/format/u_format.h\<close>; the accessor
  functions below read the fields listed here. A C array of four elements is a value
  of \<open>'a array4\<close>; reading it at an index of 4 or more is undefined behaviour in C and
  an unspecified value here.
\<close>

datatype 'a array4 = Array4 'a 'a 'a 'a

fun nth4 :: "'a array4 \<Rightarrow> nat \<Rightarrow> 'a" where
  "nth4 (Array4 a b c d) i =
     (if i = 0 then a else if i = 1 then b else if i = 2 then c
      else if i = 3 then d else undefined)"

fun upd4 :: "'a array4 \<Rightarrow> nat \<Rightarrow> 'a \<Rightarrow> 'a array4" where
  "upd4 (Array4 a b c d) i v =
     (if i = 0 then Array4 v b c d else if i = 1 then Array4 a v c d
      else if i = 2 then Array4 a b v d else if i = 3 then Array4 a b c v
      else undefined)"

text \<open>
  \<^verbatim>\<open>enum pipe_format\<close>: the identifiers that the code names, and every other one by its
  enumeration value.
\<close>

datatype pipe_format =
    PIPE_FORMAT_RGTC1_SNORM
  | PIPE_FORMAT_RGTC2_SNORM
  | PIPE_FORMAT_LATC1_SNORM
  | PIPE_FORMAT_LATC2_SNORM
  | PIPE_FORMAT_BPTC_RGBA_UNORM
  | PIPE_FORMAT_ETC1_RGB8
  | PIPE_FORMAT_R1_UNORM
  | PIPE_FORMAT_UYVY
  | PIPE_FORMAT_YUYV
  | PIPE_FORMAT_R8G8_B8G8_UNORM
  | PIPE_FORMAT_G8R8_G8B8_UNORM
  | PIPE_FORMAT_other nat

datatype util_format_layout =
    UTIL_FORMAT_LAYOUT_PLAIN
  | UTIL_FORMAT_LAYOUT_SUBSAMPLED
  | UTIL_FORMAT_LAYOUT_S3TC
  | UTIL_FORMAT_LAYOUT_RGTC
  | UTIL_FORMAT_LAYOUT_ETC
  | UTIL_FORMAT_LAYOUT_BPTC
  | UTIL_FORMAT_LAYOUT_ASTC
  | UTIL_FORMAT_LAYOUT_ATC
  | UTIL_FORMAT_LAYOUT_FXT1
  | UTIL_FORMAT_LAYOUT_OTHER

datatype util_format_type =
    UTIL_FORMAT_TYPE_VOID
  | UTIL_FORMAT_TYPE_UNSIGNED
  | UTIL_FORMAT_TYPE_SIGNED
  | UTIL_FORMAT_TYPE_FIXED
  | UTIL_FORMAT_TYPE_FLOAT

datatype util_format_colorspace =
    UTIL_FORMAT_COLORSPACE_RGB
  | UTIL_FORMAT_COLORSPACE_SRGB
  | UTIL_FORMAT_COLORSPACE_YUV
  | UTIL_FORMAT_COLORSPACE_ZS

text \<open>
  \<^verbatim>\<open>enum pipe_swizzle\<close> (\<^verbatim>\<open>pipe/p_defines.h\<close>), stored in an \<^verbatim>\<open>unsigned char\<close>: the four
  channels X, Y, Z, W are 0 to 3 (the code indexes the channel array with them), followed
  by the constants 0 and 1 and the entry NONE.
\<close>

definition PIPE_SWIZZLE_X :: "8 word" where "PIPE_SWIZZLE_X = 0"
definition PIPE_SWIZZLE_Y :: "8 word" where "PIPE_SWIZZLE_Y = 1"
definition PIPE_SWIZZLE_Z :: "8 word" where "PIPE_SWIZZLE_Z = 2"
definition PIPE_SWIZZLE_W :: "8 word" where "PIPE_SWIZZLE_W = 3"
definition PIPE_SWIZZLE_0 :: "8 word" where "PIPE_SWIZZLE_0 = 4"
definition PIPE_SWIZZLE_1 :: "8 word" where "PIPE_SWIZZLE_1 = 5"
definition PIPE_SWIZZLE_NONE :: "8 word" where "PIPE_SWIZZLE_NONE = 6"

lemmas PIPE_SWIZZLE_defs =
  PIPE_SWIZZLE_X_def PIPE_SWIZZLE_Y_def PIPE_SWIZZLE_Z_def PIPE_SWIZZLE_W_def
  PIPE_SWIZZLE_0_def PIPE_SWIZZLE_1_def PIPE_SWIZZLE_NONE_def

record util_format_block =
  block_width :: "32 word"
  block_height :: "32 word"
  block_bits :: "32 word"

record util_format_channel_description =
  chan_type :: util_format_type
  normalized :: bool
  pure_integer :: bool
  chan_size :: "9 word"

record util_format_description =
  format :: pipe_format
  block :: util_format_block
  layout :: util_format_layout
  nr_channels :: "3 word"
  is_mixed :: bool
  is_unorm :: bool
  is_snorm :: bool
  channel :: "util_format_channel_description array4"
  swizzle :: "8 word array4"
  colorspace :: util_format_colorspace

section \<open>Format compatibility\<close>

text \<open>
  The first loop of \<^verbatim>\<open>util_is_format_compatible\<close>: the channel sizes, with the early
  return of \<^verbatim>\<open>FALSE\<close>.
\<close>

function compatible_sizes_from ::
  "util_format_description \<Rightarrow> util_format_description \<Rightarrow> nat \<Rightarrow> bool" where
  "compatible_sizes_from src_desc dst_desc chan =
     (if chan < 4 then
        (if chan_size (nth4 (channel src_desc) chan) \<noteq> chan_size (nth4 (channel dst_desc) chan)
         then False
         else compatible_sizes_from src_desc dst_desc (chan + 1))
      else True)"
  by pat_completeness auto
termination
  by (relation "measure (\<lambda>(s, d, chan). 4 - chan)") auto

text \<open>The second loop: the swizzles and the types of the channels they name.\<close>

function compatible_swizzles_from ::
  "util_format_description \<Rightarrow> util_format_description \<Rightarrow> nat \<Rightarrow> bool" where
  "compatible_swizzles_from src_desc dst_desc chan =
     (if chan < 4 then
        (let swz = nth4 (swizzle dst_desc) chan in
         if swz < 4 then
           (if nth4 (swizzle src_desc) chan \<noteq> swz then False
            else if chan_type (nth4 (channel src_desc) (unat swz)) \<noteq>
                      chan_type (nth4 (channel dst_desc) (unat swz)) \<or>
                    normalized (nth4 (channel src_desc) (unat swz)) \<noteq>
                      normalized (nth4 (channel dst_desc) (unat swz))
            then False
            else compatible_swizzles_from src_desc dst_desc (chan + 1))
         else compatible_swizzles_from src_desc dst_desc (chan + 1))
      else True)"
  by pat_completeness auto
termination
  by (relation "measure (\<lambda>(s, d, chan). 4 - chan)") auto

declare compatible_sizes_from.simps [simp del]
declare compatible_swizzles_from.simps [simp del]

definition util_is_format_compatible ::
  "util_format_description \<Rightarrow> util_format_description \<Rightarrow> bool" where
  "util_is_format_compatible src_desc dst_desc =
     (if format src_desc = format dst_desc then True
      else if layout src_desc \<noteq> UTIL_FORMAT_LAYOUT_PLAIN \<or>
              layout dst_desc \<noteq> UTIL_FORMAT_LAYOUT_PLAIN then False
      else if block_bits (block src_desc) \<noteq> block_bits (block dst_desc) \<or>
              nr_channels src_desc \<noteq> nr_channels dst_desc \<or>
              colorspace src_desc \<noteq> colorspace dst_desc then False
      else if \<not> compatible_sizes_from src_desc dst_desc 0 then False
      else compatible_swizzles_from src_desc dst_desc 0)"

text \<open>
  The compatibility rule in the words of the specification: identical identifiers, or
  plain layouts that agree on block bits, channel count, colorspace and every channel
  size, and where each destination swizzle entry that names a channel is matched by the
  source's entry, the channel it names having the same type and normalization on both
  sides.
\<close>

definition compatible_by_spec ::
  "util_format_description \<Rightarrow> util_format_description \<Rightarrow> bool" where
  "compatible_by_spec src_desc dst_desc \<longleftrightarrow>
     format src_desc = format dst_desc \<or>
     (layout src_desc = UTIL_FORMAT_LAYOUT_PLAIN \<and>
      layout dst_desc = UTIL_FORMAT_LAYOUT_PLAIN \<and>
      block_bits (block src_desc) = block_bits (block dst_desc) \<and>
      nr_channels src_desc = nr_channels dst_desc \<and>
      colorspace src_desc = colorspace dst_desc \<and>
      (\<forall>i < 4. chan_size (nth4 (channel src_desc) i) = chan_size (nth4 (channel dst_desc) i)) \<and>
      (\<forall>i < 4. nth4 (swizzle dst_desc) i < 4 \<longrightarrow>
         nth4 (swizzle src_desc) i = nth4 (swizzle dst_desc) i \<and>
         chan_type (nth4 (channel src_desc) (unat (nth4 (swizzle dst_desc) i))) =
           chan_type (nth4 (channel dst_desc) (unat (nth4 (swizzle dst_desc) i))) \<and>
         normalized (nth4 (channel src_desc) (unat (nth4 (swizzle dst_desc) i))) =
           normalized (nth4 (channel dst_desc) (unat (nth4 (swizzle dst_desc) i)))))"

text \<open>Example descriptors: the 32-bit formats B8G8R8A8_UNORM and B8G8R8X8_UNORM.\<close>

definition unorm8_channel :: util_format_channel_description where
  "unorm8_channel =
     \<lparr>chan_type = UTIL_FORMAT_TYPE_UNSIGNED, normalized = True, pure_integer = False,
      chan_size = 8\<rparr>"

definition void8_channel :: util_format_channel_description where
  "void8_channel =
     \<lparr>chan_type = UTIL_FORMAT_TYPE_VOID, normalized = False, pure_integer = False,
      chan_size = 8\<rparr>"

definition b8g8r8a8_unorm :: util_format_description where
  "b8g8r8a8_unorm =
     \<lparr>format = PIPE_FORMAT_other 1,
      block = \<lparr>block_width = 1, block_height = 1, block_bits = 32\<rparr>,
      layout = UTIL_FORMAT_LAYOUT_PLAIN, nr_channels = 4,
      is_mixed = False, is_unorm = True, is_snorm = False,
      channel = Array4 unorm8_channel unorm8_channel unorm8_channel unorm8_channel,
      swizzle = Array4 PIPE_SWIZZLE_Z PIPE_SWIZZLE_Y PIPE_SWIZZLE_X PIPE_SWIZZLE_W,
      colorspace = UTIL_FORMAT_COLORSPACE_RGB\<rparr>"

definition b8g8r8x8_unorm :: util_format_description where
  "b8g8r8x8_unorm =
     \<lparr>format = PIPE_FORMAT_other 2,
      block = \<lparr>block_width = 1, block_height = 1, block_bits = 32\<rparr>,
      layout = UTIL_FORMAT_LAYOUT_PLAIN, nr_channels = 4,
      is_mixed = False, is_unorm = True, is_snorm = False,
      channel = Array4 unorm8_channel unorm8_channel unorm8_channel void8_channel,
      swizzle = Array4 PIPE_SWIZZLE_Z PIPE_SWIZZLE_Y PIPE_SWIZZLE_X PIPE_SWIZZLE_1,
      colorspace = UTIL_FORMAT_COLORSPACE_RGB\<rparr>"

text \<open>
  The test that the second loop makes at one index, named for the proofs: the entry of
  the destination swizzle either names no channel, or it is the source's entry too and
  the channel it names has the same type and normalization on both sides.
\<close>

definition swizzle_matches_at ::
  "util_format_description \<Rightarrow> util_format_description \<Rightarrow> nat \<Rightarrow> bool" where
  "swizzle_matches_at s d i \<longleftrightarrow>
     (nth4 (swizzle d) i < 4 \<longrightarrow>
         nth4 (swizzle s) i = nth4 (swizzle d) i \<and>
         chan_type (nth4 (channel s) (unat (nth4 (swizzle d) i))) =
           chan_type (nth4 (channel d) (unat (nth4 (swizzle d) i))) \<and>
         normalized (nth4 (channel s) (unat (nth4 (swizzle d) i))) =
           normalized (nth4 (channel d) (unat (nth4 (swizzle d) i))))"

section \<open>Swizzle utilities\<close>

text \<open>
  \<^verbatim>\<open>union pipe_color_union\<close> overlays \<^verbatim>\<open>float f[4]\<close>, \<^verbatim>\<open>int i[4]\<close> and
  \<^verbatim>\<open>unsigned ui[4]\<close>: four 32-bit lanes. A lane is modelled by its bits, so copying a
  \<^verbatim>\<open>float\<close> copies the word, and the literals \<^verbatim>\<open>0.0f\<close> and \<^verbatim>\<open>1.0f\<close> are their IEEE-754
  single precision encodings.
\<close>

type_synonym pipe_color_union = "32 word array4"

definition float_0 :: "32 word" where "float_0 = 0"
definition float_1 :: "32 word" where "float_1 = 0x3F800000"

text \<open>The loop over \<^verbatim>\<open>c\<close> of the \<^verbatim>\<open>is_integer\<close> branch, writing \<^verbatim>\<open>dst->ui[c]\<close>.\<close>

function apply_color_swizzle_ui_from ::
  "pipe_color_union \<Rightarrow> pipe_color_union \<Rightarrow> 8 word array4 \<Rightarrow> nat \<Rightarrow> pipe_color_union" where
  "apply_color_swizzle_ui_from dst src swz c =
     (if c < 4 then
        apply_color_swizzle_ui_from
          (if nth4 swz c = PIPE_SWIZZLE_X then upd4 dst c (nth4 src 0)
           else if nth4 swz c = PIPE_SWIZZLE_Y then upd4 dst c (nth4 src 1)
           else if nth4 swz c = PIPE_SWIZZLE_Z then upd4 dst c (nth4 src 2)
           else if nth4 swz c = PIPE_SWIZZLE_W then upd4 dst c (nth4 src 3)
           else upd4 dst c (if nth4 swz c = PIPE_SWIZZLE_1 then 1 else 0))
          src swz (c + 1)
      else dst)"
  by pat_completeness auto
termination
  by (relation "measure (\<lambda>(dst, src, swz, c). 4 - c)") auto

text \<open>The loop of the other branch, writing \<^verbatim>\<open>dst->f[c]\<close>.\<close>

function apply_color_swizzle_f_from ::
  "pipe_color_union \<Rightarrow> pipe_color_union \<Rightarrow> 8 word array4 \<Rightarrow> nat \<Rightarrow> pipe_color_union" where
  "apply_color_swizzle_f_from dst src swz c =
     (if c < 4 then
        apply_color_swizzle_f_from
          (if nth4 swz c = PIPE_SWIZZLE_X then upd4 dst c (nth4 src 0)
           else if nth4 swz c = PIPE_SWIZZLE_Y then upd4 dst c (nth4 src 1)
           else if nth4 swz c = PIPE_SWIZZLE_Z then upd4 dst c (nth4 src 2)
           else if nth4 swz c = PIPE_SWIZZLE_W then upd4 dst c (nth4 src 3)
           else upd4 dst c (if nth4 swz c = PIPE_SWIZZLE_1 then float_1 else float_0))
          src swz (c + 1)
      else dst)"
  by pat_completeness auto
termination
  by (relation "measure (\<lambda>(dst, src, swz, c). 4 - c)") auto

declare apply_color_swizzle_ui_from.simps [simp del]
declare apply_color_swizzle_f_from.simps [simp del]

definition util_format_apply_color_swizzle ::
  "pipe_color_union \<Rightarrow> pipe_color_union \<Rightarrow> 8 word array4 \<Rightarrow> bool \<Rightarrow> pipe_color_union" where
  "util_format_apply_color_swizzle dst src swz is_integer =
     (if is_integer then apply_color_swizzle_ui_from dst src swz 0
      else apply_color_swizzle_f_from dst src swz 0)"

text \<open>
  \<^verbatim>\<open>pipe_swizzle_4f\<close>, on two arrays of four floats that do not overlap. An entry that is
  neither a channel nor one of the two constants takes none of the three branches.
\<close>

function pipe_swizzle_4f_from ::
  "32 word array4 \<Rightarrow> 32 word array4 \<Rightarrow> 8 word array4 \<Rightarrow> nat \<Rightarrow> 32 word array4" where
  "pipe_swizzle_4f_from dst src swz i =
     (if i < 4 then
        pipe_swizzle_4f_from
          (if nth4 swz i \<le> PIPE_SWIZZLE_W then upd4 dst i (nth4 src (unat (nth4 swz i)))
           else if nth4 swz i = PIPE_SWIZZLE_0 then upd4 dst i float_0
           else if nth4 swz i = PIPE_SWIZZLE_1 then upd4 dst i float_1
           else dst)
          src swz (i + 1)
      else dst)"
  by pat_completeness auto
termination
  by (relation "measure (\<lambda>(dst, src, swz, i). 4 - i)") auto

declare pipe_swizzle_4f_from.simps [simp del]

definition pipe_swizzle_4f ::
  "32 word array4 \<Rightarrow> 32 word array4 \<Rightarrow> 8 word array4 \<Rightarrow> 32 word array4" where
  "pipe_swizzle_4f dst src swz = pipe_swizzle_4f_from dst src swz 0"

section \<open>Depth bias reference value\<close>

text \<open>
  \<^verbatim>\<open>util_get_depth_format_mrd\<close> returns a \<^verbatim>\<open>double\<close>, the quotient of \<^verbatim>\<open>1.0\<close> and an integer.
  The integer is computed here as the code computes it; the division of \<^verbatim>\<open>1.0\<close> by the
  integer converted to \<^verbatim>\<open>double\<close> is the parameter \<open>one_over\<close>. A shift of
  \<^verbatim>\<open>1ULL\<close> by 64 or more is undefined behaviour in C and an unspecified value here.
\<close>

definition util_get_depth_format_mrd ::
  "(nat \<Rightarrow> 'd) \<Rightarrow> util_format_description \<Rightarrow> 'd" where
  "util_get_depth_format_mrd one_over desc =
     (let mrd = one_over (unat (push_bit 24 (1 :: 32 word) - 1));
          depth_channel = unat (nth4 (swizzle desc) 0)
      in if chan_type (nth4 (channel desc) depth_channel) = UTIL_FORMAT_TYPE_UNSIGNED \<and>
            normalized (nth4 (channel desc) depth_channel)
         then
           (let depth_bits = unat (chan_size (nth4 (channel desc) depth_channel))
            in if depth_bits < 64
               then one_over (unat (push_bit depth_bits (1 :: 64 word) - 1))
               else undefined)
         else mrd)"

text \<open>Example descriptors: Z24X8_UNORM, a depth format with an 8-bit channel, Z32_FLOAT.\<close>

definition depth_desc :: "util_format_type \<Rightarrow> bool \<Rightarrow> 9 word \<Rightarrow> util_format_description" where
  "depth_desc t n bits =
     \<lparr>format = PIPE_FORMAT_other 100,
      block = \<lparr>block_width = 1, block_height = 1, block_bits = 32\<rparr>,
      layout = UTIL_FORMAT_LAYOUT_PLAIN, nr_channels = 2,
      is_mixed = False, is_unorm = n, is_snorm = False,
      channel = Array4 \<lparr>chan_type = t, normalized = n, pure_integer = False, chan_size = bits\<rparr>
                  void8_channel
                  \<lparr>chan_type = UTIL_FORMAT_TYPE_VOID, normalized = False,
                   pure_integer = False, chan_size = 0\<rparr>
                  \<lparr>chan_type = UTIL_FORMAT_TYPE_VOID, normalized = False,
                   pure_integer = False, chan_size = 0\<rparr>,
      swizzle = Array4 PIPE_SWIZZLE_X PIPE_SWIZZLE_NONE PIPE_SWIZZLE_NONE PIPE_SWIZZLE_NONE,
      colorspace = UTIL_FORMAT_COLORSPACE_ZS\<rparr>"

section \<open>Format predicates\<close>

text \<open>
  The descriptor table \<^verbatim>\<open>util_format_description()\<close> is an external collaborator: every
  function that looks a format up takes the table as its first argument \<open>tbl\<close>, and
  is modelled on identifiers that the table describes.
\<close>

type_synonym format_table = "pipe_format \<Rightarrow> util_format_description"

text \<open>
  Modelled from the spec: \<^verbatim>\<open>util_format_get_first_non_void_channel\<close> is declared in
  \<^verbatim>\<open>u_format.h\<close>, which is not under src/. It gives the index of the first channel
  whose type is not void, and -1 if there is none.
\<close>

definition util_format_get_first_non_void_channel :: "format_table \<Rightarrow> pipe_format \<Rightarrow> int" where
  "util_format_get_first_non_void_channel tbl fmt =
     (let desc = tbl fmt in
      if chan_type (nth4 (channel desc) 0) \<noteq> UTIL_FORMAT_TYPE_VOID then 0
      else if chan_type (nth4 (channel desc) 1) \<noteq> UTIL_FORMAT_TYPE_VOID then 1
      else if chan_type (nth4 (channel desc) 2) \<noteq> UTIL_FORMAT_TYPE_VOID then 2
      else if chan_type (nth4 (channel desc) 3) \<noteq> UTIL_FORMAT_TYPE_VOID then 3
      else - 1)"

definition util_format_is_pure_integer :: "format_table \<Rightarrow> pipe_format \<Rightarrow> bool" where
  "util_format_is_pure_integer tbl fmt =
     (let desc = tbl fmt;
          i = util_format_get_first_non_void_channel tbl fmt
      in if i = - 1 then False
         else pure_integer (nth4 (channel desc) (nat i)))"

definition util_format_is_pure_sint :: "format_table \<Rightarrow> pipe_format \<Rightarrow> bool" where
  "util_format_is_pure_sint tbl fmt =
     (let desc = tbl fmt;
          i = util_format_get_first_non_void_channel tbl fmt
      in if i = - 1 then False
         else chan_type (nth4 (channel desc) (nat i)) = UTIL_FORMAT_TYPE_SIGNED \<and>
              pure_integer (nth4 (channel desc) (nat i)))"

definition util_format_is_pure_uint :: "format_table \<Rightarrow> pipe_format \<Rightarrow> bool" where
  "util_format_is_pure_uint tbl fmt =
     (let desc = tbl fmt;
          i = util_format_get_first_non_void_channel tbl fmt
      in if i = - 1 then False
         else chan_type (nth4 (channel desc) (nat i)) = UTIL_FORMAT_TYPE_UNSIGNED \<and>
              pure_integer (nth4 (channel desc) (nat i)))"

text \<open>The loop of the plain case of \<^verbatim>\<open>util_format_fits_8unorm\<close>.\<close>

function fits_8unorm_plain_from :: "util_format_description \<Rightarrow> nat \<Rightarrow> bool" where
  "fits_8unorm_plain_from format_desc chan =
     (if chan < unat (nr_channels format_desc) then
        (if chan_type (nth4 (channel format_desc) chan) = UTIL_FORMAT_TYPE_VOID
         then fits_8unorm_plain_from format_desc (chan + 1)
         else if chan_type (nth4 (channel format_desc) chan) = UTIL_FORMAT_TYPE_UNSIGNED
         then (if \<not> normalized (nth4 (channel format_desc) chan) \<or>
                  chan_size (nth4 (channel format_desc) chan) > 8
               then False
               else fits_8unorm_plain_from format_desc (chan + 1))
         else False)
      else True)"
  by pat_completeness auto
termination
  by (relation "measure (\<lambda>(d, chan). unat (nr_channels d) - chan)") auto

declare fits_8unorm_plain_from.simps [simp del]

definition util_format_fits_8unorm :: "util_format_description \<Rightarrow> bool" where
  "util_format_fits_8unorm format_desc =
     (if colorspace format_desc = UTIL_FORMAT_COLORSPACE_SRGB then False
      else case layout format_desc of
        UTIL_FORMAT_LAYOUT_S3TC \<Rightarrow> True
      | UTIL_FORMAT_LAYOUT_RGTC \<Rightarrow>
          (if format format_desc = PIPE_FORMAT_RGTC1_SNORM \<or>
              format format_desc = PIPE_FORMAT_RGTC2_SNORM \<or>
              format format_desc = PIPE_FORMAT_LATC1_SNORM \<or>
              format format_desc = PIPE_FORMAT_LATC2_SNORM
           then False else True)
      | UTIL_FORMAT_LAYOUT_BPTC \<Rightarrow>
          (if format format_desc = PIPE_FORMAT_BPTC_RGBA_UNORM then True else False)
      | UTIL_FORMAT_LAYOUT_ETC \<Rightarrow>
          (if format format_desc = PIPE_FORMAT_ETC1_RGB8 then True else False)
      | UTIL_FORMAT_LAYOUT_PLAIN \<Rightarrow> fits_8unorm_plain_from format_desc 0
      | _ \<Rightarrow>
          (if format format_desc = PIPE_FORMAT_R1_UNORM \<or>
              format format_desc = PIPE_FORMAT_UYVY \<or>
              format format_desc = PIPE_FORMAT_YUYV \<or>
              format format_desc = PIPE_FORMAT_R8G8_B8G8_UNORM \<or>
              format format_desc = PIPE_FORMAT_G8R8_G8B8_UNORM
           then True else False))"

section \<open>Memory and the rectangle copy\<close>

text \<open>
  Memory is flat and byte addressed. A pointer is an address, and pointer arithmetic is
  exact (arithmetic that leaves the object pointed into is undefined behaviour in C);
  the 32-bit \<^verbatim>\<open>unsigned\<close> and \<^verbatim>\<open>int\<close> operands of the code are words that wrap around.
  A failed \<^verbatim>\<open>assert\<close>, a division by zero and a call through a null function pointer
  end the run with a fault.
\<close>

type_synonym addr = int
type_synonym memory = "addr \<Rightarrow> 8 word"

datatype fault = AssertionFailed | DivisionByZero | NullFunctionPointer

text \<open>\<^verbatim>\<open>memcpy\<close> on regions that do not overlap.\<close>

definition memcpy :: "addr \<Rightarrow> addr \<Rightarrow> nat \<Rightarrow> memory \<Rightarrow> memory" where
  "memcpy dst src n m = (\<lambda>a. if dst \<le> a \<and> a < dst + int n then m (src + (a - dst)) else m a)"

text \<open>
  Modelled from the spec: \<^verbatim>\<open>util_format_get_blocksize\<close>, \<^verbatim>\<open>util_format_get_blockwidth\<close>
  and \<^verbatim>\<open>util_format_get_blockheight\<close> are declared in \<^verbatim>\<open>u_format.h\<close>, which is not under
  src/. They give the byte size of a block (its bit count in bytes) and its width and
  height in pixels.
\<close>

definition util_format_get_blocksize :: "format_table \<Rightarrow> pipe_format \<Rightarrow> 32 word" where
  "util_format_get_blocksize tbl fmt = block_bits (block (tbl fmt)) div 8"

definition util_format_get_blockwidth :: "format_table \<Rightarrow> pipe_format \<Rightarrow> 32 word" where
  "util_format_get_blockwidth tbl fmt = block_width (block (tbl fmt))"

definition util_format_get_blockheight :: "format_table \<Rightarrow> pipe_format \<Rightarrow> 32 word" where
  "util_format_get_blockheight tbl fmt = block_height (block (tbl fmt))"

text \<open>
  The row loop of \<^verbatim>\<open>util_copy_rect\<close>, run \<open>height\<close> times: the destination advances
  by the unsigned \<^verbatim>\<open>dst_stride\<close>, the source by the signed \<^verbatim>\<open>src_stride\<close>.
\<close>

fun copy_rect_rows ::
  "nat \<Rightarrow> addr \<Rightarrow> 32 word \<Rightarrow> addr \<Rightarrow> 32 word \<Rightarrow> 32 word \<Rightarrow> memory \<Rightarrow> memory" where
  "copy_rect_rows 0 dst dst_stride src src_stride width m = m"
| "copy_rect_rows (Suc i) dst dst_stride src src_stride width m =
     copy_rect_rows i (dst + uint dst_stride) dst_stride (src + sint src_stride) src_stride width
       (memcpy dst src (unat width) m)"

definition util_copy_rect ::
  "format_table \<Rightarrow> addr \<Rightarrow> pipe_format \<Rightarrow> 32 word \<Rightarrow> 32 word \<Rightarrow> 32 word \<Rightarrow> 32 word \<Rightarrow> 32 word \<Rightarrow>
     addr \<Rightarrow> 32 word \<Rightarrow> 32 word \<Rightarrow> 32 word \<Rightarrow> memory \<Rightarrow> fault + memory" where
  "util_copy_rect tbl dst fmt dst_stride dst_x dst_y width height src src_stride src_x src_y m =
     (let src_stride_pos = (if sint src_stride < 0 then - src_stride else src_stride);
          blocksize = util_format_get_blocksize tbl fmt;
          blockwidth = util_format_get_blockwidth tbl fmt;
          blockheight = util_format_get_blockheight tbl fmt
      in if \<not> (sint blocksize > 0) \<or> \<not> (sint blockwidth > 0) \<or> \<not> (sint blockheight > 0)
         then Inl AssertionFailed
         else
           (let dst_x = dst_x div blockwidth;
                dst_y = dst_y div blockheight;
                width = (width + blockwidth - 1) div blockwidth;
                height = (height + blockheight - 1) div blockheight;
                src_x = src_x div blockwidth;
                src_y = src_y div blockheight;
                dst = dst + uint (dst_x * blocksize);
                src = src + uint (src_x * blocksize);
                dst = dst + uint (dst_y * dst_stride);
                src = src + uint (src_y * src_stride_pos);
                width = width * blocksize
            in if width = dst_stride \<and> width = src_stride
               then Inr (memcpy dst src (unat (height * width)) m)
               else Inr (copy_rect_rows (unat height) dst dst_stride src src_stride width m)))"

section \<open>The pixel translator\<close>

text \<open>
  The pack and unpack capability tables hold function pointers that may be null. Every
  conversion function has the arguments \<^verbatim>\<open>(dst, dst_stride, src, src_stride, width,
  height)\<close> and acts on memory.
\<close>

type_synonym convert_fn =
  "addr \<Rightarrow> 32 word \<Rightarrow> addr \<Rightarrow> 32 word \<Rightarrow> 32 word \<Rightarrow> 32 word \<Rightarrow> memory \<Rightarrow> memory"

record util_format_pack_description =
  pack_rgba_8unorm :: "convert_fn option"
  pack_rgba_float :: "convert_fn option"
  pack_rgba_uint :: "convert_fn option"
  pack_rgba_sint :: "convert_fn option"
  pack_z_float :: "convert_fn option"
  pack_s_8uint :: "convert_fn option"

record util_format_unpack_description =
  unpack_rgba_8unorm :: "convert_fn option"
  unpack_rgba :: "convert_fn option"
  unpack_z_float :: "convert_fn option"
  unpack_s_8uint :: "convert_fn option"

text \<open>
  What the translator is linked against: the three tables, and the allocator, whose
  state \<open>'h\<close> is threaded through the calls. \<^verbatim>\<open>malloc\<close> returns \<open>None\<close> for a null
  pointer.
\<close>

record 'h environment =
  description_table :: format_table
  pack_table :: "pipe_format \<Rightarrow> util_format_pack_description"
  unpack_table :: "pipe_format \<Rightarrow> util_format_unpack_description"
  malloc :: "nat \<Rightarrow> 'h \<Rightarrow> addr option \<times> 'h"
  free :: "addr option \<Rightarrow> 'h \<Rightarrow> 'h"

record 'h machine =
  mem :: memory
  heap :: 'h

text \<open>
  Modelled from the spec: the wrappers \<^verbatim>\<open>util_format_unpack_z_float\<close>,
  \<^verbatim>\<open>util_format_pack_z_float\<close>, \<^verbatim>\<open>util_format_unpack_s_8uint\<close> and
  \<^verbatim>\<open>util_format_pack_s_8uint\<close> are declared in \<^verbatim>\<open>u_format.h\<close>, which is not under src/.
  Each converts one row of \<open>w\<close> pixels through the capability of the format; the
  translator calls them only after it has seen the capability non-null.
\<close>

definition util_format_unpack_z_float ::
  "'h environment \<Rightarrow> pipe_format \<Rightarrow> addr \<Rightarrow> addr \<Rightarrow> 32 word \<Rightarrow> memory \<Rightarrow> memory" where
  "util_format_unpack_z_float env fmt dst src w m =
     the (unpack_z_float (unpack_table env fmt)) dst 0 src 0 w 1 m"

definition util_format_pack_z_float ::
  "'h environment \<Rightarrow> pipe_format \<Rightarrow> addr \<Rightarrow> addr \<Rightarrow> 32 word \<Rightarrow> memory \<Rightarrow> memory" where
  "util_format_pack_z_float env fmt dst src w m =
     the (pack_z_float (pack_table env fmt)) dst 0 src 0 w 1 m"

definition util_format_unpack_s_8uint ::
  "'h environment \<Rightarrow> pipe_format \<Rightarrow> addr \<Rightarrow> addr \<Rightarrow> 32 word \<Rightarrow> memory \<Rightarrow> memory" where
  "util_format_unpack_s_8uint env fmt dst src w m =
     the (unpack_s_8uint (unpack_table env fmt)) dst 0 src 0 w 1 m"

definition util_format_pack_s_8uint ::
  "'h environment \<Rightarrow> pipe_format \<Rightarrow> addr \<Rightarrow> addr \<Rightarrow> 32 word \<Rightarrow> memory \<Rightarrow> memory" where
  "util_format_pack_s_8uint env fmt dst src w m =
     the (pack_s_8uint (pack_table env fmt)) dst 0 src 0 w 1 m"

text \<open>
  The loop \<^verbatim>\<open>while (height--)\<close> of the depth/stencil path: one scanline per iteration,
  the depth channel when \<^verbatim>\<open>tmp_z\<close> is not null, the stencil channel when \<^verbatim>\<open>tmp_s\<close> is
  not null.
\<close>

fun translate_zs_rows ::
  "nat \<Rightarrow> 'h environment \<Rightarrow> pipe_format \<Rightarrow> pipe_format \<Rightarrow> addr option \<Rightarrow> addr option \<Rightarrow>
     32 word \<Rightarrow> 32 word \<Rightarrow> 32 word \<Rightarrow> addr \<Rightarrow> addr \<Rightarrow> memory \<Rightarrow> memory" where
  "translate_zs_rows 0 env dst_format src_format tmp_z tmp_s width dst_step src_step
     dst_row src_row m = m"
| "translate_zs_rows (Suc height) env dst_format src_format tmp_z tmp_s width dst_step src_step
     dst_row src_row m =
     (let m1 = (case tmp_z of
                  None \<Rightarrow> m
                | Some z \<Rightarrow>
                    util_format_pack_z_float env dst_format dst_row z width
                      (util_format_unpack_z_float env src_format z src_row width m));
          m2 = (case tmp_s of
                  None \<Rightarrow> m1
                | Some s \<Rightarrow>
                    util_format_pack_s_8uint env dst_format dst_row s width
                      (util_format_unpack_s_8uint env src_format s src_row width m1))
      in translate_zs_rows height env dst_format src_format tmp_z tmp_s width dst_step src_step
           (dst_row + uint dst_step) (src_row + uint src_step) m2)"

definition translate_zs ::
  "'h environment \<Rightarrow> pipe_format \<Rightarrow> pipe_format \<Rightarrow> 32 word \<Rightarrow> 32 word \<Rightarrow> 32 word \<Rightarrow> 32 word \<Rightarrow>
     32 word \<Rightarrow> 32 word \<Rightarrow> addr \<Rightarrow> addr \<Rightarrow> 'h machine \<Rightarrow> fault + (bool \<times> 'h machine)" where
  "translate_zs env dst_format src_format x_step y_step width height dst_step src_step
     dst_row src_row s =
     (let pack = pack_table env dst_format;
          unpack = unpack_table env src_format
      in if x_step \<noteq> 1 \<or> y_step \<noteq> 1 then Inl AssertionFailed
         else
           (let (tmp_z, h1) =
                  (if unpack_z_float unpack \<noteq> None \<and> pack_z_float pack \<noteq> None
                   then malloc env (unat width * 4) (heap s)
                   else (None, heap s));
                (tmp_s, h2) =
                  (if unpack_s_8uint unpack \<noteq> None \<and> pack_s_8uint pack \<noteq> None
                   then malloc env (unat width * 1) h1
                   else (None, h1));
                m' = translate_zs_rows (unat height) env dst_format src_format tmp_z tmp_s width
                       dst_step src_step dst_row src_row (mem s);
                h3 = free env tmp_s h2;
                h4 = free env tmp_z h3
            in Inr (True, \<lparr>mem = m', heap = h4\<rparr>)))"

text \<open>
  The row-batch loop \<^verbatim>\<open>while (height >= y_step)\<close>, which the four other paths share
  with different conversion functions. It returns the pointers, the rows left over and
  the memory. (\<open>y_step\<close> is not 0 where the loop is reached: the division by a block
  height that is 0 faults first.)
\<close>

function translate_batches ::
  "convert_fn \<Rightarrow> convert_fn \<Rightarrow> addr \<Rightarrow> 32 word \<Rightarrow> 32 word \<Rightarrow> 32 word \<Rightarrow> 32 word \<Rightarrow> 32 word \<Rightarrow>
     32 word \<Rightarrow> 32 word \<Rightarrow> addr \<Rightarrow> addr \<Rightarrow> 32 word \<Rightarrow> memory \<Rightarrow> addr \<times> addr \<times> 32 word \<times> memory" where
  "translate_batches unpack_fn pack_fn tmp_row tmp_stride dst_stride src_stride width y_step
     dst_step src_step dst_row src_row height m =
     (if y_step \<noteq> 0 \<and> height \<ge> y_step then
        translate_batches unpack_fn pack_fn tmp_row tmp_stride dst_stride src_stride width y_step
          dst_step src_step (dst_row + uint dst_step) (src_row + uint src_step) (height - y_step)
          (pack_fn dst_row dst_stride tmp_row tmp_stride width y_step
             (unpack_fn tmp_row tmp_stride src_row src_stride width y_step m))
      else (dst_row, src_row, height, m))"
  by pat_completeness auto
termination
proof (relation "measure (\<lambda>(u, p, t, ts, ds, ss, w, y, dstep, sstep, d, s, height, m). unat height)")
  show "wf (measure (\<lambda>(u, p, t, ts, ds, ss, w, y :: 32 word, dstep, sstep, d, s,
      height :: 32 word, m). unat height))"
    by simp
next
  fix unpack_fn pack_fn :: convert_fn
  fix tmp_row dst_row src_row :: addr
  fix tmp_stride dst_stride src_stride width y_step dst_step src_step height :: "32 word"
  fix m :: memory
  assume a: "y_step \<noteq> 0 \<and> y_step \<le> height"
  then have "unat y_step \<noteq> 0" "unat y_step \<le> unat height"
    by (simp_all add: unat_eq_zero word_le_nat_alt)
  moreover have "unat (height - y_step) = unat height - unat y_step"
    using a by (simp add: unat_sub)
  ultimately have "unat (height - y_step) < unat height"
    by simp
  then show "((unpack_fn, pack_fn, tmp_row, tmp_stride, dst_stride, src_stride, width, y_step,
      dst_step, src_step, dst_row + uint dst_step, src_row + uint src_step, height - y_step,
      pack_fn dst_row dst_stride tmp_row tmp_stride width y_step
        (unpack_fn tmp_row tmp_stride src_row src_stride width y_step m)),
     unpack_fn, pack_fn, tmp_row, tmp_stride, dst_stride, src_stride, width, y_step,
      dst_step, src_step, dst_row, src_row, height, m)
    \<in> measure (\<lambda>(u, p, t, ts, ds, ss, w, y, dstep, sstep, d, s, height, m). unat height)"
    by simp
qed

declare translate_batches.simps [simp del]

text \<open>
  The body that follows the allocation of \<^verbatim>\<open>tmp_row\<close> in each of the four paths: the
  batches, the rows left over, and \<^verbatim>\<open>free\<close>. A conversion function that is null
  faults when it is called, which happens as soon as there is a row to convert.
\<close>

definition translate_with_tmp ::
  "'h environment \<Rightarrow> convert_fn option \<Rightarrow> convert_fn option \<Rightarrow> addr \<Rightarrow> 32 word \<Rightarrow> 32 word \<Rightarrow>
     32 word \<Rightarrow> 32 word \<Rightarrow> 32 word \<Rightarrow> 32 word \<Rightarrow> 32 word \<Rightarrow> addr \<Rightarrow> addr \<Rightarrow> 32 word \<Rightarrow>
     memory \<Rightarrow> 'h \<Rightarrow> fault + (bool \<times> 'h machine)" where
  "translate_with_tmp env unpack_opt pack_opt tmp_row tmp_stride dst_stride src_stride width y_step
     dst_step src_step dst_row src_row height m h =
     (if height = 0 then Inr (True, \<lparr>mem = m, heap = free env (Some tmp_row) h\<rparr>)
      else case (unpack_opt, pack_opt) of
        (Some unpack_fn, Some pack_fn) \<Rightarrow>
          (let (dst_row', src_row', height', m1) =
                 translate_batches unpack_fn pack_fn tmp_row tmp_stride dst_stride src_stride
                   width y_step dst_step src_step dst_row src_row height m;
               m2 = (if height' \<noteq> 0
                     then pack_fn dst_row' dst_stride tmp_row tmp_stride width height'
                            (unpack_fn tmp_row tmp_stride src_row' src_stride width height' m1)
                     else m1)
           in Inr (True, \<lparr>mem = m2, heap = free env (Some tmp_row) h\<rparr>))
      | _ \<Rightarrow> Inl NullFunctionPointer)"

definition util_format_translate ::
  "'h environment \<Rightarrow> pipe_format \<Rightarrow> addr \<Rightarrow> 32 word \<Rightarrow> 32 word \<Rightarrow> 32 word \<Rightarrow>
     pipe_format \<Rightarrow> addr \<Rightarrow> 32 word \<Rightarrow> 32 word \<Rightarrow> 32 word \<Rightarrow> 32 word \<Rightarrow> 32 word \<Rightarrow>
     'h machine \<Rightarrow> fault + (bool \<times> 'h machine)" where
  "util_format_translate env dst_format dst dst_stride dst_x dst_y
     src_format src src_stride src_x src_y width height s =
     (let tbl = description_table env;
          pack = pack_table env dst_format;
          unpack = unpack_table env src_format;
          dst_format_desc = tbl dst_format;
          src_format_desc = tbl src_format
      in if util_is_format_compatible src_format_desc dst_format_desc then
           (case util_copy_rect tbl dst dst_format dst_stride dst_x dst_y width height
                   src src_stride src_x src_y (mem s) of
              Inl f \<Rightarrow> Inl f
            | Inr m' \<Rightarrow> Inr (True, s\<lparr>mem := m'\<rparr>))
         else if block_width (block dst_format_desc) = 0 \<or>
                 block_height (block dst_format_desc) = 0 \<or>
                 block_width (block src_format_desc) = 0 \<or>
                 block_height (block src_format_desc) = 0 then Inl DivisionByZero
         else if dst_x mod block_width (block dst_format_desc) \<noteq> 0 \<or>
                 dst_y mod block_height (block dst_format_desc) \<noteq> 0 \<or>
                 src_x mod block_width (block src_format_desc) \<noteq> 0 \<or>
                 src_y mod block_height (block src_format_desc) \<noteq> 0 then Inl AssertionFailed
         else
           (let dst_row = dst + uint (dst_y * dst_stride) +
                            uint (dst_x * (block_bits (block dst_format_desc) div 8));
                src_row = src + uint (src_y * src_stride) +
                            uint (src_x * (block_bits (block src_format_desc) div 8));
                y_step = max (block_height (block dst_format_desc))
                             (block_height (block src_format_desc));
                x_step = max (block_width (block dst_format_desc))
                             (block_width (block src_format_desc))
            in if y_step mod block_height (block dst_format_desc) \<noteq> 0 \<or>
                  y_step mod block_height (block src_format_desc) \<noteq> 0 then Inl AssertionFailed
               else
                 (let dst_step = y_step div block_height (block dst_format_desc) * dst_stride;
                      src_step = y_step div block_height (block src_format_desc) * src_stride
                  in if colorspace src_format_desc = UTIL_FORMAT_COLORSPACE_ZS \<or>
                        colorspace dst_format_desc = UTIL_FORMAT_COLORSPACE_ZS then
                       translate_zs env dst_format src_format x_step y_step width height
                         dst_step src_step dst_row src_row s
                     else if util_format_fits_8unorm src_format_desc \<or>
                             util_format_fits_8unorm dst_format_desc then
                       (if unpack_rgba_8unorm unpack = None \<or> pack_rgba_8unorm pack = None
                        then Inr (False, s)
                        else
                          (let tmp_stride = max width x_step * 4 * 1
                           in case malloc env (unat (y_step * tmp_stride)) (heap s) of
                                (None, h) \<Rightarrow> Inr (False, s\<lparr>heap := h\<rparr>)
                              | (Some tmp_row, h) \<Rightarrow>
                                  translate_with_tmp env (unpack_rgba_8unorm unpack)
                                    (pack_rgba_8unorm pack) tmp_row tmp_stride dst_stride
                                    src_stride width y_step dst_step src_step dst_row src_row
                                    height (mem s) h))
                     else if util_format_is_pure_sint tbl src_format \<or>
                             util_format_is_pure_sint tbl dst_format then
                       (if util_format_is_pure_sint tbl src_format \<noteq>
                           util_format_is_pure_sint tbl dst_format
                        then Inr (False, s)
                        else
                          (let tmp_stride = max width x_step * 4 * 4
                           in case malloc env (unat (y_step * tmp_stride)) (heap s) of
                                (None, h) \<Rightarrow> Inr (False, s\<lparr>heap := h\<rparr>)
                              | (Some tmp_row, h) \<Rightarrow>
                                  translate_with_tmp env (unpack_rgba unpack)
                                    (pack_rgba_sint pack) tmp_row tmp_stride dst_stride
                                    src_stride width y_step dst_step src_step dst_row src_row
                                    height (mem s) h))
                     else if util_format_is_pure_uint tbl src_format \<or>
                             util_format_is_pure_uint tbl dst_format then
                       (if unpack_rgba unpack = None \<or> pack_rgba_uint pack = None
                        then Inr (False, s)
                        else
                          (let tmp_stride = max width x_step * 4 * 4
                           in case malloc env (unat (y_step * tmp_stride)) (heap s) of
                                (None, h) \<Rightarrow> Inr (False, s\<lparr>heap := h\<rparr>)
                              | (Some tmp_row, h) \<Rightarrow>
                                  translate_with_tmp env (unpack_rgba unpack)
                                    (pack_rgba_uint pack) tmp_row tmp_stride dst_stride
                                    src_stride width y_step dst_step src_step dst_row src_row
                                    height (mem s) h))
                     else
                       (if unpack_rgba unpack = None \<or> pack_rgba_float pack = None
                        then Inr (False, s)
                        else
                          (let tmp_stride = max width x_step * 4 * 4
                           in case malloc env (unat (y_step * tmp_stride)) (heap s) of
                                (None, h) \<Rightarrow> Inr (False, s\<lparr>heap := h\<rparr>)
                              | (Some tmp_row, h) \<Rightarrow>
                                  translate_with_tmp env (unpack_rgba unpack)
                                    (pack_rgba_float pack) tmp_row tmp_stride dst_stride
                                    src_stride width y_step dst_step src_step dst_row src_row
                                    height (mem s) h)))))"

text \<open>
  The geometry of a rectangle copy, as \<^verbatim>\<open>util_copy_rect\<close> computes it from its
  arguments: the bytes of a row, the number of rows, the address of the first byte of
  the rectangle in a buffer with a given (positive) stride; and the set of the
  addresses of a rectangle of \<open>H\<close> rows of \<open>W\<close> bytes whose rows are
  \<open>stride\<close> apart.
\<close>

definition copy_rect_width :: "format_table \<Rightarrow> pipe_format \<Rightarrow> 32 word \<Rightarrow> 32 word" where
  "copy_rect_width tbl fmt width =
     (width + util_format_get_blockwidth tbl fmt - 1) div util_format_get_blockwidth tbl fmt *
     util_format_get_blocksize tbl fmt"

definition copy_rect_height :: "format_table \<Rightarrow> pipe_format \<Rightarrow> 32 word \<Rightarrow> 32 word" where
  "copy_rect_height tbl fmt height =
     (height + util_format_get_blockheight tbl fmt - 1) div util_format_get_blockheight tbl fmt"

definition copy_rect_origin ::
  "format_table \<Rightarrow> pipe_format \<Rightarrow> addr \<Rightarrow> 32 word \<Rightarrow> 32 word \<Rightarrow> 32 word \<Rightarrow> addr" where
  "copy_rect_origin tbl fmt p stride x y =
     p + uint (x div util_format_get_blockwidth tbl fmt * util_format_get_blocksize tbl fmt) +
       uint (y div util_format_get_blockheight tbl fmt * stride)"

definition rect_bytes :: "addr \<Rightarrow> int \<Rightarrow> nat \<Rightarrow> nat \<Rightarrow> addr set" where
  "rect_bytes origin stride W H = {origin + int r * stride + int j | r j. r < H \<and> j < W}"

text \<open>
  Memory \<open>m'\<close> is memory \<open>m\<close> after the rows of a source rectangle have been
  copied to a destination rectangle: each byte of the destination holds the byte of the
  source at the same row and column, and every other byte is as it was.
\<close>

definition rect_copied ::
  "memory \<Rightarrow> memory \<Rightarrow> addr \<Rightarrow> int \<Rightarrow> addr \<Rightarrow> int \<Rightarrow> nat \<Rightarrow> nat \<Rightarrow> bool" where
  "rect_copied m m' dst0 dstride src0 sstride W H \<longleftrightarrow>
     (\<forall>r < H. \<forall>j < W.
        m' (dst0 + int r * dstride + int j) = m (src0 + int r * sstride + int j)) \<and>
     (\<forall>a. a \<notin> rect_bytes dst0 dstride W H \<longrightarrow> m' a = m a)"

text \<open>
  The preconditions that the translator asserts on a pair of formats that is not
  compatible: block dimensions that are not 0, origins aligned to the blocks, and a row
  step that both block heights divide.
\<close>

definition translate_preconditions ::
  "format_table \<Rightarrow> pipe_format \<Rightarrow> 32 word \<Rightarrow> 32 word \<Rightarrow> pipe_format \<Rightarrow> 32 word \<Rightarrow> 32 word \<Rightarrow> bool" where
  "translate_preconditions tbl dst_format dst_x dst_y src_format src_x src_y \<longleftrightarrow>
     block_width (block (tbl dst_format)) \<noteq> 0 \<and>
     block_height (block (tbl dst_format)) \<noteq> 0 \<and>
     block_width (block (tbl src_format)) \<noteq> 0 \<and>
     block_height (block (tbl src_format)) \<noteq> 0 \<and>
     dst_x mod block_width (block (tbl dst_format)) = 0 \<and>
     dst_y mod block_height (block (tbl dst_format)) = 0 \<and>
     src_x mod block_width (block (tbl src_format)) = 0 \<and>
     src_y mod block_height (block (tbl src_format)) = 0 \<and>
     max (block_height (block (tbl dst_format))) (block_height (block (tbl src_format)))
       mod block_height (block (tbl dst_format)) = 0 \<and>
     max (block_height (block (tbl dst_format))) (block_height (block (tbl src_format)))
       mod block_height (block (tbl src_format)) = 0"

text \<open>
  Example formats and environments: R32_SINT, R32_FLOAT, R8G8B8A8_UNORM and a second
  description of B8G8R8X8_UNORM, whose unused channel is typed, beside the formats
  above; a table of them; capability tables where every function is present
  (and leaves memory alone) or every function is null; an allocator that always
  succeeds.
\<close>

definition r32_desc :: "nat \<Rightarrow> util_format_type \<Rightarrow> bool \<Rightarrow> util_format_description" where
  "r32_desc n t p =
     \<lparr>format = PIPE_FORMAT_other n,
      block = \<lparr>block_width = 1, block_height = 1, block_bits = 32\<rparr>,
      layout = UTIL_FORMAT_LAYOUT_PLAIN, nr_channels = 1,
      is_mixed = False, is_unorm = False, is_snorm = False,
      channel = Array4 \<lparr>chan_type = t, normalized = False, pure_integer = p, chan_size = 32\<rparr>
                  \<lparr>chan_type = UTIL_FORMAT_TYPE_VOID, normalized = False,
                   pure_integer = False, chan_size = 0\<rparr>
                  \<lparr>chan_type = UTIL_FORMAT_TYPE_VOID, normalized = False,
                   pure_integer = False, chan_size = 0\<rparr>
                  \<lparr>chan_type = UTIL_FORMAT_TYPE_VOID, normalized = False,
                   pure_integer = False, chan_size = 0\<rparr>,
      swizzle = Array4 PIPE_SWIZZLE_X PIPE_SWIZZLE_0 PIPE_SWIZZLE_0 PIPE_SWIZZLE_1,
      colorspace = UTIL_FORMAT_COLORSPACE_RGB\<rparr>"

definition r8g8b8a8_unorm :: util_format_description where
  "r8g8b8a8_unorm =
     \<lparr>format = PIPE_FORMAT_other 5,
      block = \<lparr>block_width = 1, block_height = 1, block_bits = 32\<rparr>,
      layout = UTIL_FORMAT_LAYOUT_PLAIN, nr_channels = 4,
      is_mixed = False, is_unorm = True, is_snorm = False,
      channel = Array4 unorm8_channel unorm8_channel unorm8_channel unorm8_channel,
      swizzle = Array4 PIPE_SWIZZLE_X PIPE_SWIZZLE_Y PIPE_SWIZZLE_Z PIPE_SWIZZLE_W,
      colorspace = UTIL_FORMAT_COLORSPACE_RGB\<rparr>"

definition b8g8r8x8_alt :: util_format_description where
  "b8g8r8x8_alt =
     \<lparr>format = PIPE_FORMAT_other 6,
      block = \<lparr>block_width = 1, block_height = 1, block_bits = 32\<rparr>,
      layout = UTIL_FORMAT_LAYOUT_PLAIN, nr_channels = 4,
      is_mixed = False, is_unorm = True, is_snorm = False,
      channel = Array4 unorm8_channel unorm8_channel unorm8_channel unorm8_channel,
      swizzle = Array4 PIPE_SWIZZLE_Z PIPE_SWIZZLE_Y PIPE_SWIZZLE_X PIPE_SWIZZLE_1,
      colorspace = UTIL_FORMAT_COLORSPACE_RGB\<rparr>"

fun example_table :: format_table where
  "example_table (PIPE_FORMAT_other n) =
     (if n = 1 then b8g8r8a8_unorm
      else if n = 2 then b8g8r8x8_unorm
      else if n = 3 then r32_desc 3 UTIL_FORMAT_TYPE_SIGNED True
      else if n = 4 then r32_desc 4 UTIL_FORMAT_TYPE_FLOAT False
      else if n = 5 then r8g8b8a8_unorm
      else if n = 6 then b8g8r8x8_alt
      else depth_desc UTIL_FORMAT_TYPE_UNSIGNED True 24)"
| "example_table f = depth_desc UTIL_FORMAT_TYPE_UNSIGNED True 24"

definition keep_memory :: convert_fn where
  "keep_memory dst dst_stride src src_stride width height m = m"

definition full_environment :: "unit environment" where
  "full_environment =
     \<lparr>description_table = example_table,
      pack_table = (\<lambda>f. \<lparr>pack_rgba_8unorm = Some keep_memory, pack_rgba_float = Some keep_memory,
                        pack_rgba_uint = Some keep_memory, pack_rgba_sint = Some keep_memory,
                        pack_z_float = Some keep_memory, pack_s_8uint = Some keep_memory\<rparr>),
      unpack_table = (\<lambda>f. \<lparr>unpack_rgba_8unorm = Some keep_memory, unpack_rgba = Some keep_memory,
                          unpack_z_float = Some keep_memory, unpack_s_8uint = Some keep_memory\<rparr>),
      malloc = (\<lambda>n h. (Some 4096, h)),
      free = (\<lambda>p h. h)\<rparr>"


definition zero_machine :: "unit machine" where
  "zero_machine = \<lparr>mem = (\<lambda>a. 0), heap = ()\<rparr>"

definition ramp_machine :: "unit machine" where
  "ramp_machine = \<lparr>mem = (\<lambda>a. word_of_int a), heap = ()\<rparr>"




section \<open>Shader interface linking: the data model\<close>

text \<open>
  A shader is its list of variables, its stage and its function bodies. A variable
  carries its GLSL type, of the abstract type \<open>'ty\<close>, and the fields of
  \<^verbatim>\<open>var->data\<close> that the linking code reads and writes. \<^verbatim>\<open>location\<close> is a C \<^verbatim>\<open>int\<close>
  (-1 when unassigned), \<^verbatim>\<open>location_frac\<close> a bit-field of two bits. A dereference names
  its variable by the position of the variable in the shader's list.
\<close>

datatype nir_variable_mode =
    nir_var_shader_in
  | nir_var_shader_out
  | nir_var_shader_temp
  | nir_var_function_temp
  | nir_var_system_value
  | nir_var_uniform

datatype gl_shader_stage =
    MESA_SHADER_VERTEX
  | MESA_SHADER_TESS_CTRL
  | MESA_SHADER_TESS_EVAL
  | MESA_SHADER_GEOMETRY
  | MESA_SHADER_FRAGMENT
  | MESA_SHADER_COMPUTE

record 'ty nir_variable =
  var_type :: 'ty
  mode :: nir_variable_mode
  location :: int
  location_frac :: "2 word"
  patch :: bool
  always_active_io :: bool
  explicit_xfb_buffer :: bool
  per_view :: bool
  compact :: bool
  driver_location :: "32 word"
  interpolation :: "8 word"
  sample :: bool
  centroid :: bool

record nir_deref_instr =
  deref_mode :: nir_variable_mode
  deref_var :: nat

datatype nir_intrinsic_op =
    nir_intrinsic_load_deref
  | nir_intrinsic_store_deref
  | nir_intrinsic_interp_deref_at_centroid
  | nir_intrinsic_interp_deref_at_sample
  | nir_intrinsic_interp_deref_at_offset
  | nir_intrinsic_interp_deref_at_vertex
  | nir_intrinsic_other

datatype nir_instr =
    nir_instr_type_intrinsic nir_intrinsic_op nir_deref_instr
  | nir_instr_type_other

type_synonym nir_block = "nir_instr list"

record nir_function =
  impl :: "nir_block list option"

record 'ty nir_shader =
  variables :: "'ty nir_variable list"
  stage :: gl_shader_stage
  shader_functions :: "nir_function list"

text \<open>
  What the linking code is compiled against and is not under src/: the queries on GLSL
  types (\<^verbatim>\<open>glsl_count_attribute_slots\<close> with its second argument \<^verbatim>\<open>false\<close>), the test
  \<^verbatim>\<open>nir_is_per_vertex_io\<close>, the pass \<^verbatim>\<open>nir_fixup_deref_modes\<close>, which rewrites the
  dereferences in the function bodies and gives the new bodies, and the values of the
  slot enumeration.
\<close>

record 'ty nir_externals =
  glsl_count_attribute_slots :: "'ty \<Rightarrow> nat"
  glsl_get_array_element :: "'ty \<Rightarrow> 'ty"
  glsl_without_array :: "'ty \<Rightarrow> 'ty"
  glsl_type_is_struct_or_ifc :: "'ty \<Rightarrow> bool"
  glsl_get_vector_elements :: "'ty \<Rightarrow> nat"
  glsl_get_length :: "'ty \<Rightarrow> nat"
  nir_is_per_vertex_io :: "'ty nir_variable \<Rightarrow> gl_shader_stage \<Rightarrow> bool"
  nir_fixup_deref_modes :: "'ty nir_shader \<Rightarrow> nir_function list"
  VARYING_SLOT_VAR0 :: nat
  VARYING_SLOT_PATCH0 :: nat
  VARYING_SLOT_TESS_LEVEL_OUTER :: nat
  VARYING_SLOT_BOUNDING_BOX1 :: nat

text \<open>
  A left shift of a 64-bit value: by 64 or more it is undefined behaviour in C and an
  unspecified value here.
\<close>

definition shl64 :: "64 word \<Rightarrow> nat \<Rightarrow> 64 word" where
  "shl64 x n = (if n < 64 then push_bit n x else undefined)"

section \<open>Removal of unused varyings\<close>

text \<open>
  The assertions of the linking code on the well-formedness of the IR (the mode of a
  variable, an array type under a per-vertex variable, the stages of the two shaders)
  compile to nothing in a release build and are not modelled.
\<close>

definition get_variable_io_mask ::
  "'ty nir_externals \<Rightarrow> 'ty nir_variable \<Rightarrow> gl_shader_stage \<Rightarrow> 64 word" where
  "get_variable_io_mask ext var stg =
     (if location var < 0 then 0
      else
        (let loc :: 32 word =
               (if patch var then word_of_int (location var - int (VARYING_SLOT_PATCH0 ext))
                else word_of_int (location var));
             ty = (if nir_is_per_vertex_io ext var stg \<or> per_view var
                     then glsl_get_array_element ext (var_type var)
                     else var_type var);
             slots = glsl_count_attribute_slots ext ty
         in shl64 (shl64 1 slots - 1) (unat loc)))"

definition get_num_components :: "'ty nir_externals \<Rightarrow> 'ty nir_variable \<Rightarrow> nat" where
  "get_num_components ext var =
     (if glsl_type_is_struct_or_ifc ext (glsl_without_array ext (var_type var)) then 4
      else glsl_get_vector_elements ext (glsl_without_array ext (var_type var)))"

text \<open>
  The loop \<^verbatim>\<open>for (i = 0; i < get_num_components(var); i++)\<close> that the code runs on a
  variable in three places, on one array of four masks: entry \<open>location_frac + i\<close>
  is ORed with the mask of the variable.
\<close>

function or_components ::
  "64 word array4 \<Rightarrow> nat \<Rightarrow> 64 word \<Rightarrow> nat \<Rightarrow> nat \<Rightarrow> 64 word array4" where
  "or_components arr frac msk n i =
     (if i < n
      then or_components (upd4 arr (frac + i) (nth4 arr (frac + i) OR msk)) frac msk n (i + 1)
      else arr)"
  by pat_completeness auto
termination
  by (relation "measure (\<lambda>(arr, frac, msk, n, i). n - i)") auto

declare or_components.simps [simp del]

text \<open>
  The body of that loop chooses the patch array or the other one by \<^verbatim>\<open>var->data.patch\<close>,
  which the loop does not change: the array is chosen once here.
\<close>

definition add_variable_mask ::
  "'ty nir_externals \<Rightarrow> gl_shader_stage \<Rightarrow> 'ty nir_variable \<Rightarrow>
     64 word array4 \<times> 64 word array4 \<Rightarrow> 64 word array4 \<times> 64 word array4" where
  "add_variable_mask ext stg var acc =
     (case acc of (masks, patch_masks) \<Rightarrow>
        if patch var
        then (masks,
              or_components patch_masks (unat (location_frac var))
                (get_variable_io_mask ext var stg) (get_num_components ext var) 0)
        else (or_components masks (unat (location_frac var))
                (get_variable_io_mask ext var stg) (get_num_components ext var) 0,
              patch_masks))"

text \<open>The body of the instruction loop of \<^verbatim>\<open>tcs_add_output_reads\<close>.\<close>

definition tcs_add_output_reads_instr ::
  "'ty nir_externals \<Rightarrow> 'ty nir_shader \<Rightarrow> nir_instr \<Rightarrow>
     64 word array4 \<times> 64 word array4 \<Rightarrow> 64 word array4 \<times> 64 word array4" where
  "tcs_add_output_reads_instr ext shader instr acc =
     (case instr of
        nir_instr_type_other \<Rightarrow> acc
      | nir_instr_type_intrinsic intrinsic deref \<Rightarrow>
          if intrinsic \<noteq> nir_intrinsic_load_deref then acc
          else if deref_mode deref \<noteq> nir_var_shader_out then acc
          else add_variable_mask ext (stage shader) (variables shader ! deref_var deref) acc)"

definition tcs_add_output_reads ::
  "'ty nir_externals \<Rightarrow> 'ty nir_shader \<Rightarrow>
     64 word array4 \<times> 64 word array4 \<Rightarrow> 64 word array4 \<times> 64 word array4" where
  "tcs_add_output_reads ext shader acc =
     fold (\<lambda>func acc.
             case impl func of
               None \<Rightarrow> acc
             | Some blocks \<Rightarrow>
                 fold (\<lambda>block acc. fold (tcs_add_output_reads_instr ext shader) block acc)
                      blocks acc)
          (shader_functions shader) acc"

text \<open>
  The body of the variable loop of \<^verbatim>\<open>nir_remove_unused_io_vars\<close>, on a variable of the
  mode asked for: whether it sets \<^verbatim>\<open>progress\<close>, and the variable as it leaves it.
\<close>

definition remove_unused_io_var ::
  "'ty nir_externals \<Rightarrow> gl_shader_stage \<Rightarrow> 64 word array4 \<Rightarrow> 64 word array4 \<Rightarrow>
     'ty nir_variable \<Rightarrow> bool \<times> 'ty nir_variable" where
  "remove_unused_io_var ext stg used_by_other_stage used_by_other_stage_patches var =
     (let used = (if patch var then used_by_other_stage_patches else used_by_other_stage)
      in if location var < int (VARYING_SLOT_VAR0 ext) \<and> location var \<ge> 0 then (False, var)
         else if always_active_io var then (False, var)
         else if explicit_xfb_buffer var then (False, var)
         else
           (let other_stage = nth4 used (unat (location_frac var))
            in if other_stage AND get_variable_io_mask ext var stg = 0
               then (True, var\<lparr>location := 0, mode := nir_var_shader_temp\<rparr>)
               else (False, var)))"

text \<open>The loop over the variables of the mode, with the flag \<^verbatim>\<open>progress\<close>.\<close>

fun remove_unused_io_vars_loop ::
  "'ty nir_externals \<Rightarrow> gl_shader_stage \<Rightarrow> nir_variable_mode \<Rightarrow> 64 word array4 \<Rightarrow>
     64 word array4 \<Rightarrow> bool \<Rightarrow> 'ty nir_variable list \<Rightarrow> bool \<times> 'ty nir_variable list" where
  "remove_unused_io_vars_loop ext stg md used used_patches progress [] = (progress, [])"
| "remove_unused_io_vars_loop ext stg md used used_patches progress (var # vars) =
     (if mode var \<noteq> md then
        (case remove_unused_io_vars_loop ext stg md used used_patches progress vars of
           (p, vs) \<Rightarrow> (p, var # vs))
      else
        (case remove_unused_io_var ext stg used used_patches var of
           (hit, var') \<Rightarrow>
             (case remove_unused_io_vars_loop ext stg md used used_patches
                     (if hit then True else progress) vars of
                (p, vs) \<Rightarrow> (p, var' # vs))))"

definition nir_remove_unused_io_vars ::
  "'ty nir_externals \<Rightarrow> 'ty nir_shader \<Rightarrow> nir_variable_mode \<Rightarrow> 64 word array4 \<Rightarrow>
     64 word array4 \<Rightarrow> bool \<times> 'ty nir_shader" where
  "nir_remove_unused_io_vars ext shader md used_by_other_stage used_by_other_stage_patches =
     (case remove_unused_io_vars_loop ext (stage shader) md used_by_other_stage
             used_by_other_stage_patches False (variables shader) of
        (progress, vars) \<Rightarrow>
          (let shader' = shader\<lparr>variables := vars\<rparr>
           in if progress
              then (progress, shader'\<lparr>shader_functions := nir_fixup_deref_modes ext shader'\<rparr>)
              else (progress, shader')))"

definition nir_remove_unused_varyings ::
  "'ty nir_externals \<Rightarrow> 'ty nir_shader \<Rightarrow> 'ty nir_shader \<Rightarrow>
     bool \<times> 'ty nir_shader \<times> 'ty nir_shader" where
  "nir_remove_unused_varyings ext producer consumer =
     (let zero = Array4 0 0 0 0;
          (written, patches_written) =
            fold (\<lambda>var acc. if mode var = nir_var_shader_out
                             then add_variable_mask ext (stage producer) var acc else acc)
                 (variables producer) (zero, zero);
          (read, patches_read) =
            fold (\<lambda>var acc. if mode var = nir_var_shader_in
                             then add_variable_mask ext (stage consumer) var acc else acc)
                 (variables consumer) (zero, zero);
          (read, patches_read) =
            (if stage producer = MESA_SHADER_TESS_CTRL
             then tcs_add_output_reads ext producer (read, patches_read)
             else (read, patches_read));
          (progress, producer') =
            nir_remove_unused_io_vars ext producer nir_var_shader_out read patches_read;
          (progress', consumer') =
            nir_remove_unused_io_vars ext consumer nir_var_shader_in written patches_written
      in (progress' \<or> progress, producer', consumer'))"

text \<open>
  The instructions of a shader in the order in which \<^verbatim>\<open>tcs_add_output_reads\<close> visits
  them, and what it means for the variable at position \<open>k\<close> to be read by the
  shader as one of its outputs: some \<^verbatim>\<open>load_deref\<close> has a dereference of it whose mode
  is \<^verbatim>\<open>nir_var_shader_out\<close>.
\<close>

definition shader_instrs :: "'ty nir_shader \<Rightarrow> nir_instr list" where
  "shader_instrs shader =
     concat (map (\<lambda>func. case impl func of None \<Rightarrow> [] | Some blocks \<Rightarrow> concat blocks)
                 (shader_functions shader))"

definition output_is_read :: "'ty nir_shader \<Rightarrow> nat \<Rightarrow> bool" where
  "output_is_read shader k \<longleftrightarrow>
     (\<exists>instr \<in> set (shader_instrs shader).
        case instr of
          nir_instr_type_other \<Rightarrow> False
        | nir_instr_type_intrinsic intrinsic deref \<Rightarrow>
            intrinsic = nir_intrinsic_load_deref \<and> deref_mode deref = nir_var_shader_out \<and>
            deref_var deref = k)"

text \<open>
  Well-formedness of a shader: every dereference names a variable of the shader, and
  the components of every variable lie inside one slot, so that the loops above stay
  inside their arrays of four masks.
\<close>

definition components_fit :: "'ty nir_externals \<Rightarrow> 'ty nir_variable \<Rightarrow> bool" where
  "components_fit ext var \<longleftrightarrow> unat (location_frac var) + get_num_components ext var \<le> 4"

definition shader_well_formed :: "'ty nir_externals \<Rightarrow> 'ty nir_shader \<Rightarrow> bool" where
  "shader_well_formed ext shader \<longleftrightarrow>
     (\<forall>var \<in> set (variables shader). components_fit ext var) \<and>
     (\<forall>instr \<in> set (shader_instrs shader).
        case instr of
          nir_instr_type_other \<Rightarrow> True
        | nir_instr_type_intrinsic intrinsic deref \<Rightarrow>
            deref_var deref < length (variables shader))"

section \<open>Sorting the varying components\<close>

text \<open>
  \<^verbatim>\<open>struct varying_component\<close>. The comparison reads the location of the variable that
  the record points to, which is kept in the record here. Subtraction of two
  \<^verbatim>\<open>int\<close>s that overflows is undefined behaviour in C and an unspecified value here.
\<close>

record 'ty varying_component =
  var :: "'ty nir_variable"
  interp_type :: "8 word"
  interp_loc :: "8 word"
  is_32bit :: bool
  is_patch :: bool
  is_intra_stage_only :: bool
  initialised :: bool

definition int_minus :: "int \<Rightarrow> int \<Rightarrow> int" where
  "int_minus a b =
     (if - (2 ^ 31) \<le> a - b \<and> a - b < 2 ^ 31 then a - b else undefined)"

definition cmp_varying_component ::
  "'ty varying_component \<Rightarrow> 'ty varying_component \<Rightarrow> int" where
  "cmp_varying_component comp1 comp2 =
     (if is_patch comp1 \<noteq> is_patch comp2 then (if is_patch comp1 then 1 else - 1)
      else if is_intra_stage_only comp1 \<noteq> is_intra_stage_only comp2
      then (if is_intra_stage_only comp1 then 1 else - 1)
      else if interp_type comp1 \<noteq> interp_type comp2
      then uint (interp_type comp1) - uint (interp_type comp2)
      else if interp_loc comp1 \<noteq> interp_loc comp2
      then uint (interp_loc comp1) - uint (interp_loc comp2)
      else int_minus (location (var comp1)) (location (var comp2)))"

text \<open>
  The order in the words of the specification: patch records last, records read only
  inside the stage last within each group, then by interpolation mode, by interpolation
  location and by the original slot.
\<close>

definition sorts_before :: "'ty varying_component \<Rightarrow> 'ty varying_component \<Rightarrow> bool" where
  "sorts_before a b \<longleftrightarrow>
     (\<not> is_patch a \<and> is_patch b) \<or>
     (is_patch a = is_patch b \<and>
      ((\<not> is_intra_stage_only a \<and> is_intra_stage_only b) \<or>
       (is_intra_stage_only a = is_intra_stage_only b \<and>
        (interp_type a < interp_type b \<or>
         (interp_type a = interp_type b \<and>
          (interp_loc a < interp_loc b \<or>
           (interp_loc a = interp_loc b \<and> location (var a) < location (var b))))))))"

definition same_sort_keys :: "'ty varying_component \<Rightarrow> 'ty varying_component \<Rightarrow> bool" where
  "same_sort_keys a b \<longleftrightarrow>
     is_patch a = is_patch b \<and> is_intra_stage_only a = is_intra_stage_only b \<and>
     interp_type a = interp_type b \<and> interp_loc a = interp_loc b \<and>
     location (var a) = location (var b)"

definition slot_in_range :: "'ty varying_component \<Rightarrow> bool" where
  "slot_in_range a \<longleftrightarrow> 0 \<le> location (var a) \<and> location (var a) < 2 ^ 31"

section \<open>Linked driver locations\<close>

text \<open>
  Modelled from the spec: \<^verbatim>\<open>util_bitcount64\<close> and \<^verbatim>\<open>u_bit_consecutive64\<close> are declared
  in the utility headers, which are not under src/. The first counts the set bits of a
  64-bit value; the second gives the mask of \<open>count\<close> consecutive bits from bit
  \<open>start\<close>.
\<close>

definition util_bitcount64 :: "64 word \<Rightarrow> nat" where
  "util_bitcount64 w = length (filter (bit w) [0..<64])"

definition u_bit_consecutive64 :: "nat \<Rightarrow> nat \<Rightarrow> 64 word" where
  "u_bit_consecutive64 start count =
     (if count = 64 then - 1 else shl64 (shl64 1 count - 1) start)"

text \<open>
  \<^verbatim>\<open>get_linked_variable_location\<close>; its last branch is \<^verbatim>\<open>unreachable()\<close>, an
  unspecified value here.
\<close>

definition get_linked_variable_location :: "'ty nir_externals \<Rightarrow> 32 word \<Rightarrow> bool \<Rightarrow> 64 word" where
  "get_linked_variable_location ext loc ptch =
     (if \<not> ptch then ucast loc
      else if loc \<ge> of_nat (VARYING_SLOT_PATCH0 ext)
      then ucast (loc - of_nat (VARYING_SLOT_PATCH0 ext) + 4)
      else if loc \<ge> of_nat (VARYING_SLOT_TESS_LEVEL_OUTER ext) \<and>
              loc \<le> of_nat (VARYING_SLOT_BOUNDING_BOX1 ext)
      then ucast (loc - of_nat (VARYING_SLOT_TESS_LEVEL_OUTER ext))
      else undefined)"

definition get_linked_variable_io_mask ::
  "'ty nir_externals \<Rightarrow> 'ty nir_variable \<Rightarrow> gl_shader_stage \<Rightarrow> 64 word" where
  "get_linked_variable_io_mask ext variable stg =
     (let ty = (if nir_is_per_vertex_io ext variable stg
                  then glsl_get_array_element ext (var_type variable)
                  else var_type variable);
          slots = glsl_count_attribute_slots ext ty;
          slots = (if compact variable
                   then (let component_count =
                               unat (location_frac variable) + glsl_get_length ext ty
                         in (component_count + 4 - 1) div 4)
                   else slots)
      in u_bit_consecutive64 0 slots)"

text \<open>
  The first two loops: the mask of the slots that the variables of one mode occupy,
  patch and other variables apart.
\<close>

definition linked_io_masks ::
  "'ty nir_externals \<Rightarrow> 'ty nir_shader \<Rightarrow> nir_variable_mode \<Rightarrow> 64 word \<times> 64 word" where
  "linked_io_masks ext shader md =
     fold (\<lambda>variable (msk_all, patch_msk).
             if mode variable \<noteq> md then (msk_all, patch_msk)
             else
               (let msk = get_linked_variable_io_mask ext variable (stage shader);
                    loc = get_linked_variable_location ext (word_of_int (location variable))
                            (patch variable)
                in if patch variable
                   then (msk_all, patch_msk OR shl64 msk (unat loc))
                   else (msk_all OR shl64 msk (unat loc), patch_msk)))
          (variables shader) (0, 0)"

text \<open>The body of the last two loops: the driver location of one variable.\<close>

definition assign_linked_driver_location ::
  "'ty nir_externals \<Rightarrow> 64 word \<Rightarrow> 64 word \<Rightarrow> 'ty nir_variable \<Rightarrow> 'ty nir_variable" where
  "assign_linked_driver_location ext io_mask patch_io_mask variable =
     (let loc = get_linked_variable_location ext (word_of_int (location variable))
                  (patch variable)
      in if patch variable
         then variable\<lparr>driver_location :=
                of_nat (util_bitcount64
                  (patch_io_mask AND u_bit_consecutive64 0 (unat (ucast loc :: 32 word)))) * 4\<rparr>
         else variable\<lparr>driver_location :=
                of_nat (util_bitcount64
                  (io_mask AND u_bit_consecutive64 0 (unat (ucast loc :: 32 word)))) * 4\<rparr>)"

record nir_linked_io_var_info =
  num_linked_io_vars :: "32 word"
  num_linked_patch_io_vars :: "32 word"

definition nir_assign_linked_io_var_locations ::
  "'ty nir_externals \<Rightarrow> 'ty nir_shader \<Rightarrow> 'ty nir_shader \<Rightarrow>
     nir_linked_io_var_info \<times> 'ty nir_shader \<times> 'ty nir_shader" where
  "nir_assign_linked_io_var_locations ext producer consumer =
     (let (producer_output_mask, producer_patch_output_mask) =
            linked_io_masks ext producer nir_var_shader_out;
          (consumer_input_mask, consumer_patch_input_mask) =
            linked_io_masks ext consumer nir_var_shader_in;
          io_mask = producer_output_mask OR consumer_input_mask;
          patch_io_mask = producer_patch_output_mask OR consumer_patch_input_mask;
          producer' = producer\<lparr>variables :=
            map (\<lambda>variable. if mode variable = nir_var_shader_out
                             then assign_linked_driver_location ext io_mask patch_io_mask variable
                             else variable)
                (variables producer)\<rparr>;
          consumer' = consumer\<lparr>variables :=
            map (\<lambda>variable. if mode variable = nir_var_shader_in
                             then assign_linked_driver_location ext io_mask patch_io_mask variable
                             else variable)
                (variables consumer)\<rparr>
      in (\<lparr>num_linked_io_vars = of_nat (util_bitcount64 io_mask),
           num_linked_patch_io_vars = of_nat (util_bitcount64 patch_io_mask)\<rparr>,
          producer', consumer'))"

text \<open>
  Example shaders. The GLSL type is the number of vector elements of a scalar or a
  vector, which takes one slot; the slot enumeration has the values of
  \<^verbatim>\<open>shader_enums.h\<close>.
\<close>

definition example_externals :: "nat nir_externals" where
  "example_externals =
     \<lparr>glsl_count_attribute_slots = (\<lambda>t. 1),
      glsl_get_array_element = (\<lambda>t. t),
      glsl_without_array = (\<lambda>t. t),
      glsl_type_is_struct_or_ifc = (\<lambda>t. False),
      glsl_get_vector_elements = (\<lambda>t. t),
      glsl_get_length = (\<lambda>t. 0),
      nir_is_per_vertex_io = (\<lambda>v s. False),
      nir_fixup_deref_modes = shader_functions,
      VARYING_SLOT_VAR0 = 32,
      VARYING_SLOT_PATCH0 = 64,
      VARYING_SLOT_TESS_LEVEL_OUTER = 26,
      VARYING_SLOT_BOUNDING_BOX1 = 29\<rparr>"

definition example_variable :: "nir_variable_mode \<Rightarrow> int \<Rightarrow> 2 word \<Rightarrow> nat nir_variable" where
  "example_variable md loc frac =
     \<lparr>var_type = 1, mode = md, location = loc, location_frac = frac, patch = False,
      always_active_io = False, explicit_xfb_buffer = False, per_view = False,
      compact = False, driver_location = 0, interpolation = 0, sample = False,
      centroid = False\<rparr>"

definition example_producer :: "gl_shader_stage \<Rightarrow> int \<Rightarrow> nir_instr list \<Rightarrow> nat nir_shader" where
  "example_producer stg loc body =
     \<lparr>variables = [example_variable nir_var_shader_out loc 0], stage = stg,
      shader_functions = [\<lparr>impl = Some [body]\<rparr>]\<rparr>"

definition example_consumer :: "gl_shader_stage \<Rightarrow> int list \<Rightarrow> nat nir_shader" where
  "example_consumer stg locs =
     \<lparr>variables = map (\<lambda>loc. example_variable nir_var_shader_in loc 0) locs, stage = stg,
      shader_functions = []\<rparr>"

definition load_output :: "nat \<Rightarrow> nir_instr" where
  "load_output k =
     nir_instr_type_intrinsic nir_intrinsic_load_deref
       \<lparr>deref_mode = nir_var_shader_out, deref_var = k\<rparr>"

definition example_component :: "int \<Rightarrow> 2 word \<Rightarrow> 8 word \<Rightarrow> bool \<Rightarrow> nat varying_component" where
  "example_component loc frac interp ptch =
     \<lparr>var = example_variable nir_var_shader_in loc frac, interp_type = interp, interp_loc = 2,
      is_32bit = True, is_patch = ptch, is_intra_stage_only = False, initialised = True\<rparr>"

text \<open>
  Example shaders with variables that take several slots. The GLSL type \<open>t\<close> takes
  \<open>t\<close> slots and has length \<open>t\<close>, and \<open>100 * t\<close> is the array of it that a per-vertex
  variable has; variables other than patch variables are per vertex in the tessellation
  control shader, and the inputs among them in the tessellation evaluation shader.
\<close>

definition linked_externals :: "nat nir_externals" where
  "linked_externals =
     \<lparr>glsl_count_attribute_slots = (\<lambda>t. t),
      glsl_get_array_element = (\<lambda>t. t div 100),
      glsl_without_array = (\<lambda>t. t),
      glsl_type_is_struct_or_ifc = (\<lambda>t. False),
      glsl_get_vector_elements = (\<lambda>t. 4),
      glsl_get_length = (\<lambda>t. t),
      nir_is_per_vertex_io = (\<lambda>v s. \<not> patch v \<and>
        (s = MESA_SHADER_TESS_CTRL \<or> s = MESA_SHADER_TESS_EVAL \<and> mode v = nir_var_shader_in)),
      nir_fixup_deref_modes = shader_functions,
      VARYING_SLOT_VAR0 = 32,
      VARYING_SLOT_PATCH0 = 64,
      VARYING_SLOT_TESS_LEVEL_OUTER = 26,
      VARYING_SLOT_BOUNDING_BOX1 = 29\<rparr>"

definition linked_variable ::
  "nir_variable_mode \<Rightarrow> nat \<Rightarrow> int \<Rightarrow> 2 word \<Rightarrow> bool \<Rightarrow> bool \<Rightarrow> nat nir_variable" where
  "linked_variable md ty loc frac ptch cmp =
     \<lparr>var_type = ty, mode = md, location = loc, location_frac = frac, patch = ptch,
      always_active_io = False, explicit_xfb_buffer = False, per_view = False,
      compact = cmp, driver_location = 0, interpolation = 0, sample = False,
      centroid = False\<rparr>"

text \<open>
  A tessellation control shader that writes a two-slot variable at slot 32, a one-slot
  variable at slot 34, the outer tessellation levels and the generic patch variable 1,
  and keeps a temporary; and a tessellation evaluation shader that reads the variable
  at slot 34, the generic patch variable 1, and a compact array of 7 components from
  component 1 of slot 17.
\<close>

definition linked_producer :: "nat nir_shader" where
  "linked_producer =
     \<lparr>variables =
        [linked_variable nir_var_shader_out 200 32 0 False False,
         linked_variable nir_var_shader_out 100 34 0 False False,
         linked_variable nir_var_shader_temp 1 35 0 False False,
         linked_variable nir_var_shader_out 1 26 0 True False,
         linked_variable nir_var_shader_out 1 65 0 True False],
      stage = MESA_SHADER_TESS_CTRL, shader_functions = []\<rparr>"

definition linked_consumer :: "nat nir_shader" where
  "linked_consumer =
     \<lparr>variables =
        [linked_variable nir_var_shader_in 100 34 0 False False,
         linked_variable nir_var_shader_in 1 65 0 True False,
         linked_variable nir_var_shader_in 700 17 1 False True],
      stage = MESA_SHADER_TESS_EVAL, shader_functions = []\<rparr>"

text \<open>
  The masks that \<^verbatim>\<open>nir_assign_linked_io_var_locations\<close> computes before it assigns:
  \<^verbatim>\<open>io_mask\<close>, and \<^verbatim>\<open>patch_io_mask\<close> for the patch variables.
\<close>

definition linked_io_mask ::
  "'ty nir_externals \<Rightarrow> 'ty nir_shader \<Rightarrow> 'ty nir_shader \<Rightarrow> bool \<Rightarrow> 64 word" where
  "linked_io_mask ext producer consumer ptch =
     (if ptch
      then snd (linked_io_masks ext producer nir_var_shader_out) OR
           snd (linked_io_masks ext consumer nir_var_shader_in)
      else fst (linked_io_masks ext producer nir_var_shader_out) OR
           fst (linked_io_masks ext consumer nir_var_shader_in))"

text \<open>
  The linked slot of a variable, in terms of the slot enumeration: the slot itself for
  a variable that is not per patch; among the patch variables the tessellation levels
  and the bounding boxes have the linked slots 0 to 3, and the generic patch variables
  follow from 4.
\<close>

definition linked_slot :: "'ty nir_externals \<Rightarrow> 'ty nir_variable \<Rightarrow> nat" where
  "linked_slot ext variable =
     (if \<not> patch variable then nat (location variable)
      else if int (VARYING_SLOT_PATCH0 ext) \<le> location variable
      then nat (location variable) - VARYING_SLOT_PATCH0 ext + 4
      else nat (location variable) - VARYING_SLOT_TESS_LEVEL_OUTER ext)"

text \<open>
  The type whose slots count: the element type of the array for a per-vertex variable.
\<close>

definition linked_type :: "'ty nir_externals \<Rightarrow> gl_shader_stage \<Rightarrow> 'ty nir_variable \<Rightarrow> 'ty" where
  "linked_type ext stg variable =
     (if nir_is_per_vertex_io ext variable stg
      then glsl_get_array_element ext (var_type variable)
      else var_type variable)"

text \<open>
  A variable occupies the slot \<open>k\<close> when \<open>k\<close> is one of the attribute slots of its type,
  counted from its linked slot; a compact variable occupies the slots, of four
  components each, up to the last component of its array, which starts at the component
  \<^verbatim>\<open>location_frac\<close> of the linked slot.
\<close>

definition occupies_linked_slot ::
  "'ty nir_externals \<Rightarrow> gl_shader_stage \<Rightarrow> 'ty nir_variable \<Rightarrow> nat \<Rightarrow> bool" where
  "occupies_linked_slot ext stg variable k \<longleftrightarrow>
     linked_slot ext variable \<le> k \<and>
     (if compact variable
      then 4 * (k - linked_slot ext variable) <
             unat (location_frac variable) + glsl_get_length ext (linked_type ext stg variable)
      else k - linked_slot ext variable <
             glsl_count_attribute_slots ext (linked_type ext stg variable))"

text \<open>
  The union of the slots that the producer writes and the consumer reads, for the patch
  variables (\<open>ptch\<close>) or for the others, and the number of its slots below a slot.
\<close>

definition writes_or_reads_slot ::
  "'ty nir_externals \<Rightarrow> 'ty nir_shader \<Rightarrow> 'ty nir_shader \<Rightarrow> bool \<Rightarrow> nat \<Rightarrow> bool" where
  "writes_or_reads_slot ext producer consumer ptch k \<longleftrightarrow>
     (\<exists>v \<in> set (variables producer). mode v = nir_var_shader_out \<and> patch v = ptch \<and>
        occupies_linked_slot ext (stage producer) v k) \<or>
     (\<exists>v \<in> set (variables consumer). mode v = nir_var_shader_in \<and> patch v = ptch \<and>
        occupies_linked_slot ext (stage consumer) v k)"

definition linked_slots_below ::
  "'ty nir_externals \<Rightarrow> 'ty nir_shader \<Rightarrow> 'ty nir_shader \<Rightarrow> bool \<Rightarrow> nat \<Rightarrow> nat" where
  "linked_slots_below ext producer consumer ptch s =
     length (filter (writes_or_reads_slot ext producer consumer ptch) [0..<s])"

text \<open>
  The variables on which the C code is defined: the location is one that
  \<^verbatim>\<open>get_linked_variable_location\<close> supports (its last branch is \<^verbatim>\<open>unreachable()\<close>),
  the linked slot is less than 64, so that the shift \<^verbatim>\<open>mask << loc\<close> is defined, and
  the variable has at most 64 slots, which \<^verbatim>\<open>u_bit_consecutive64\<close> requires. The values
  of the slot enumeration are those of a C \<^verbatim>\<open>int\<close>.
\<close>

definition linked_variable_supported ::
  "'ty nir_externals \<Rightarrow> gl_shader_stage \<Rightarrow> 'ty nir_variable \<Rightarrow> bool" where
  "linked_variable_supported ext stg variable \<longleftrightarrow>
     0 \<le> location variable \<and> location variable < 2 ^ 31 \<and>
     (patch variable \<longrightarrow>
        int (VARYING_SLOT_PATCH0 ext) \<le> location variable \<or>
        int (VARYING_SLOT_TESS_LEVEL_OUTER ext) \<le> location variable \<and>
        location variable \<le> int (VARYING_SLOT_BOUNDING_BOX1 ext)) \<and>
     linked_slot ext variable < 64 \<and>
     (if compact variable
      then unat (location_frac variable) + glsl_get_length ext (linked_type ext stg variable)
             \<le> 256
      else glsl_count_attribute_slots ext (linked_type ext stg variable) \<le> 64)"

definition linked_io_supported ::
  "'ty nir_externals \<Rightarrow> 'ty nir_shader \<Rightarrow> 'ty nir_shader \<Rightarrow> bool" where
  "linked_io_supported ext producer consumer \<longleftrightarrow>
     VARYING_SLOT_PATCH0 ext < 2 ^ 31 \<and>
     VARYING_SLOT_TESS_LEVEL_OUTER ext < 2 ^ 31 \<and>
     VARYING_SLOT_BOUNDING_BOX1 ext < 2 ^ 31 \<and>
     (\<forall>v \<in> set (variables producer).
        mode v = nir_var_shader_out \<longrightarrow> linked_variable_supported ext (stage producer) v) \<and>
     (\<forall>v \<in> set (variables consumer).
        mode v = nir_var_shader_in \<longrightarrow> linked_variable_supported ext (stage consumer) v)"
section \<open>Theorems\<close>

lemma all_less_4: "(\<forall>i < 4. P (i::nat)) \<longleftrightarrow> P 0 \<and> P 1 \<and> P 2 \<and> P 3"
proof -
  have "\<And>i::nat. i < 4 \<longleftrightarrow> i = 0 \<or> i = 1 \<or> i = 2 \<or> i = 3"
    by auto
  then show ?thesis by auto
qed

lemma compatible_sizes_from_0:
  "compatible_sizes_from s d 0 \<longleftrightarrow>
     (\<forall>i < 4. chan_size (nth4 (channel s) i) = chan_size (nth4 (channel d) i))"
proof -
  have 4: "compatible_sizes_from s d 4"
    by (subst compatible_sizes_from.simps) simp
  have 3: "compatible_sizes_from s d 3 \<longleftrightarrow>
      chan_size (nth4 (channel s) 3) = chan_size (nth4 (channel d) 3)"
    by (subst compatible_sizes_from.simps) (simp add: 4)
  have 2: "compatible_sizes_from s d 2 \<longleftrightarrow>
      chan_size (nth4 (channel s) 2) = chan_size (nth4 (channel d) 2) \<and>
      compatible_sizes_from s d 3"
    by (subst compatible_sizes_from.simps) simp
  have 1: "compatible_sizes_from s d 1 \<longleftrightarrow>
      chan_size (nth4 (channel s) 1) = chan_size (nth4 (channel d) 1) \<and>
      compatible_sizes_from s d 2"
    by (subst compatible_sizes_from.simps) (simp add: numeral_2_eq_2)
  have 0: "compatible_sizes_from s d 0 \<longleftrightarrow>
      chan_size (nth4 (channel s) 0) = chan_size (nth4 (channel d) 0) \<and>
      compatible_sizes_from s d 1"
    by (subst compatible_sizes_from.simps) simp
  show ?thesis
    unfolding all_less_4 0 1 2 3 by simp
qed

lemma compatible_swizzles_from_step:
  "c < 4 \<Longrightarrow> compatible_swizzles_from s d c \<longleftrightarrow>
     swizzle_matches_at s d c \<and> compatible_swizzles_from s d (c + 1)"
  by (subst compatible_swizzles_from.simps) (auto simp: swizzle_matches_at_def Let_def)

lemma compatible_swizzles_from_0:
  "compatible_swizzles_from s d 0 \<longleftrightarrow> (\<forall>i < 4. swizzle_matches_at s d i)"
proof -
  have 4: "compatible_swizzles_from s d 4"
    by (subst compatible_swizzles_from.simps) simp
  have 3: "compatible_swizzles_from s d 3 \<longleftrightarrow> swizzle_matches_at s d 3"
    using compatible_swizzles_from_step [of 3 s d] 4 by simp
  have 2: "compatible_swizzles_from s d 2 \<longleftrightarrow>
      swizzle_matches_at s d 2 \<and> compatible_swizzles_from s d 3"
    using compatible_swizzles_from_step [of 2 s d] by simp
  have 1: "compatible_swizzles_from s d 1 \<longleftrightarrow>
      swizzle_matches_at s d 1 \<and> compatible_swizzles_from s d 2"
    using compatible_swizzles_from_step [of 1 s d] by (simp add: numeral_2_eq_2)
  have 0: "compatible_swizzles_from s d 0 \<longleftrightarrow>
      swizzle_matches_at s d 0 \<and> compatible_swizzles_from s d 1"
    using compatible_swizzles_from_step [of 0 s d] by simp
  show ?thesis
    unfolding all_less_4 0 1 2 3 by simp
qed

text \<open>
  C1. \<^verbatim>\<open>util_is_format_compatible\<close> returns true exactly when the two identifiers are
  equal, or both layouts are plain, the block bit counts, the channel counts and the
  colorspaces are equal, the four channel sizes are pairwise equal, and for every index
  whose destination swizzle entry names a channel (0 to 3) the source swizzle entry is
  the same and the channel it names has the same type and the same normalized flag in
  the source and in the destination.
\<close>

theorem util_is_format_compatible_iff_spec:
  "util_is_format_compatible src_desc dst_desc \<longleftrightarrow> compatible_by_spec src_desc dst_desc"
  unfolding util_is_format_compatible_def compatible_by_spec_def
    compatible_sizes_from_0 compatible_swizzles_from_0 swizzle_matches_at_def
  by auto

theorem util_is_format_compatible_iff_spec_witness:
  "util_is_format_compatible b8g8r8a8_unorm b8g8r8x8_unorm \<and>
   format b8g8r8a8_unorm \<noteq> format b8g8r8x8_unorm \<and>
   nth4 (swizzle b8g8r8x8_unorm) 0 < 4 \<and>
   \<not> util_is_format_compatible b8g8r8x8_unorm b8g8r8a8_unorm"
proof -
  have a: "compatible_by_spec b8g8r8a8_unorm b8g8r8x8_unorm"
    by (simp add: compatible_by_spec_def all_less_4 b8g8r8a8_unorm_def b8g8r8x8_unorm_def
        PIPE_SWIZZLE_defs unorm8_channel_def void8_channel_def)
  have b: "\<not> compatible_by_spec b8g8r8x8_unorm b8g8r8a8_unorm"
    by (simp add: compatible_by_spec_def all_less_4 b8g8r8a8_unorm_def b8g8r8x8_unorm_def
        PIPE_SWIZZLE_defs unorm8_channel_def void8_channel_def)
  have c: "format b8g8r8a8_unorm \<noteq> format b8g8r8x8_unorm"
    "nth4 (swizzle b8g8r8x8_unorm) 0 < 4"
    by (simp_all add: b8g8r8a8_unorm_def b8g8r8x8_unorm_def PIPE_SWIZZLE_defs)
  from a b c
    util_is_format_compatible_iff_spec [of b8g8r8a8_unorm b8g8r8x8_unorm]
    util_is_format_compatible_iff_spec [of b8g8r8x8_unorm b8g8r8a8_unorm]
  show ?thesis by simp
qed

lemma nth4_upd4: "i < 4 \<Longrightarrow> j < 4 \<Longrightarrow> nth4 (upd4 a j v) i = (if i = j then v else nth4 a i)"
  by (cases a) auto

lemma pipe_swizzle_4f_from_nth4:
  "i < 4 \<Longrightarrow> nth4 (pipe_swizzle_4f_from dst src swz c) i =
     (if c \<le> i then
        (if nth4 swz i \<le> PIPE_SWIZZLE_W then nth4 src (unat (nth4 swz i))
         else if nth4 swz i = PIPE_SWIZZLE_0 then float_0
         else if nth4 swz i = PIPE_SWIZZLE_1 then float_1
         else nth4 dst i)
      else nth4 dst i)"
proof (induction dst src swz c rule: pipe_swizzle_4f_from.induct)
  case (1 dst src swz c)
  show ?case
  proof (cases "c < 4")
    case False
    with \<open>i < 4\<close> show ?thesis
      by (subst pipe_swizzle_4f_from.simps) simp
  next
    case True
    define dst' where "dst' =
          (if nth4 swz c \<le> PIPE_SWIZZLE_W then upd4 dst c (nth4 src (unat (nth4 swz c)))
           else if nth4 swz c = PIPE_SWIZZLE_0 then upd4 dst c float_0
           else if nth4 swz c = PIPE_SWIZZLE_1 then upd4 dst c float_1
           else dst)"
    have step: "pipe_swizzle_4f_from dst src swz c = pipe_swizzle_4f_from dst' src swz (c + 1)"
      using True by (subst pipe_swizzle_4f_from.simps) (simp add: dst'_def)
    note ih = "1.IH" [OF True "1.prems", folded dst'_def]
    have d: "nth4 dst' i =
        (if i = c then
          (if nth4 swz i \<le> PIPE_SWIZZLE_W then nth4 src (unat (nth4 swz i))
           else if nth4 swz i = PIPE_SWIZZLE_0 then float_0
           else if nth4 swz i = PIPE_SWIZZLE_1 then float_1
           else nth4 dst i)
         else nth4 dst i)"
      using True "1.prems" by (simp add: dst'_def nth4_upd4)
    have le: "c \<le> i \<longleftrightarrow> i = c \<or> c + 1 \<le> i" by auto
    show ?thesis
      unfolding step ih d le by auto
  qed
qed

lemma apply_color_swizzle_ui_from_nth4:
  "i < 4 \<Longrightarrow> nth4 (apply_color_swizzle_ui_from dst src swz c) i =
     (if c \<le> i then
        (if nth4 swz i = PIPE_SWIZZLE_X then nth4 src 0
         else if nth4 swz i = PIPE_SWIZZLE_Y then nth4 src 1
         else if nth4 swz i = PIPE_SWIZZLE_Z then nth4 src 2
         else if nth4 swz i = PIPE_SWIZZLE_W then nth4 src 3
         else if nth4 swz i = PIPE_SWIZZLE_1 then 1 else 0)
      else nth4 dst i)"
proof (induction dst src swz c rule: apply_color_swizzle_ui_from.induct)
  case (1 dst src swz c)
  show ?case
  proof (cases "c < 4")
    case False
    with \<open>i < 4\<close> show ?thesis
      by (subst apply_color_swizzle_ui_from.simps) simp
  next
    case True
    define dst' where "dst' =
          (if nth4 swz c = PIPE_SWIZZLE_X then upd4 dst c (nth4 src 0)
           else if nth4 swz c = PIPE_SWIZZLE_Y then upd4 dst c (nth4 src 1)
           else if nth4 swz c = PIPE_SWIZZLE_Z then upd4 dst c (nth4 src 2)
           else if nth4 swz c = PIPE_SWIZZLE_W then upd4 dst c (nth4 src 3)
           else upd4 dst c (if nth4 swz c = PIPE_SWIZZLE_1 then 1 else 0))"
    have step: "apply_color_swizzle_ui_from dst src swz c =
        apply_color_swizzle_ui_from dst' src swz (c + 1)"
      using True by (subst apply_color_swizzle_ui_from.simps) (simp add: dst'_def)
    note ih = "1.IH" [OF True "1.prems", folded dst'_def]
    have d: "nth4 dst' i =
        (if i = c then
          (if nth4 swz i = PIPE_SWIZZLE_X then nth4 src 0
           else if nth4 swz i = PIPE_SWIZZLE_Y then nth4 src 1
           else if nth4 swz i = PIPE_SWIZZLE_Z then nth4 src 2
           else if nth4 swz i = PIPE_SWIZZLE_W then nth4 src 3
           else if nth4 swz i = PIPE_SWIZZLE_1 then 1 else 0)
         else nth4 dst i)"
      using True "1.prems" by (simp add: dst'_def nth4_upd4)
    have le: "c \<le> i \<longleftrightarrow> i = c \<or> c + 1 \<le> i" by auto
    show ?thesis
      unfolding step ih d le by auto
  qed
qed

lemma apply_color_swizzle_f_from_nth4:
  "i < 4 \<Longrightarrow> nth4 (apply_color_swizzle_f_from dst src swz c) i =
     (if c \<le> i then
        (if nth4 swz i = PIPE_SWIZZLE_X then nth4 src 0
         else if nth4 swz i = PIPE_SWIZZLE_Y then nth4 src 1
         else if nth4 swz i = PIPE_SWIZZLE_Z then nth4 src 2
         else if nth4 swz i = PIPE_SWIZZLE_W then nth4 src 3
         else if nth4 swz i = PIPE_SWIZZLE_1 then float_1 else float_0)
      else nth4 dst i)"
proof (induction dst src swz c rule: apply_color_swizzle_f_from.induct)
  case (1 dst src swz c)
  show ?case
  proof (cases "c < 4")
    case False
    with \<open>i < 4\<close> show ?thesis
      by (subst apply_color_swizzle_f_from.simps) simp
  next
    case True
    define dst' where "dst' =
          (if nth4 swz c = PIPE_SWIZZLE_X then upd4 dst c (nth4 src 0)
           else if nth4 swz c = PIPE_SWIZZLE_Y then upd4 dst c (nth4 src 1)
           else if nth4 swz c = PIPE_SWIZZLE_Z then upd4 dst c (nth4 src 2)
           else if nth4 swz c = PIPE_SWIZZLE_W then upd4 dst c (nth4 src 3)
           else upd4 dst c (if nth4 swz c = PIPE_SWIZZLE_1 then float_1 else float_0))"
    have step: "apply_color_swizzle_f_from dst src swz c =
        apply_color_swizzle_f_from dst' src swz (c + 1)"
      using True by (subst apply_color_swizzle_f_from.simps) (simp add: dst'_def)
    note ih = "1.IH" [OF True "1.prems", folded dst'_def]
    have d: "nth4 dst' i =
        (if i = c then
          (if nth4 swz i = PIPE_SWIZZLE_X then nth4 src 0
           else if nth4 swz i = PIPE_SWIZZLE_Y then nth4 src 1
           else if nth4 swz i = PIPE_SWIZZLE_Z then nth4 src 2
           else if nth4 swz i = PIPE_SWIZZLE_W then nth4 src 3
           else if nth4 swz i = PIPE_SWIZZLE_1 then float_1 else float_0)
         else nth4 dst i)"
      using True "1.prems" by (simp add: dst'_def nth4_upd4)
    have le: "c \<le> i \<longleftrightarrow> i = c \<or> c + 1 \<le> i" by auto
    show ?thesis
      unfolding step ih d le by auto
  qed
qed

text \<open>
  C10. \<^verbatim>\<open>pipe_swizzle_4f\<close> leaves component \<open>i\<close> of the destination as it was when
  \<open>swz[i]\<close> is neither a channel (0 to 3) nor the constant 0 or 1, whereas
  \<^verbatim>\<open>util_format_apply_color_swizzle\<close> writes 0 (or 0.0) for every entry that is neither
  a channel nor the constant 1. So for an entry NONE the output of \<^verbatim>\<open>pipe_swizzle_4f\<close>
  is the prior content of the destination, and the two operations disagree at that
  component whenever that content is not the zero word.
\<close>

theorem pipe_swizzle_4f_keeps_none:
  "(i < 4 \<and> \<not> nth4 swz i \<le> PIPE_SWIZZLE_W \<and> nth4 swz i \<noteq> PIPE_SWIZZLE_0 \<and>
      nth4 swz i \<noteq> PIPE_SWIZZLE_1 \<longrightarrow>
      nth4 (pipe_swizzle_4f dst src swz) i = nth4 dst i) \<and>
   (i < 4 \<and> \<not> nth4 swz i \<le> PIPE_SWIZZLE_W \<and> nth4 swz i \<noteq> PIPE_SWIZZLE_1 \<longrightarrow>
      nth4 (util_format_apply_color_swizzle dst src swz is_integer) i = 0) \<and>
   (i < 4 \<and> nth4 swz i = PIPE_SWIZZLE_NONE \<and> nth4 dst i \<noteq> 0 \<longrightarrow>
      nth4 (pipe_swizzle_4f dst src swz) i \<noteq>
      nth4 (util_format_apply_color_swizzle dst src swz is_integer) i) \<and>
   (i < 4 \<and> nth4 swz i = PIPE_SWIZZLE_NONE \<and> nth4 dst i \<noteq> nth4 dst' i \<longrightarrow>
      pipe_swizzle_4f dst src swz \<noteq> pipe_swizzle_4f dst' src swz)"
proof -
  have p: "i < 4 \<Longrightarrow> \<not> nth4 swz i \<le> PIPE_SWIZZLE_W \<Longrightarrow> nth4 swz i \<noteq> PIPE_SWIZZLE_0 \<Longrightarrow>
      nth4 swz i \<noteq> PIPE_SWIZZLE_1 \<Longrightarrow> nth4 (pipe_swizzle_4f d src swz) i = nth4 d i" for d
    by (simp add: pipe_swizzle_4f_def pipe_swizzle_4f_from_nth4)
  have a: "i < 4 \<Longrightarrow> \<not> nth4 swz i \<le> PIPE_SWIZZLE_W \<Longrightarrow> nth4 swz i \<noteq> PIPE_SWIZZLE_1 \<Longrightarrow>
      nth4 (util_format_apply_color_swizzle dst src swz is_integer) i = 0"
    by (auto simp: util_format_apply_color_swizzle_def apply_color_swizzle_ui_from_nth4
        apply_color_swizzle_f_from_nth4 float_0_def PIPE_SWIZZLE_defs)
  have n: "\<not> PIPE_SWIZZLE_NONE \<le> PIPE_SWIZZLE_W" "PIPE_SWIZZLE_NONE \<noteq> PIPE_SWIZZLE_0"
    "PIPE_SWIZZLE_NONE \<noteq> PIPE_SWIZZLE_1"
    by (simp_all add: PIPE_SWIZZLE_defs)
  show ?thesis
    using p [of dst] p [of dst'] a n by metis
qed

theorem pipe_swizzle_4f_keeps_none_witness:
  "nth4 (pipe_swizzle_4f (Array4 7 7 7 7) (Array4 1 2 3 4)
      (Array4 PIPE_SWIZZLE_X PIPE_SWIZZLE_NONE PIPE_SWIZZLE_0 PIPE_SWIZZLE_1)) 1 = 7 \<and>
   nth4 (util_format_apply_color_swizzle (Array4 7 7 7 7) (Array4 1 2 3 4)
      (Array4 PIPE_SWIZZLE_X PIPE_SWIZZLE_NONE PIPE_SWIZZLE_0 PIPE_SWIZZLE_1) False) 1 = 0 \<and>
   pipe_swizzle_4f (Array4 7 7 7 7) (Array4 1 2 3 4)
      (Array4 PIPE_SWIZZLE_X PIPE_SWIZZLE_NONE PIPE_SWIZZLE_0 PIPE_SWIZZLE_1) \<noteq>
   pipe_swizzle_4f (Array4 7 8 7 7) (Array4 1 2 3 4)
      (Array4 PIPE_SWIZZLE_X PIPE_SWIZZLE_NONE PIPE_SWIZZLE_0 PIPE_SWIZZLE_1)"
  using pipe_swizzle_4f_keeps_none [of 1
      "Array4 PIPE_SWIZZLE_X PIPE_SWIZZLE_NONE PIPE_SWIZZLE_0 PIPE_SWIZZLE_1"
      "Array4 7 7 7 7" "Array4 1 2 3 4" False "Array4 7 8 7 7"]
  by (simp add: PIPE_SWIZZLE_defs)

lemma unat_mask_64: "n < 64 \<Longrightarrow> unat ((2 :: 64 word) ^ n - 1) = 2 ^ n - 1"
proof -
  assume n: "n < 64"
  have "(2 :: nat) ^ n < 2 ^ 64"
    using n by (rule power_strict_increasing) simp
  then have u: "unat ((2 :: 64 word) ^ n) = 2 ^ n"
    using unat_of_nat [where 'a = 64, of "2 ^ n"] by simp
  then have "(2 :: 64 word) ^ n \<noteq> 0"
    by (metis power_not_zero unat_0 zero_neq_numeral)
  then show ?thesis
    by (simp add: unat_minus_one u)
qed

text \<open>
  C9. When the channel selected by swizzle entry 0 is unsigned and normalized and has
  \<open>n\<close> bits (\<open>n < 64\<close>, so that the shift is defined),
  \<^verbatim>\<open>util_get_depth_format_mrd\<close> returns 1 / (2^n - 1), the quotient being the
  \<^verbatim>\<open>double\<close> division \<open>one_over\<close>; for any other channel it returns the default
  1 / (2^24 - 1).
\<close>

theorem util_get_depth_format_mrd_value:
  "(chan_type (nth4 (channel desc) (unat (nth4 (swizzle desc) 0))) = UTIL_FORMAT_TYPE_UNSIGNED \<and>
    normalized (nth4 (channel desc) (unat (nth4 (swizzle desc) 0))) \<and>
    unat (chan_size (nth4 (channel desc) (unat (nth4 (swizzle desc) 0)))) = n \<and> n < 64 \<longrightarrow>
      util_get_depth_format_mrd one_over desc = one_over (2 ^ n - 1)) \<and>
   (\<not> (chan_type (nth4 (channel desc) (unat (nth4 (swizzle desc) 0))) = UTIL_FORMAT_TYPE_UNSIGNED \<and>
       normalized (nth4 (channel desc) (unat (nth4 (swizzle desc) 0)))) \<longrightarrow>
      util_get_depth_format_mrd one_over desc = one_over (2 ^ 24 - 1))"
  by (auto simp: util_get_depth_format_mrd_def Let_def unat_mask_64)

theorem util_get_depth_format_mrd_value_witness:
  "util_get_depth_format_mrd (Pair (1 :: nat)) (depth_desc UTIL_FORMAT_TYPE_UNSIGNED True 24) =
     (1, 2 ^ 24 - 1) \<and>
   util_get_depth_format_mrd (Pair (1 :: nat)) (depth_desc UTIL_FORMAT_TYPE_UNSIGNED True 8) =
     (1, 2 ^ 8 - 1) \<and>
   util_get_depth_format_mrd (Pair (1 :: nat)) (depth_desc UTIL_FORMAT_TYPE_UNSIGNED True 16) =
     (1, 2 ^ 16 - 1) \<and>
   util_get_depth_format_mrd (Pair (1 :: nat)) (depth_desc UTIL_FORMAT_TYPE_FLOAT False 32) =
     (1, 2 ^ 24 - 1)"
  using util_get_depth_format_mrd_value
      [of "depth_desc UTIL_FORMAT_TYPE_UNSIGNED True 24" 24 "Pair (1 :: nat)"]
    util_get_depth_format_mrd_value
      [of "depth_desc UTIL_FORMAT_TYPE_UNSIGNED True 8" 8 "Pair (1 :: nat)"]
    util_get_depth_format_mrd_value
      [of "depth_desc UTIL_FORMAT_TYPE_UNSIGNED True 16" 16 "Pair (1 :: nat)"]
    util_get_depth_format_mrd_value
      [of "depth_desc UTIL_FORMAT_TYPE_FLOAT False 32" 0 "Pair (1 :: nat)"]
  by (simp add: depth_desc_def PIPE_SWIZZLE_defs)



text \<open>
  C4. For a pair of formats that is not compatible, where neither colorspace is
  depth/stencil and neither format fits 8-bit unorm, and exactly one of the two formats
  is pure signed integer, \<^verbatim>\<open>util_format_translate\<close> returns failure and leaves the
  machine as it was: when the asserted preconditions hold the result is \<^verbatim>\<open>FALSE\<close>, and
  no run returns anything else.
\<close>

theorem translate_sint_mismatch_fails:
  assumes "\<not> util_is_format_compatible (description_table env src_format)
              (description_table env dst_format)"
    and "colorspace (description_table env src_format) \<noteq> UTIL_FORMAT_COLORSPACE_ZS"
    and "colorspace (description_table env dst_format) \<noteq> UTIL_FORMAT_COLORSPACE_ZS"
    and "\<not> util_format_fits_8unorm (description_table env src_format)"
    and "\<not> util_format_fits_8unorm (description_table env dst_format)"
    and "util_format_is_pure_sint (description_table env) src_format \<noteq>
         util_format_is_pure_sint (description_table env) dst_format"
  shows "(translate_preconditions (description_table env) dst_format dst_x dst_y
            src_format src_x src_y \<longrightarrow>
          util_format_translate env dst_format dst dst_stride dst_x dst_y
            src_format src src_stride src_x src_y width height s = Inr (False, s)) \<and>
         (\<forall>b s'. util_format_translate env dst_format dst dst_stride dst_x dst_y
            src_format src src_stride src_x src_y width height s = Inr (b, s') \<longrightarrow>
            \<not> b \<and> s' = s)"
  using assms
  by (auto simp: util_format_translate_def translate_preconditions_def Let_def
      split: if_splits)


lemma fits_8unorm_plain_first:
  "0 < unat (nr_channels d) \<Longrightarrow>
   chan_type (nth4 (channel d) 0) \<noteq> UTIL_FORMAT_TYPE_VOID \<Longrightarrow>
   chan_type (nth4 (channel d) 0) \<noteq> UTIL_FORMAT_TYPE_UNSIGNED \<Longrightarrow>
   \<not> fits_8unorm_plain_from d 0"
  by (subst fits_8unorm_plain_from.simps) simp

lemma example_sint_float:
  "\<not> util_is_format_compatible (example_table (PIPE_FORMAT_other 3))
       (example_table (PIPE_FORMAT_other 4))"
  "\<not> util_format_fits_8unorm (example_table (PIPE_FORMAT_other 3))"
  "\<not> util_format_fits_8unorm (example_table (PIPE_FORMAT_other 4))"
  "util_format_is_pure_sint example_table (PIPE_FORMAT_other 3)"
  "\<not> util_format_is_pure_sint example_table (PIPE_FORMAT_other 4)"
  "translate_preconditions example_table (PIPE_FORMAT_other 4) 0 0 (PIPE_FORMAT_other 3) 0 0"
proof -
  show "\<not> util_is_format_compatible (example_table (PIPE_FORMAT_other 3))
       (example_table (PIPE_FORMAT_other 4))"
    by (simp add: util_is_format_compatible_def compatible_sizes_from_0
        compatible_swizzles_from_0 all_less_4 swizzle_matches_at_def r32_desc_def
        PIPE_SWIZZLE_defs)
  show "\<not> util_format_fits_8unorm (example_table (PIPE_FORMAT_other 3))"
    by (simp add: util_format_fits_8unorm_def r32_desc_def fits_8unorm_plain_first)
  show "\<not> util_format_fits_8unorm (example_table (PIPE_FORMAT_other 4))"
    by (simp add: util_format_fits_8unorm_def r32_desc_def fits_8unorm_plain_first)
  show "util_format_is_pure_sint example_table (PIPE_FORMAT_other 3)"
    by (simp add: util_format_is_pure_sint_def util_format_get_first_non_void_channel_def
        r32_desc_def)
  show "\<not> util_format_is_pure_sint example_table (PIPE_FORMAT_other 4)"
    by (simp add: util_format_is_pure_sint_def util_format_get_first_non_void_channel_def
        r32_desc_def)
  show "translate_preconditions example_table (PIPE_FORMAT_other 4) 0 0 (PIPE_FORMAT_other 3) 0 0"
    by (simp add: translate_preconditions_def r32_desc_def)
qed

theorem translate_sint_mismatch_fails_witness:
  "util_format_translate full_environment (PIPE_FORMAT_other 4) 0 4 0 0
     (PIPE_FORMAT_other 3) 100 4 0 0 1 1 zero_machine = Inr (False, zero_machine) \<and>
   util_format_is_pure_sint example_table (PIPE_FORMAT_other 3) \<and>
   \<not> util_format_is_pure_sint example_table (PIPE_FORMAT_other 4)"
proof -
  have t: "description_table full_environment = example_table"
    by (simp add: full_environment_def)
  have c: "colorspace (example_table (PIPE_FORMAT_other 3)) \<noteq> UTIL_FORMAT_COLORSPACE_ZS"
    "colorspace (example_table (PIPE_FORMAT_other 4)) \<noteq> UTIL_FORMAT_COLORSPACE_ZS"
    by (simp_all add: r32_desc_def)
  show ?thesis
    using translate_sint_mismatch_fails [of full_environment "PIPE_FORMAT_other 3"
        "PIPE_FORMAT_other 4" 0 0 0 0 0 4 100 4 1 1 zero_machine]
      example_sint_float c
    unfolding t by simp
qed














lemma remove_unused_io_vars_loop_snd:
  "snd (remove_unused_io_vars_loop ext stg md used used_patches progress vars) =
     map (\<lambda>var. if mode var = md then snd (remove_unused_io_var ext stg used used_patches var)
                 else var) vars"
  by (induction vars arbitrary: progress) (simp_all add: case_prod_beta)

lemma nir_remove_unused_io_vars_variables:
  "variables (snd (nir_remove_unused_io_vars ext shader md used used_patches)) =
     map (\<lambda>var. if mode var = md
                 then snd (remove_unused_io_var ext (stage shader) used used_patches var)
                 else var) (variables shader)"
  using remove_unused_io_vars_loop_snd
    [of ext "stage shader" md used used_patches False "variables shader"]
  by (simp add: nir_remove_unused_io_vars_def Let_def case_prod_beta)

text \<open>
  C5. After \<^verbatim>\<open>nir_remove_unused_io_vars\<close> has run on a shader for a mode with given
  used masks, every variable of that mode that is not a built-in (its location is
  negative or at least \<^verbatim>\<open>VARYING_SLOT_VAR0\<close>), not always active, not bound to an explicit
  transform feedback buffer, and whose slot mask does not meet the used mask at its
  component offset has the mode \<^verbatim>\<open>nir_var_shader_temp\<close> and the location 0. In
  particular such an output is demoted by a pass whose used masks are all zero.
\<close>

theorem nir_remove_unused_io_vars_demotes:
  assumes "k < length (variables shader)"
    and "mode (variables shader ! k) = md"
    and "\<not> (location (variables shader ! k) < int (VARYING_SLOT_VAR0 ext) \<and>
            location (variables shader ! k) \<ge> 0)"
    and "\<not> always_active_io (variables shader ! k)"
    and "\<not> explicit_xfb_buffer (variables shader ! k)"
  shows "(nth4 (if patch (variables shader ! k) then used_patches else used)
            (unat (location_frac (variables shader ! k))) AND
          get_variable_io_mask ext (variables shader ! k) (stage shader) = 0 \<longrightarrow>
          mode (variables (snd (nir_remove_unused_io_vars ext shader md used used_patches)) ! k) =
            nir_var_shader_temp \<and>
          location (variables (snd (nir_remove_unused_io_vars ext shader md used used_patches)) ! k) =
            0) \<and>
         mode (variables (snd (nir_remove_unused_io_vars ext shader md
            (Array4 0 0 0 0) (Array4 0 0 0 0))) ! k) = nir_var_shader_temp \<and>
         location (variables (snd (nir_remove_unused_io_vars ext shader md
            (Array4 0 0 0 0) (Array4 0 0 0 0))) ! k) = 0"
proof -
  have z: "nth4 (Array4 0 0 0 0 :: 64 word array4) i = 0" if "i < 4" for i
    using that by auto
  have "unat (location_frac (variables shader ! k)) < 4"
    using unsigned_less [of "location_frac (variables shader ! k)", where 'a = nat] by simp
  note z' = z [OF this]
  show ?thesis
    using assms
    by (auto simp: nir_remove_unused_io_vars_variables remove_unused_io_var_def Let_def z'
        simp del: nth4.simps)
qed

theorem nir_remove_unused_io_vars_demotes_witness:
  "mode (variables (snd (nir_remove_unused_io_vars example_externals
      (example_producer MESA_SHADER_VERTEX 37 []) nir_var_shader_out
      (Array4 0 0 0 0) (Array4 0 0 0 0))) ! 0) = nir_var_shader_temp \<and>
   location (variables (snd (nir_remove_unused_io_vars example_externals
      (example_producer MESA_SHADER_VERTEX 37 []) nir_var_shader_out
      (Array4 0 0 0 0) (Array4 0 0 0 0))) ! 0) = 0 \<and>
   location (variables (example_producer MESA_SHADER_VERTEX 37 []) ! 0) = 37"
  using nir_remove_unused_io_vars_demotes [of 0 "example_producer MESA_SHADER_VERTEX 37 []"
      nir_var_shader_out example_externals "Array4 0 0 0 0" "Array4 0 0 0 0"]
  by (simp add: example_producer_def example_variable_def example_externals_def)

lemma or_components_nth4:
  "idx < 4 \<Longrightarrow> frac + n \<le> 4 \<Longrightarrow>
   nth4 (or_components arr frac msk n i) idx =
     (if frac + i \<le> idx \<and> idx < frac + n then nth4 arr idx OR msk else nth4 arr idx)"
proof (induction arr frac msk n i rule: or_components.induct)
  case (1 arr frac msk n i)
  show ?case
  proof (cases "i < n")
    case False
    then show ?thesis
      by (subst or_components.simps) auto
  next
    case True
    define arr' where "arr' = upd4 arr (frac + i) (nth4 arr (frac + i) OR msk)"
    have step: "or_components arr frac msk n i = or_components arr' frac msk n (i + 1)"
      using True by (subst or_components.simps) (simp add: arr'_def)
    note ih = "1.IH" [OF True "1.prems", folded arr'_def]
    have in4: "frac + i < 4"
      using True "1.prems" by simp
    have d: "nth4 arr' idx = (if idx = frac + i then nth4 arr idx OR msk else nth4 arr idx)"
      using in4 "1.prems" by (simp add: arr'_def nth4_upd4)
    show ?thesis
      unfolding step ih d using True by auto
  qed
qed

lemma word_and_or_keep:
  assumes "(a :: 64 word) AND x = x"
  shows "(a OR b) AND x = x"
proof (rule bit_eqI)
  fix n
  have "bit x n \<Longrightarrow> bit a n"
    using assms by (metis bit_and_iff)
  then show "bit ((a OR b) AND x) n \<longleftrightarrow> bit x n"
    by (auto simp: bit_and_iff bit_or_iff)
qed

lemma word_or_and_self: "((a :: 64 word) OR x) AND x = x"
  by (rule bit_eqI) (auto simp: bit_and_iff bit_or_iff)

lemma add_variable_mask_keeps:
  assumes "components_fit ext v" and "idx < 4"
    and "nth4 (if p then snd acc else fst acc) idx AND x = x"
  shows "nth4 (if p then snd (add_variable_mask ext stg v acc)
               else fst (add_variable_mask ext stg v acc)) idx AND x = x"
  using assms
  by (cases acc)
     (auto simp: add_variable_mask_def components_fit_def or_components_nth4 word_and_or_keep)

lemma add_variable_mask_sets:
  assumes "components_fit ext v" and "1 \<le> get_num_components ext v"
  shows "nth4 (if patch v then snd (add_variable_mask ext stg v acc)
               else fst (add_variable_mask ext stg v acc)) (unat (location_frac v)) AND
           get_variable_io_mask ext v stg = get_variable_io_mask ext v stg"
proof -
  have "unat (location_frac v) < 4"
    using assms by (simp add: components_fit_def)
  then show ?thesis
    using assms
    by (cases acc)
       (auto simp: add_variable_mask_def components_fit_def or_components_nth4 word_or_and_self)
qed

lemma well_formed_instr_fits:
  assumes "shader_well_formed ext shader"
    and "nir_instr_type_intrinsic intrinsic deref \<in> set (shader_instrs shader)"
  shows "components_fit ext (variables shader ! deref_var deref)"
proof -
  have "deref_var deref < length (variables shader)"
    using assms by (fastforce simp: shader_well_formed_def)
  then have "variables shader ! deref_var deref \<in> set (variables shader)"
    by simp
  then show ?thesis
    using assms(1) by (simp add: shader_well_formed_def)
qed

lemma tcs_add_output_reads_instr_keeps:
  assumes "shader_well_formed ext shader" and "instr \<in> set (shader_instrs shader)"
    and "idx < 4" and "nth4 (if p then snd acc else fst acc) idx AND x = x"
  shows "nth4 (if p then snd (tcs_add_output_reads_instr ext shader instr acc)
               else fst (tcs_add_output_reads_instr ext shader instr acc)) idx AND x = x"
proof (cases instr)
  case nir_instr_type_other
  with assms(4) show ?thesis
    by (cases p) (simp_all add: tcs_add_output_reads_instr_def)
next
  case (nir_instr_type_intrinsic intrinsic deref)
  then have "components_fit ext (variables shader ! deref_var deref)"
    using well_formed_instr_fits assms(1,2) by blast
  from add_variable_mask_keeps [OF this assms(3,4)] assms(4) show ?thesis
    unfolding nir_instr_type_intrinsic tcs_add_output_reads_instr_def
    by (cases p) simp_all
qed

lemma fold_tcs_keeps:
  assumes "shader_well_formed ext shader" and "set instrs \<subseteq> set (shader_instrs shader)"
    and "idx < 4" and "nth4 (if p then snd acc else fst acc) idx AND x = x"
  shows "nth4 (if p then snd (fold (tcs_add_output_reads_instr ext shader) instrs acc)
               else fst (fold (tcs_add_output_reads_instr ext shader) instrs acc)) idx AND x = x"
  using assms(2,4)
proof (induction instrs arbitrary: acc)
  case Nil
  then show ?case by (cases p) simp_all
next
  case (Cons instr instrs)
  have "instr \<in> set (shader_instrs shader)"
    using Cons.prems(1) by simp
  note a = tcs_add_output_reads_instr_keeps [OF assms(1) this assms(3) Cons.prems(2)]
  have b: "set instrs \<subseteq> set (shader_instrs shader)"
    using Cons.prems(1) by simp
  have c: "fold (tcs_add_output_reads_instr ext shader) (instr # instrs) acc =
      fold (tcs_add_output_reads_instr ext shader) instrs
        (tcs_add_output_reads_instr ext shader instr acc)"
    by simp
  show ?case
    unfolding c by (rule Cons.IH [OF b a])
qed

lemma tcs_add_output_reads_instr_load:
  "deref_mode deref = nir_var_shader_out \<Longrightarrow>
   tcs_add_output_reads_instr ext shader
     (nir_instr_type_intrinsic nir_intrinsic_load_deref deref) acc =
   add_variable_mask ext (stage shader) (variables shader ! deref_var deref) acc"
  by (simp add: tcs_add_output_reads_instr_def)

lemma fold_tcs_sets:
  assumes "shader_well_formed ext shader" and "set instrs \<subseteq> set (shader_instrs shader)"
    and "nir_instr_type_intrinsic nir_intrinsic_load_deref deref \<in> set instrs"
    and "deref_mode deref = nir_var_shader_out"
    and "1 \<le> get_num_components ext (variables shader ! deref_var deref)"
  shows "nth4 (if patch (variables shader ! deref_var deref)
               then snd (fold (tcs_add_output_reads_instr ext shader) instrs acc)
               else fst (fold (tcs_add_output_reads_instr ext shader) instrs acc))
              (unat (location_frac (variables shader ! deref_var deref))) AND
           get_variable_io_mask ext (variables shader ! deref_var deref) (stage shader) =
         get_variable_io_mask ext (variables shader ! deref_var deref) (stage shader)"
  using assms(2,3)
proof (induction instrs arbitrary: acc)
  case Nil
  then show ?case by simp
next
  case (Cons instr instrs)
  let ?v = "variables shader ! deref_var deref"
  have b: "set instrs \<subseteq> set (shader_instrs shader)"
    using Cons.prems(1) by simp
  have c: "fold (tcs_add_output_reads_instr ext shader) (instr # instrs) acc =
      fold (tcs_add_output_reads_instr ext shader) instrs
        (tcs_add_output_reads_instr ext shader instr acc)"
    by simp
  have fit: "components_fit ext ?v"
    using well_formed_instr_fits [OF assms(1)] Cons.prems by auto
  then have lt: "unat (location_frac ?v) < 4"
    using assms(5) by (simp add: components_fit_def)
  show ?case
  proof (cases "instr = nir_instr_type_intrinsic nir_intrinsic_load_deref deref")
    case True
    have e: "nth4 (if patch ?v then snd (tcs_add_output_reads_instr ext shader instr acc)
                else fst (tcs_add_output_reads_instr ext shader instr acc))
            (unat (location_frac ?v)) AND get_variable_io_mask ext ?v (stage shader) =
          get_variable_io_mask ext ?v (stage shader)"
      using add_variable_mask_sets [OF fit assms(5), of "stage shader" acc]
      unfolding True tcs_add_output_reads_instr_load [OF assms(4)] .
    show ?thesis
      unfolding c by (rule fold_tcs_keeps [OF assms(1) b lt e])
  next
    case False
    then have m: "nir_instr_type_intrinsic nir_intrinsic_load_deref deref \<in> set instrs"
      using Cons.prems(2) by auto
    show ?thesis
      unfolding c by (rule Cons.IH [OF b m])
  qed
qed

lemma fold_concat_eq: "fold f (concat xss) acc = fold (fold f) xss acc"
  by (induction xss arbitrary: acc) simp_all

lemma tcs_add_output_reads_fold:
  "tcs_add_output_reads ext shader acc =
     fold (tcs_add_output_reads_instr ext shader) (shader_instrs shader) acc"
proof -
  have "fold (\<lambda>func acc. case impl func of None \<Rightarrow> acc
            | Some blocks \<Rightarrow>
                fold (\<lambda>block acc. fold (tcs_add_output_reads_instr ext shader) block acc)
                     blocks acc) fs acc =
        fold (tcs_add_output_reads_instr ext shader)
          (concat (map (\<lambda>func. case impl func of None \<Rightarrow> [] | Some blocks \<Rightarrow> concat blocks) fs))
          acc" for fs
  proof (induction fs arbitrary: acc)
    case Nil
    then show ?case by simp
  next
    case (Cons f fs)
    show ?case
    proof (cases "impl f")
      case None
      then show ?thesis using Cons.IH by simp
    next
      case (Some blocks)
      have "fold (\<lambda>block acc. fold (tcs_add_output_reads_instr ext shader) block acc) blocks acc =
          fold (tcs_add_output_reads_instr ext shader) (concat blocks) acc"
        by (simp add: fold_concat_eq)
      then show ?thesis using Cons.IH Some by simp
    qed
  qed
  then show ?thesis
    by (simp add: tcs_add_output_reads_def shader_instrs_def)
qed

text \<open>
  C6. When the producer is a tessellation control shader,
  \<^verbatim>\<open>nir_remove_unused_varyings\<close> adds to the read masks the slot mask of every output
  that a \<^verbatim>\<open>load_deref\<close> of the producer reads, before the removal pass. So an output that
  the same stage reads, that has at least one component and whose slot mask is not
  empty (its location is assigned), is left as it was by the removal, whatever the
  consumer reads.
\<close>

theorem tcs_read_output_survives:
  assumes "stage producer = MESA_SHADER_TESS_CTRL"
    and "shader_well_formed ext producer"
    and "k < length (variables producer)"
    and "mode (variables producer ! k) = nir_var_shader_out"
    and "output_is_read producer k"
    and "get_variable_io_mask ext (variables producer ! k) (stage producer) \<noteq> 0"
    and "1 \<le> get_num_components ext (variables producer ! k)"
  shows "variables (fst (snd (nir_remove_unused_varyings ext producer consumer))) ! k =
         variables producer ! k"
proof -
  let ?v = "variables producer ! k"
  define acc0 where "acc0 =
    fold (\<lambda>var acc. if mode var = nir_var_shader_in
                     then add_variable_mask ext (stage consumer) var acc else acc)
         (variables consumer) (Array4 0 0 0 0, Array4 0 0 0 0)"
  define acc1 where "acc1 = tcs_add_output_reads ext producer acc0"
  obtain instr where i: "instr \<in> set (shader_instrs producer)"
      "case instr of nir_instr_type_other \<Rightarrow> False
       | nir_instr_type_intrinsic intrinsic deref \<Rightarrow>
           intrinsic = nir_intrinsic_load_deref \<and> deref_mode deref = nir_var_shader_out \<and>
           deref_var deref = k"
    using assms(5) unfolding output_is_read_def by blast
  from i(2) obtain deref where e:
      "instr = nir_instr_type_intrinsic nir_intrinsic_load_deref deref"
      "deref_mode deref = nir_var_shader_out" "deref_var deref = k"
    by (cases instr) auto
  have d: "nir_instr_type_intrinsic nir_intrinsic_load_deref deref
        \<in> set (shader_instrs producer)"
      "deref_mode deref = nir_var_shader_out" "deref_var deref = k"
    using i(1) e by simp_all
  have held: "nth4 (if patch ?v then snd acc1 else fst acc1) (unat (location_frac ?v)) AND
      get_variable_io_mask ext ?v (stage producer) = get_variable_io_mask ext ?v (stage producer)"
    using fold_tcs_sets [OF assms(2) subset_refl d(1,2), of acc0] assms(7)
    unfolding d(3) acc1_def tcs_add_output_reads_fold by simp
  have keep: "snd (remove_unused_io_var ext (stage producer) (fst acc1) (snd acc1) ?v) = ?v"
  proof (cases "patch ?v")
    case True
    with held assms(6) show ?thesis
      by (simp add: remove_unused_io_var_def Let_def)
  next
    case False
    with held assms(6) show ?thesis
      by (simp add: remove_unused_io_var_def Let_def)
  qed
  have "fst (snd (nir_remove_unused_varyings ext producer consumer)) =
      snd (nir_remove_unused_io_vars ext producer nir_var_shader_out (fst acc1) (snd acc1))"
    using assms(1)
    by (simp add: nir_remove_unused_varyings_def Let_def case_prod_beta acc1_def acc0_def)
  then show ?thesis
    using assms(3,4) keep by (simp add: nir_remove_unused_io_vars_variables)
qed

lemma or_components_one:
  "or_components arr frac msk (Suc 0) 0 = upd4 arr frac (nth4 arr frac OR msk)"
  by (subst or_components.simps, subst or_components.simps) simp

lemma example_tcs_facts:
  "stage (example_producer stg loc body) = stg"
  "length (variables (example_producer stg loc body)) = 1"
  "variables (example_producer stg loc body) ! 0 = example_variable nir_var_shader_out loc 0"
  "variables (example_producer stg loc body) = [example_variable nir_var_shader_out loc 0]"
  "shader_instrs (example_producer stg loc body) = body"
  "get_num_components example_externals (example_variable nir_var_shader_out loc 0) = 1"
  "patch (example_variable md loc frac) = False"
  "location_frac (example_variable md loc frac) = frac"
  "mode (example_variable md loc frac) = md"
  by (simp_all add: example_producer_def shader_instrs_def get_num_components_def
      example_externals_def example_variable_def)

lemma example_tcs_read:
  "output_is_read (example_producer MESA_SHADER_TESS_CTRL loc [load_output 0]) 0"
  "shader_well_formed example_externals
     (example_producer MESA_SHADER_TESS_CTRL loc [load_output 0])"
  unfolding output_is_read_def shader_well_formed_def example_tcs_facts(5)
  by (simp_all add: load_output_def components_fit_def example_producer_def
      get_num_components_def example_externals_def example_variable_def)

theorem tcs_read_output_counterexample:
  "stage (example_producer MESA_SHADER_TESS_CTRL (- 1) [load_output 0]) = MESA_SHADER_TESS_CTRL \<and>
   mode (variables (example_producer MESA_SHADER_TESS_CTRL (- 1) [load_output 0]) ! 0) =
     nir_var_shader_out \<and>
   output_is_read (example_producer MESA_SHADER_TESS_CTRL (- 1) [load_output 0]) 0 \<and>
   mode (variables (fst (snd (nir_remove_unused_varyings example_externals
           (example_producer MESA_SHADER_TESS_CTRL (- 1) [load_output 0])
           (example_consumer MESA_SHADER_TESS_EVAL [])))) ! 0) = nir_var_shader_temp"
proof -
  let ?p = "example_producer MESA_SHADER_TESS_CTRL (- 1) [load_output 0]"
  let ?v = "example_variable nir_var_shader_out (- 1) 0"
  have m: "get_variable_io_mask example_externals ?v MESA_SHADER_TESS_CTRL = 0"
    by (simp add: get_variable_io_mask_def example_variable_def)
  have r: "tcs_add_output_reads example_externals ?p (Array4 0 0 0 0, Array4 0 0 0 0) =
      (Array4 0 0 0 0, Array4 0 0 0 0)"
    unfolding tcs_add_output_reads_fold example_tcs_facts
    by (simp add: load_output_def tcs_add_output_reads_instr_def example_tcs_facts
        add_variable_mask_def m or_components_one)
  have v: "snd (remove_unused_io_var example_externals MESA_SHADER_TESS_CTRL
      (Array4 0 0 0 0) (Array4 0 0 0 0) ?v) =
      ?v\<lparr>location := 0, mode := nir_var_shader_temp\<rparr>"
    by (simp add: remove_unused_io_var_def m Let_def) (simp add: example_variable_def)
  have "variables (fst (snd (nir_remove_unused_varyings example_externals ?p
           (example_consumer MESA_SHADER_TESS_EVAL [])))) =
      [?v\<lparr>location := 0, mode := nir_var_shader_temp\<rparr>]"
    by (simp add: nir_remove_unused_varyings_def Let_def case_prod_beta example_tcs_facts r
        nir_remove_unused_io_vars_variables example_consumer_def v)
  then show ?thesis
    using example_tcs_read(1) [of "- 1"]
    by (simp add: example_tcs_facts)
qed

theorem tcs_read_output_survives_witness:
  "variables (fst (snd (nir_remove_unused_varyings example_externals
       (example_producer MESA_SHADER_TESS_CTRL 37 [load_output 0])
       (example_consumer MESA_SHADER_TESS_EVAL [])))) ! 0 =
     example_variable nir_var_shader_out 37 0 \<and>
   output_is_read (example_producer MESA_SHADER_TESS_CTRL 37 [load_output 0]) 0"
proof -
  have m: "get_variable_io_mask example_externals (example_variable nir_var_shader_out 37 0)
      MESA_SHADER_TESS_CTRL \<noteq> 0"
    by (simp add: get_variable_io_mask_def example_variable_def example_externals_def shl64_def)
  show ?thesis
    using tcs_read_output_survives [of "example_producer MESA_SHADER_TESS_CTRL 37 [load_output 0]"
        example_externals 0 "example_consumer MESA_SHADER_TESS_EVAL []"]
      example_tcs_read [of 37] m
    by (simp add: example_tcs_facts)
qed

lemma int_minus_in_range:
  "0 \<le> a \<Longrightarrow> a < 2 ^ 31 \<Longrightarrow> 0 \<le> b \<Longrightarrow> b < 2 ^ 31 \<Longrightarrow> int_minus a b = a - b"
  by (simp add: int_minus_def)

lemma cmp_varying_component_sign:
  assumes "slot_in_range a" and "slot_in_range b"
  shows "cmp_varying_component a b < 0 \<longleftrightarrow> sorts_before a b"
    and "cmp_varying_component a b = 0 \<longleftrightarrow> same_sort_keys a b"
    and "cmp_varying_component a b > 0 \<longleftrightarrow> sorts_before b a"
proof -
  have m: "int_minus (location (var a)) (location (var b)) =
      location (var a) - location (var b)"
    using assms by (simp add: slot_in_range_def int_minus_in_range)
  show "cmp_varying_component a b < 0 \<longleftrightarrow> sorts_before a b"
    by (auto simp: cmp_varying_component_def sorts_before_def m word_less_def word_uint_eq_iff)
  show "cmp_varying_component a b = 0 \<longleftrightarrow> same_sort_keys a b"
    by (auto simp: cmp_varying_component_def same_sort_keys_def m word_uint_eq_iff)
  show "cmp_varying_component a b > 0 \<longleftrightarrow> sorts_before b a"
    by (auto simp: cmp_varying_component_def sorts_before_def m word_less_def word_uint_eq_iff)
qed

lemma sorts_before_trans:
  "sorts_before a b \<Longrightarrow> sorts_before b c \<Longrightarrow> sorts_before a c"
  unfolding sorts_before_def by (elim disjE conjE) auto

lemma sorts_before_total:
  "sorts_before a b \<or> same_sort_keys a b \<or> sorts_before b a"
  unfolding sorts_before_def same_sort_keys_def by auto

lemma sorts_before_asym: "sorts_before a b \<Longrightarrow> \<not> sorts_before b a"
  unfolding sorts_before_def by auto

text \<open>
  C7. On records whose slots are in the range of the varying slots,
  \<^verbatim>\<open>cmp_varying_component\<close> is the three-way comparison of a total preorder: it is
  negative exactly when the first record sorts before the second, where patch records
  come after all others, records read only inside the stage after the others of their
  group, and the rest is ordered by interpolation mode, then interpolation location,
  then slot; it is 0 exactly when the two records agree on these five keys. The order
  is transitive, asymmetric and total up to records with the same keys.
\<close>

theorem cmp_varying_component_preorder:
  assumes "slot_in_range a" and "slot_in_range b"
  shows "(cmp_varying_component a b < 0 \<longleftrightarrow> sorts_before a b) \<and>
         (cmp_varying_component a b = 0 \<longleftrightarrow> same_sort_keys a b) \<and>
         (cmp_varying_component a b > 0 \<longleftrightarrow> sorts_before b a) \<and>
         (is_patch a \<and> \<not> is_patch b \<longrightarrow> cmp_varying_component a b > 0) \<and>
         (is_patch a = is_patch b \<and> is_intra_stage_only a \<and> \<not> is_intra_stage_only b \<longrightarrow>
            cmp_varying_component a b > 0) \<and>
         (sorts_before a b \<or> same_sort_keys a b \<or> sorts_before b a) \<and>
         \<not> (sorts_before a b \<and> sorts_before b a) \<and>
         (\<forall>c. sorts_before a b \<and> sorts_before b c \<longrightarrow> sorts_before a c)"
proof -
  note s = cmp_varying_component_sign [OF assms]
  have p: "is_patch a \<and> \<not> is_patch b \<longrightarrow> cmp_varying_component a b > 0"
    by (simp add: cmp_varying_component_def)
  have i: "is_patch a = is_patch b \<and> is_intra_stage_only a \<and> \<not> is_intra_stage_only b \<longrightarrow>
      cmp_varying_component a b > 0"
    by (simp add: cmp_varying_component_def)
  show ?thesis
    using s p i sorts_before_total [of a b] sorts_before_asym [of a b] sorts_before_trans [of a b]
    by blast
qed

theorem cmp_varying_component_preorder_witness:
  "cmp_varying_component (example_component 37 0 1 False) (example_component 33 0 1 True) < 0 \<and>
   cmp_varying_component (example_component 37 0 1 False) (example_component 38 0 0 False) > 0 \<and>
   cmp_varying_component (example_component 37 0 1 False) (example_component 38 1 1 False) < 0"
proof -
  have r: "slot_in_range (example_component 37 0 1 False)"
    "slot_in_range (example_component 33 0 1 True)"
    "slot_in_range (example_component 38 0 0 False)"
    "slot_in_range (example_component 38 1 1 False)"
    by (simp_all add: slot_in_range_def example_component_def example_variable_def)
  have b: "sorts_before (example_component 37 0 1 False) (example_component 33 0 1 True)"
    "sorts_before (example_component 38 0 0 False) (example_component 37 0 1 False)"
    "sorts_before (example_component 37 0 1 False) (example_component 38 1 1 False)"
    by (simp_all add: sorts_before_def example_component_def example_variable_def)
  show ?thesis
    using cmp_varying_component_preorder [OF r(1) r(2)]
      cmp_varying_component_preorder [OF r(1) r(3)]
      cmp_varying_component_preorder [OF r(1) r(4)] b
    by blast
qed

theorem cmp_varying_component_counterexample:
  "cmp_varying_component (example_component 37 0 1 False) (example_component 37 1 1 False) = 0 \<and>
   cmp_varying_component (example_component 37 1 1 False) (example_component 37 0 1 False) = 0 \<and>
   example_component 37 0 1 False \<noteq> example_component 37 1 1 False"
  by (simp add: cmp_varying_component_def example_component_def example_variable_def
      int_minus_def)

lemma unat_ucast_32_64: "unat (ucast (w :: 32 word) :: 64 word) = unat w"
proof -
  have "unat w < 2 ^ 64"
    using unsigned_less [of w, where 'a = nat] by simp
  then show ?thesis
    by (simp add: unsigned_ucast_eq take_bit_nat_eq_self)
qed

lemma unat_ucast_64_32: "unat (w :: 64 word) < 64 \<Longrightarrow> unat (ucast w :: 32 word) = unat w"
  by (simp add: unsigned_ucast_eq take_bit_nat_eq_self)

lemma unat_word_of_int_32:
  "0 \<le> l \<Longrightarrow> l < 2 ^ 31 \<Longrightarrow> unat (word_of_int l :: 32 word) = nat l"
proof -
  assume a: "0 \<le> l" "l < 2 ^ 31"
  have "uint (word_of_int l :: 32 word) = l"
    using a by (simp add: uint_word_of_int)
  then show ?thesis
    by (simp add: unat_eq_nat_uint)
qed

lemma unat_of_nat_32: "n < 2 ^ 31 \<Longrightarrow> unat (of_nat n :: 32 word) = n"
  by (simp add: unat_of_nat)

lemma get_linked_variable_location_slot:
  assumes e: "VARYING_SLOT_PATCH0 ext < 2 ^ 31" "VARYING_SLOT_TESS_LEVEL_OUTER ext < 2 ^ 31"
      "VARYING_SLOT_BOUNDING_BOX1 ext < 2 ^ 31"
    and s: "linked_variable_supported ext stg v"
  shows "unat (get_linked_variable_location ext (word_of_int (location v)) (patch v)) =
    linked_slot ext v"
proof -
  define l where "l = (word_of_int (location v) :: 32 word)"
  have l: "unat l = nat (location v)"
    using s by (simp add: l_def linked_variable_supported_def unat_word_of_int_32)
  have b: "linked_slot ext v < 64" "0 \<le> location v"
    using s by (simp_all add: linked_variable_supported_def)
  show ?thesis
  proof (cases "patch v")
    case False
    then show ?thesis
      by (simp add: get_linked_variable_location_def linked_slot_def unat_ucast_32_64
          l [unfolded l_def])
  next
    case True
    have p: "unat (of_nat (VARYING_SLOT_PATCH0 ext) :: 32 word) = VARYING_SLOT_PATCH0 ext"
      "unat (of_nat (VARYING_SLOT_TESS_LEVEL_OUTER ext) :: 32 word) =
         VARYING_SLOT_TESS_LEVEL_OUTER ext"
      "unat (of_nat (VARYING_SLOT_BOUNDING_BOX1 ext) :: 32 word) =
         VARYING_SLOT_BOUNDING_BOX1 ext"
      using e by (simp_all add: unat_of_nat_32)
    show ?thesis
    proof (cases "int (VARYING_SLOT_PATCH0 ext) \<le> location v")
      case hi: True
      then have le: "of_nat (VARYING_SLOT_PATCH0 ext) \<le> l"
        using b by (simp add: word_le_nat_alt p l)
      have d: "unat (l - of_nat (VARYING_SLOT_PATCH0 ext)) =
          nat (location v) - VARYING_SLOT_PATCH0 ext"
        using le by (simp add: unat_sub p l)
      have "nat (location v) - VARYING_SLOT_PATCH0 ext + 4 < 64"
        using b True hi by (simp add: linked_slot_def)
      then have "unat (l - of_nat (VARYING_SLOT_PATCH0 ext) + 4) =
          nat (location v) - VARYING_SLOT_PATCH0 ext + 4"
        using unat_add_lem [of "l - of_nat (VARYING_SLOT_PATCH0 ext)" 4] d by simp
      then show ?thesis
        using True hi le
        by (simp add: get_linked_variable_location_def linked_slot_def unat_ucast_32_64
            l_def [symmetric])
    next
      case lo: False
      then have nle: "\<not> of_nat (VARYING_SLOT_PATCH0 ext) \<le> l"
        using b by (simp add: word_le_nat_alt p l)
      have r: "int (VARYING_SLOT_TESS_LEVEL_OUTER ext) \<le> location v"
        "location v \<le> int (VARYING_SLOT_BOUNDING_BOX1 ext)"
        using s True lo by (auto simp: linked_variable_supported_def)
      have le: "of_nat (VARYING_SLOT_TESS_LEVEL_OUTER ext) \<le> l"
        "l \<le> of_nat (VARYING_SLOT_BOUNDING_BOX1 ext)"
        using r b by (simp_all add: word_le_nat_alt p l)
      have d: "unat (l - of_nat (VARYING_SLOT_TESS_LEVEL_OUTER ext)) =
          nat (location v) - VARYING_SLOT_TESS_LEVEL_OUTER ext"
        using le by (simp add: unat_sub p l)
      show ?thesis
        using True lo nle le d
        by (simp add: get_linked_variable_location_def linked_slot_def unat_ucast_32_64
            l_def [symmetric])
    qed
  qed
qed

lemma bit_u_bit_consecutive64:
  "c \<le> 64 \<Longrightarrow> bit (u_bit_consecutive64 0 c) k \<longleftrightarrow> k < c \<and> k < 64"
proof -
  assume c: "c \<le> 64"
  have m: "2 ^ c - 1 = (mask c :: 64 word)"
    by (simp add: mask_eq_exp_minus_1)
  show ?thesis
  proof (cases "c = 64")
    case True
    then show ?thesis
      by (auto simp: u_bit_consecutive64_def bit_simps)
  next
    case False
    with c have "c < 64" by simp
    then show ?thesis
      using False by (auto simp: u_bit_consecutive64_def shl64_def push_bit_of_1 m bit_mask_iff)
  qed
qed

lemma bit_shl64:
  "s < 64 \<Longrightarrow> bit (shl64 m s) k \<longleftrightarrow> s \<le> k \<and> k < 64 \<and> bit m (k - s)"
  by (auto simp: shl64_def bit_push_bit_iff)

lemma bit_get_linked_variable_io_mask:
  assumes "linked_variable_supported ext stg v"
  shows "bit (get_linked_variable_io_mask ext v stg) r \<longleftrightarrow>
     r < 64 \<and>
     (if compact v
      then 4 * r < unat (location_frac v) + glsl_get_length ext (linked_type ext stg v)
      else r < glsl_count_attribute_slots ext (linked_type ext stg v))"
proof (cases "compact v")
  case True
  define n where "n = unat (location_frac v) + glsl_get_length ext (linked_type ext stg v)"
  have n: "n \<le> 256"
    using assms True by (simp add: linked_variable_supported_def n_def)
  then have c: "(n + 4 - 1) div 4 \<le> 64"
    by simp
  have d: "r < (n + 4 - 1) div 4 \<longleftrightarrow> 4 * r < n"
    by auto
  have "get_linked_variable_io_mask ext v stg = u_bit_consecutive64 0 ((n + 4 - 1) div 4)"
    using True by (simp add: get_linked_variable_io_mask_def linked_type_def n_def Let_def)
  then show ?thesis
    using True c d by (auto simp: bit_u_bit_consecutive64 n_def)
next
  case False
  have c: "glsl_count_attribute_slots ext (linked_type ext stg v) \<le> 64"
    using assms False by (simp add: linked_variable_supported_def)
  have "get_linked_variable_io_mask ext v stg =
      u_bit_consecutive64 0 (glsl_count_attribute_slots ext (linked_type ext stg v))"
    using False by (simp add: get_linked_variable_io_mask_def linked_type_def Let_def)
  then show ?thesis
    using False c by (auto simp: bit_u_bit_consecutive64)
qed

lemma bit_linked_variable_slots:
  assumes e: "VARYING_SLOT_PATCH0 ext < 2 ^ 31" "VARYING_SLOT_TESS_LEVEL_OUTER ext < 2 ^ 31"
      "VARYING_SLOT_BOUNDING_BOX1 ext < 2 ^ 31"
    and s: "linked_variable_supported ext stg v"
  shows "bit (shl64 (get_linked_variable_io_mask ext v stg)
       (unat (get_linked_variable_location ext (word_of_int (location v)) (patch v)))) k \<longleftrightarrow>
     k < 64 \<and> occupies_linked_slot ext stg v k"
proof -
  have l: "linked_slot ext v < 64"
    using s by (simp add: linked_variable_supported_def)
  show ?thesis
    unfolding get_linked_variable_location_slot [OF e s]
    using l by (auto simp: bit_shl64 bit_get_linked_variable_io_mask [OF s]
        occupies_linked_slot_def)
qed

lemma linked_io_masks_fold:
  assumes e: "VARYING_SLOT_PATCH0 ext < 2 ^ 31" "VARYING_SLOT_TESS_LEVEL_OUTER ext < 2 ^ 31"
      "VARYING_SLOT_BOUNDING_BOX1 ext < 2 ^ 31"
    and s: "\<forall>v \<in> set vs. mode v = md \<longrightarrow> linked_variable_supported ext stg v"
    and k: "k < 64"
    and r: "r = fold (\<lambda>variable (msk_all, patch_msk).
             if mode variable \<noteq> md then (msk_all, patch_msk)
             else
               (let msk = get_linked_variable_io_mask ext variable stg;
                    loc = get_linked_variable_location ext (word_of_int (location variable))
                            (patch variable)
                in if patch variable
                   then (msk_all, patch_msk OR shl64 msk (unat loc))
                   else (msk_all OR shl64 msk (unat loc), patch_msk)))
          vs acc"
  shows "bit (if ptch then snd r else fst r) k \<longleftrightarrow>
       bit (if ptch then snd acc else fst acc) k \<or>
       (\<exists>v \<in> set vs. mode v = md \<and> patch v = ptch \<and> occupies_linked_slot ext stg v k)"
  using s r
proof (induction vs arbitrary: acc)
  case Nil
  then show ?case by simp
next
  case (Cons v vs)
  define acc' where "acc' = (\<lambda>variable (msk_all, patch_msk).
             if mode variable \<noteq> md then (msk_all, patch_msk)
             else
               (let msk = get_linked_variable_io_mask ext variable stg;
                    loc = get_linked_variable_location ext (word_of_int (location variable))
                            (patch variable)
                in if patch variable
                   then (msk_all, patch_msk OR shl64 msk (unat loc))
                   else (msk_all OR shl64 msk (unat loc), patch_msk))) v acc"
  have ih: "bit (if ptch then snd r else fst r) k \<longleftrightarrow>
       bit (if ptch then snd acc' else fst acc') k \<or>
       (\<exists>v \<in> set vs. mode v = md \<and> patch v = ptch \<and> occupies_linked_slot ext stg v k)"
    using Cons.IH [of acc'] Cons.prems by (simp add: acc'_def)
  have step: "bit (if ptch then snd acc' else fst acc') k \<longleftrightarrow>
       bit (if ptch then snd acc else fst acc) k \<or>
       (mode v = md \<and> patch v = ptch \<and> occupies_linked_slot ext stg v k)"
  proof (cases "mode v = md")
    case False
    then show ?thesis
      by (simp add: acc'_def case_prod_beta)
  next
    case True
    then have sv: "linked_variable_supported ext stg v"
      using Cons.prems by simp
    define S where "S = shl64 (get_linked_variable_io_mask ext v stg)
       (unat (get_linked_variable_location ext (word_of_int (location v)) (patch v)))"
    have B: "bit S k \<longleftrightarrow> occupies_linked_slot ext stg v k"
      using k by (simp add: S_def bit_linked_variable_slots [OF e sv])
    have "acc' = (if patch v then (fst acc, snd acc OR S) else (fst acc OR S, snd acc))"
      using True by (simp add: acc'_def S_def case_prod_beta Let_def)
    then show ?thesis
      using True B by (auto simp: bit_or_iff)
  qed
  show ?case
    unfolding ih step by auto
qed

lemma bit_linked_io_mask:
  assumes "linked_io_supported ext producer consumer" and "k < 64"
  shows "bit (linked_io_mask ext producer consumer ptch) k \<longleftrightarrow>
     writes_or_reads_slot ext producer consumer ptch k"
proof -
  have e: "VARYING_SLOT_PATCH0 ext < 2 ^ 31" "VARYING_SLOT_TESS_LEVEL_OUTER ext < 2 ^ 31"
      "VARYING_SLOT_BOUNDING_BOX1 ext < 2 ^ 31"
    and p: "\<forall>v \<in> set (variables producer).
        mode v = nir_var_shader_out \<longrightarrow> linked_variable_supported ext (stage producer) v"
    and c: "\<forall>v \<in> set (variables consumer).
        mode v = nir_var_shader_in \<longrightarrow> linked_variable_supported ext (stage consumer) v"
    using assms(1) by (simp_all add: linked_io_supported_def)
  note P = linked_io_masks_fold [OF e p assms(2), where acc = "(0, 0)" and ptch = ptch,
      OF linked_io_masks_def [of ext producer nir_var_shader_out]]
  note C = linked_io_masks_fold [OF e c assms(2), where acc = "(0, 0)" and ptch = ptch,
      OF linked_io_masks_def [of ext consumer nir_var_shader_in]]
  show ?thesis
  proof (cases ptch)
    case True
    then show ?thesis
      using P C by (simp add: linked_io_mask_def writes_or_reads_slot_def bit_or_iff)
  next
    case False
    then show ?thesis
      using P C by (simp add: linked_io_mask_def writes_or_reads_slot_def bit_or_iff)
  qed
qed

lemma util_bitcount64_below:
  assumes "s < 64" and "\<And>k. k < 64 \<Longrightarrow> bit m k \<longleftrightarrow> P k"
  shows "util_bitcount64 (m AND u_bit_consecutive64 0 s) = length (filter P [0..<s])"
proof -
  have u: "[0..<64] = [0..<s] @ [s..<64]"
    using assms(1) upt_add_eq_append [of 0 s "64 - s"] by simp
  have a: "filter (bit (m AND u_bit_consecutive64 0 s)) [0..<s] = filter P [0..<s]"
    using assms by (intro filter_cong) (auto simp: bit_and_iff bit_u_bit_consecutive64)
  have b: "filter (bit (m AND u_bit_consecutive64 0 s)) [s..<64] = []"
    using assms(1) by (auto simp: filter_empty_conv bit_and_iff bit_u_bit_consecutive64)
  show ?thesis
    unfolding util_bitcount64_def u by (simp add: a b del: upt_Suc)
qed


lemma assign_linked_driver_location_value:
  assumes s: "linked_io_supported ext producer consumer"
    and v: "linked_variable_supported ext stg v"
  shows "driver_location (assign_linked_driver_location ext
       (linked_io_mask ext producer consumer False) (linked_io_mask ext producer consumer True) v) =
     of_nat (linked_slots_below ext producer consumer (patch v) (linked_slot ext v)) * 4"
proof -
  have e: "VARYING_SLOT_PATCH0 ext < 2 ^ 31" "VARYING_SLOT_TESS_LEVEL_OUTER ext < 2 ^ 31"
      "VARYING_SLOT_BOUNDING_BOX1 ext < 2 ^ 31"
    using s by (simp_all add: linked_io_supported_def)
  have l: "linked_slot ext v < 64"
    using v by (simp add: linked_variable_supported_def)
  define loc where "loc = get_linked_variable_location ext (word_of_int (location v)) (patch v)"
  have "unat loc = linked_slot ext v"
    unfolding loc_def by (rule get_linked_variable_location_slot [OF e v])
  then have u: "unat (ucast loc :: 32 word) = linked_slot ext v"
    using l by (simp add: unat_ucast_64_32)
  have c: "util_bitcount64 (linked_io_mask ext producer consumer ptch AND
        u_bit_consecutive64 0 (linked_slot ext v)) =
      linked_slots_below ext producer consumer ptch (linked_slot ext v)" for ptch
    unfolding linked_slots_below_def
    by (rule util_bitcount64_below [OF l]) (rule bit_linked_io_mask [OF s])
  have "driver_location (assign_linked_driver_location ext
       (linked_io_mask ext producer consumer False) (linked_io_mask ext producer consumer True) v) =
     of_nat (util_bitcount64 (linked_io_mask ext producer consumer (patch v) AND
        u_bit_consecutive64 0 (unat (ucast loc :: 32 word)))) * 4"
    by (simp add: assign_linked_driver_location_def Let_def loc_def)
  then show ?thesis
    unfolding u c .
qed

lemma nir_assign_linked_io_var_locations_variables:
  "variables (fst (snd (nir_assign_linked_io_var_locations ext producer consumer))) =
     map (\<lambda>variable. if mode variable = nir_var_shader_out
            then assign_linked_driver_location ext (linked_io_mask ext producer consumer False)
                   (linked_io_mask ext producer consumer True) variable
            else variable) (variables producer)"
  "variables (snd (snd (nir_assign_linked_io_var_locations ext producer consumer))) =
     map (\<lambda>variable. if mode variable = nir_var_shader_in
            then assign_linked_driver_location ext (linked_io_mask ext producer consumer False)
                   (linked_io_mask ext producer consumer True) variable
            else variable) (variables consumer)"
  by (simp_all add: nir_assign_linked_io_var_locations_def linked_io_mask_def Let_def
      case_prod_beta)

lemma producer_driver_location:
  assumes s: "linked_io_supported ext producer consumer"
    and i: "i < length (variables producer)"
    and m: "mode (variables producer ! i) = nir_var_shader_out"
  shows "driver_location
      (variables (fst (snd (nir_assign_linked_io_var_locations ext producer consumer))) ! i) =
    of_nat (linked_slots_below ext producer consumer (patch (variables producer ! i))
      (linked_slot ext (variables producer ! i))) * 4"
proof -
  have "variables producer ! i \<in> set (variables producer)"
    using i by simp
  then have v: "linked_variable_supported ext (stage producer) (variables producer ! i)"
    using s m by (simp add: linked_io_supported_def)
  show ?thesis
    using i m
    by (simp add: nir_assign_linked_io_var_locations_variables
        assign_linked_driver_location_value [OF s v])
qed

lemma consumer_driver_location:
  assumes s: "linked_io_supported ext producer consumer"
    and j: "j < length (variables consumer)"
    and m: "mode (variables consumer ! j) = nir_var_shader_in"
  shows "driver_location
      (variables (snd (snd (nir_assign_linked_io_var_locations ext producer consumer))) ! j) =
    of_nat (linked_slots_below ext producer consumer (patch (variables consumer ! j))
      (linked_slot ext (variables consumer ! j))) * 4"
proof -
  have "variables consumer ! j \<in> set (variables consumer)"
    using j by simp
  then have v: "linked_variable_supported ext (stage consumer) (variables consumer ! j)"
    using s m by (simp add: linked_io_supported_def)
  show ?thesis
    using j m
    by (simp add: nir_assign_linked_io_var_locations_variables
        assign_linked_driver_location_value [OF s v])
qed

text \<open>
  C8. \<^verbatim>\<open>nir_assign_linked_io_var_locations\<close> gives every output of the producer and
  every input of the consumer the driver location 4 times the number of slots below
  the linked slot of the variable in the union of the slots that the outputs of the
  producer and the inputs of the consumer occupy, patch variables and the others having
  a union each. So an output and an input with the same linked slot and the same patch
  flag get the same driver location.
\<close>

theorem linked_driver_locations_agree:
  assumes "linked_io_supported ext producer consumer"
  shows
  "(i < length (variables producer) \<and> mode (variables producer ! i) = nir_var_shader_out \<longrightarrow>
      driver_location
        (variables (fst (snd (nir_assign_linked_io_var_locations ext producer consumer))) ! i) =
      of_nat (linked_slots_below ext producer consumer (patch (variables producer ! i))
        (linked_slot ext (variables producer ! i))) * 4) \<and>
   (j < length (variables consumer) \<and> mode (variables consumer ! j) = nir_var_shader_in \<longrightarrow>
      driver_location
        (variables (snd (snd (nir_assign_linked_io_var_locations ext producer consumer))) ! j) =
      of_nat (linked_slots_below ext producer consumer (patch (variables consumer ! j))
        (linked_slot ext (variables consumer ! j))) * 4) \<and>
   (i < length (variables producer) \<and> mode (variables producer ! i) = nir_var_shader_out \<and>
    j < length (variables consumer) \<and> mode (variables consumer ! j) = nir_var_shader_in \<and>
    patch (variables producer ! i) = patch (variables consumer ! j) \<and>
    linked_slot ext (variables producer ! i) = linked_slot ext (variables consumer ! j) \<longrightarrow>
      driver_location
        (variables (fst (snd (nir_assign_linked_io_var_locations ext producer consumer))) ! i) =
      driver_location
        (variables (snd (snd (nir_assign_linked_io_var_locations ext producer consumer))) ! j))"
proof (intro conjI impI)
  assume "i < length (variables producer) \<and> mode (variables producer ! i) = nir_var_shader_out"
  then show "driver_location
        (variables (fst (snd (nir_assign_linked_io_var_locations ext producer consumer))) ! i) =
      of_nat (linked_slots_below ext producer consumer (patch (variables producer ! i))
        (linked_slot ext (variables producer ! i))) * 4"
    using producer_driver_location [OF assms] by simp
next
  assume "j < length (variables consumer) \<and> mode (variables consumer ! j) = nir_var_shader_in"
  then show "driver_location
        (variables (snd (snd (nir_assign_linked_io_var_locations ext producer consumer))) ! j) =
      of_nat (linked_slots_below ext producer consumer (patch (variables consumer ! j))
        (linked_slot ext (variables consumer ! j))) * 4"
    using consumer_driver_location [OF assms] by simp
next
  assume a: "i < length (variables producer) \<and>
    mode (variables producer ! i) = nir_var_shader_out \<and>
    j < length (variables consumer) \<and> mode (variables consumer ! j) = nir_var_shader_in \<and>
    patch (variables producer ! i) = patch (variables consumer ! j) \<and>
    linked_slot ext (variables producer ! i) = linked_slot ext (variables consumer ! j)"
  then show "driver_location
        (variables (fst (snd (nir_assign_linked_io_var_locations ext producer consumer))) ! i) =
      driver_location
        (variables (snd (snd (nir_assign_linked_io_var_locations ext producer consumer))) ! j)"
    using producer_driver_location [OF assms, of i] consumer_driver_location [OF assms, of j]
    by simp
qed

lemma linked_example_supported:
  "linked_io_supported linked_externals linked_producer linked_consumer"
  by (simp add: linked_io_supported_def linked_producer_def linked_consumer_def
      linked_variable_supported_def linked_slot_def linked_type_def linked_externals_def
      linked_variable_def)

lemma linked_example_slots:
  "linked_slot linked_externals (variables linked_producer ! 0) = 32"
  "linked_slot linked_externals (variables linked_producer ! Suc 0) = 34"
  "linked_slot linked_externals (variables linked_producer ! 3) = 0"
  "linked_slot linked_externals (variables linked_producer ! 4) = 5"
  "linked_slot linked_externals (variables linked_consumer ! 0) = 34"
  "linked_slot linked_externals (variables linked_consumer ! Suc 0) = 5"
  "linked_slot linked_externals (variables linked_consumer ! 2) = 17"
  by (simp_all add: linked_producer_def linked_consumer_def linked_slot_def
      linked_externals_def linked_variable_def)

lemma linked_example_union:
  "writes_or_reads_slot linked_externals linked_producer linked_consumer False k \<longleftrightarrow>
     k = 17 \<or> k = 18 \<or> k = 32 \<or> k = 33 \<or> k = 34"
  "writes_or_reads_slot linked_externals linked_producer linked_consumer True k \<longleftrightarrow>
     k = 0 \<or> k = 5"
proof -
  show "writes_or_reads_slot linked_externals linked_producer linked_consumer False k \<longleftrightarrow>
     k = 17 \<or> k = 18 \<or> k = 32 \<or> k = 33 \<or> k = 34"
    unfolding writes_or_reads_slot_def linked_producer_def linked_consumer_def
    by (simp add: occupies_linked_slot_def linked_slot_def linked_type_def
        linked_externals_def linked_variable_def) arith
  show "writes_or_reads_slot linked_externals linked_producer linked_consumer True k \<longleftrightarrow>
     k = 0 \<or> k = 5"
    unfolding writes_or_reads_slot_def linked_producer_def linked_consumer_def
    by (simp add: occupies_linked_slot_def linked_slot_def linked_type_def
        linked_externals_def linked_variable_def) arith
qed

lemma length_filter_upt_card:
  "length (filter P [0..<s]) = card {k. k < s \<and> P k}"
proof -
  have "{i. i < length [0..<s] \<and> P ([0..<s] ! i)} = {k. k < s \<and> P k}"
    by auto
  then show ?thesis
    by (simp add: length_filter_conv_card)
qed

lemma linked_example_below:
  "linked_slots_below linked_externals linked_producer linked_consumer False 32 = 2"
  "linked_slots_below linked_externals linked_producer linked_consumer False 34 = 4"
  "linked_slots_below linked_externals linked_producer linked_consumer True 0 = 0"
  "linked_slots_below linked_externals linked_producer linked_consumer True 5 = 1"
  "linked_slots_below linked_externals linked_producer linked_consumer False 17 = 0"
proof -
  have a: "{k. k < 32 \<and> (k = 17 \<or> k = 18 \<or> k = 32 \<or> k = 33 \<or> k = 34)} = {17, 18 :: nat}"
    by auto
  have b: "{k. k < 34 \<and> (k = 17 \<or> k = 18 \<or> k = 32 \<or> k = 33 \<or> k = 34)} =
      {17, 18, 32, 33 :: nat}"
    by auto
  have c: "{k. k < 5 \<and> (k = 0 \<or> k = 5)} = {0 :: nat}"
    by auto
  have d: "{k. k < 17 \<and> (k = 17 \<or> k = 18 \<or> k = 32 \<or> k = 33 \<or> k = 34)} = ({} :: nat set)"
    by auto
  show "linked_slots_below linked_externals linked_producer linked_consumer False 32 = 2"
    by (simp add: linked_slots_below_def length_filter_upt_card linked_example_union a)
  show "linked_slots_below linked_externals linked_producer linked_consumer False 34 = 4"
    by (simp add: linked_slots_below_def length_filter_upt_card linked_example_union b)
  show "linked_slots_below linked_externals linked_producer linked_consumer True 0 = 0"
    by (simp add: linked_slots_below_def)
  show "linked_slots_below linked_externals linked_producer linked_consumer True 5 = 1"
    by (simp add: linked_slots_below_def length_filter_upt_card linked_example_union c)
  show "linked_slots_below linked_externals linked_producer linked_consumer False 17 = 0"
    by (simp add: linked_slots_below_def length_filter_upt_card linked_example_union d)
qed


lemma linked_example_variables:
  "length (variables linked_producer) = 5"
  "length (variables linked_consumer) = 3"
  "mode (variables linked_producer ! 0) = nir_var_shader_out"
  "mode (variables linked_producer ! Suc 0) = nir_var_shader_out"
  "mode (variables linked_producer ! 4) = nir_var_shader_out"
  "mode (variables linked_consumer ! 0) = nir_var_shader_in"
  "mode (variables linked_consumer ! Suc 0) = nir_var_shader_in"
  "mode (variables linked_consumer ! 2) = nir_var_shader_in"
  "\<not> patch (variables linked_producer ! 0)"
  "\<not> patch (variables linked_producer ! Suc 0)"
  "patch (variables linked_producer ! 4)"
  "\<not> patch (variables linked_consumer ! 0)"
  "patch (variables linked_consumer ! Suc 0)"
  "\<not> patch (variables linked_consumer ! 2)"
  by (simp_all add: linked_producer_def linked_consumer_def linked_variable_def)

theorem linked_driver_locations_agree_witness:
  "linked_io_supported linked_externals linked_producer linked_consumer \<and>
   driver_location (variables (fst (snd (nir_assign_linked_io_var_locations linked_externals
      linked_producer linked_consumer))) ! 0) = 8 \<and>
   driver_location (variables (fst (snd (nir_assign_linked_io_var_locations linked_externals
      linked_producer linked_consumer))) ! 1) = 16 \<and>
   driver_location (variables (snd (snd (nir_assign_linked_io_var_locations linked_externals
      linked_producer linked_consumer))) ! 0) = 16 \<and>
   driver_location (variables (fst (snd (nir_assign_linked_io_var_locations linked_externals
      linked_producer linked_consumer))) ! 4) = 4 \<and>
   driver_location (variables (snd (snd (nir_assign_linked_io_var_locations linked_externals
      linked_producer linked_consumer))) ! 1) = 4 \<and>
   driver_location (variables (snd (snd (nir_assign_linked_io_var_locations linked_externals
      linked_producer linked_consumer))) ! 2) = 0"
proof -
  note T = linked_driver_locations_agree [OF linked_example_supported]
  have 1: "driver_location (variables (fst (snd (nir_assign_linked_io_var_locations
      linked_externals linked_producer linked_consumer))) ! 0) = 8"
    using T [of 0 0, THEN conjunct1]
    by (simp add: linked_example_variables linked_example_slots linked_example_below)
  have 2: "driver_location (variables (fst (snd (nir_assign_linked_io_var_locations
      linked_externals linked_producer linked_consumer))) ! 1) = 16"
    using T [of "Suc 0" 0, THEN conjunct1]
    by (simp add: linked_example_variables linked_example_slots linked_example_below)
  have 3: "driver_location (variables (snd (snd (nir_assign_linked_io_var_locations
      linked_externals linked_producer linked_consumer))) ! 0) = 16"
    using T [of "Suc 0" 0, THEN conjunct2, THEN conjunct2] 2
    by (simp add: linked_example_variables linked_example_slots)
  have 4: "driver_location (variables (fst (snd (nir_assign_linked_io_var_locations
      linked_externals linked_producer linked_consumer))) ! 4) = 4"
    using T [of 4 "Suc 0", THEN conjunct1]
    by (simp add: linked_example_variables linked_example_slots linked_example_below)
  have 5: "driver_location (variables (snd (snd (nir_assign_linked_io_var_locations
      linked_externals linked_producer linked_consumer))) ! 1) = 4"
    using T [of 4 "Suc 0", THEN conjunct2, THEN conjunct2] 4
    by (simp add: linked_example_variables linked_example_slots)
  have 6: "driver_location (variables (snd (snd (nir_assign_linked_io_var_locations
      linked_externals linked_producer linked_consumer))) ! 2) = 0"
    using T [of 0 2, THEN conjunct2, THEN conjunct1]
    by (simp add: linked_example_variables linked_example_slots linked_example_below)
  from linked_example_supported 1 2 3 4 5 6 show ?thesis
    by (intro conjI)
qed
lemma rect_bytes_0 [simp]: "rect_bytes origin stride W 0 = {}"
  by (simp add: rect_bytes_def)

lemma rect_bytes_Suc:
  "rect_bytes origin stride W (Suc n) =
     {origin + int j | j. j < W} \<union> rect_bytes (origin + stride) stride W n"
proof (rule set_eqI, rule iffI)
  fix a
  assume "a \<in> rect_bytes origin stride W (Suc n)"
  then obtain r j where a: "a = origin + int r * stride + int j" "r < Suc n" "j < W"
    by (auto simp: rect_bytes_def)
  show "a \<in> {origin + int j | j. j < W} \<union> rect_bytes (origin + stride) stride W n"
  proof (cases r)
    case 0
    with a show ?thesis by auto
  next
    case (Suc r')
    then have "a = origin + stride + int r' * stride + int j" "r' < n"
      using a by (simp_all add: algebra_simps)
    with a(3) show ?thesis
      unfolding rect_bytes_def by blast
  qed
next
  fix a
  assume "a \<in> {origin + int j | j. j < W} \<union> rect_bytes (origin + stride) stride W n"
  then consider j where "a = origin + int j" "j < W"
    | r j where "a = origin + stride + int r * stride + int j" "r < n" "j < W"
    by (auto simp: rect_bytes_def)
  then show "a \<in> rect_bytes origin stride W (Suc n)"
  proof cases
    case 1
    then have "a = origin + int 0 * stride + int j" "0 < Suc n" by simp_all
    with 1(2) show ?thesis unfolding rect_bytes_def by blast
  next
    case 2
    then have "a = origin + int (Suc r) * stride + int j" "Suc r < Suc n"
      by (simp_all add: algebra_simps)
    with 2(3) show ?thesis unfolding rect_bytes_def by blast
  qed
qed

lemma rect_bytes_lower:
  "0 \<le> stride \<Longrightarrow> a \<in> rect_bytes origin stride W H \<Longrightarrow> origin \<le> a"
  by (auto simp: rect_bytes_def)

lemma memcpy_inside:
  "j < n \<Longrightarrow> memcpy dst src n m (dst + int j) = m (src + int j)"
  by (simp add: memcpy_def)

lemma memcpy_outside:
  "a \<notin> {dst + int j | j. j < n} \<Longrightarrow> memcpy dst src n m a = m a"
proof -
  assume o: "a \<notin> {dst + int j | j. j < n}"
  have "\<not> (dst \<le> a \<and> a < dst + int n)"
  proof
    assume "dst \<le> a \<and> a < dst + int n"
    then have "a = dst + int (nat (a - dst))" "nat (a - dst) < n"
      by auto
    with o show False by blast
  qed
  then show ?thesis by (auto simp: memcpy_def)
qed

lemma copy_rect_rows_copied:
  assumes "unat width \<le> unat dst_stride \<or> n \<le> 1"
    and "rect_bytes dst (uint dst_stride) (unat width) n \<inter>
         rect_bytes src (sint src_stride) (unat width) n = {}"
  shows "rect_copied m (copy_rect_rows n dst dst_stride src src_stride width m)
           dst (uint dst_stride) src (sint src_stride) (unat width) n"
  using assms
proof (induction n arbitrary: dst src m)
  case 0
  then show ?case by (simp add: rect_copied_def)
next
  case (Suc n)
  let ?W = "unat width"
  let ?m1 = "memcpy dst src ?W m"
  let ?D' = "rect_bytes (dst + uint dst_stride) (uint dst_stride) ?W n"
  let ?S' = "rect_bytes (src + sint src_stride) (sint src_stride) ?W n"
  let ?row = "{dst + int j | j. j < ?W}"
  let ?srow = "{src + int j | j. j < ?W}"
  have D: "rect_bytes dst (uint dst_stride) ?W (Suc n) = ?row \<union> ?D'"
    by (rule rect_bytes_Suc)
  have S: "rect_bytes src (sint src_stride) ?W (Suc n) = ?srow \<union> ?S'"
    by (rule rect_bytes_Suc)
  have disj: "?D' \<inter> ?S' = {}" "?row \<inter> ?S' = {}" "?row \<inter> ?srow = {}" "?D' \<inter> ?srow = {}"
    using Suc.prems(2) unfolding D S by blast+
  have rows: "?W \<le> unat dst_stride \<or> n \<le> 1"
    using Suc.prems(1) by auto
  have row_D': "?row \<inter> ?D' = {}"
  proof (cases "?W \<le> unat dst_stride")
    case True
    show ?thesis
    proof (rule ccontr)
      assume "?row \<inter> ?D' \<noteq> {}"
      then obtain a where a: "a \<in> ?row" "a \<in> ?D'" by blast
      from a(1) obtain j where j: "a = dst + int j" "j < ?W" by blast
      from a(2) have "dst + uint dst_stride \<le> a"
        by (rule rect_bytes_lower [rotated]) simp
      moreover have "uint dst_stride = int (unat dst_stride)"
        by simp
      ultimately show False
        using j True by linarith
    qed
  next
    case False
    with Suc.prems(1) have "n = 0" by simp
    then show ?thesis by simp
  qed
  note ih = Suc.IH [OF rows disj(1), of ?m1, unfolded rect_copied_def]
  let ?res = "copy_rect_rows (Suc n) dst dst_stride src src_stride width m"
  have res: "?res = copy_rect_rows n (dst + uint dst_stride) dst_stride
      (src + sint src_stride) src_stride width ?m1"
    by simp
  show ?case
    unfolding rect_copied_def
  proof (intro conjI allI impI)
    fix r j
    assume r: "r < Suc n" and j: "j < ?W"
    show "?res (dst + int r * uint dst_stride + int j) =
        m (src + int r * sint src_stride + int j)"
    proof (cases r)
      case 0
      have in_row: "dst + int j \<in> ?row" using j by blast
      then have "dst + int j \<notin> ?D'" using row_D' by blast
      then have "?res (dst + int j) = ?m1 (dst + int j)"
        unfolding res using ih by blast
      also have "\<dots> = m (src + int j)"
        using j by (rule memcpy_inside)
      finally show ?thesis using 0 by simp
    next
      case (Suc r')
      then have r': "r' < n" using r by simp
      have e1: "dst + int r * uint dst_stride + int j =
          dst + uint dst_stride + int r' * uint dst_stride + int j"
        using Suc by (simp add: algebra_simps)
      have e2: "src + int r * sint src_stride + int j =
          src + sint src_stride + int r' * sint src_stride + int j"
        using Suc by (simp add: algebra_simps)
      have "src + sint src_stride + int r' * sint src_stride + int j \<in> ?S'"
        using r' j unfolding rect_bytes_def by blast
      then have "src + sint src_stride + int r' * sint src_stride + int j \<notin> ?row"
        using disj(2) by blast
      then have "?m1 (src + sint src_stride + int r' * sint src_stride + int j) =
          m (src + sint src_stride + int r' * sint src_stride + int j)"
        by (rule memcpy_outside)
      moreover have "?res (dst + uint dst_stride + int r' * uint dst_stride + int j) =
          ?m1 (src + sint src_stride + int r' * sint src_stride + int j)"
        unfolding res using ih r' j by blast
      ultimately show ?thesis
        unfolding e1 e2 by simp
    qed
  next
    fix a
    assume "a \<notin> rect_bytes dst (uint dst_stride) ?W (Suc n)"
    then have a: "a \<notin> ?row" "a \<notin> ?D'"
      unfolding D by blast+
    have "?res a = ?m1 a"
      unfolding res using ih a(2) by blast
    also have "\<dots> = m a"
      using a(1) by (rule memcpy_outside)
    finally show "?res a = m a" .
  qed
qed

lemma sint_nonneg_eq_uint: "0 \<le> sint (w :: 32 word) \<Longrightarrow> sint w = uint w"
proof -
  assume n: "0 \<le> sint w"
  have "sint w < 2 ^ 31"
    using sint_lt [of w] by simp
  then have "sint w < 2 ^ 32"
    by simp
  then have "take_bit 32 (sint w) = sint w"
    using n by (simp add: take_bit_int_eq_self)
  then show ?thesis
    using uint_sint [of w] by simp
qed

lemma memcpy_rect_copied:
  fixes width height :: "32 word"
  assumes "0 \<le> sint width" and "unat height * unat width < 2 ^ 32"
  shows "rect_copied m (memcpy dst src (unat (height * width)) m)
           dst (uint width) src (sint width) (unat width) (unat height)"
proof -
  let ?W = "unat width" and ?H = "unat height"
  have n: "unat (height * width) = ?H * ?W"
    using assms(2) unat_mult_lem [of height width] by simp
  have s: "sint width = int ?W" "uint width = int ?W"
    using sint_nonneg_eq_uint [OF assms(1)] by simp_all
  show ?thesis
    unfolding rect_copied_def n s
  proof (intro conjI allI impI)
    fix r j
    assume r: "r < ?H" and j: "j < ?W"
    have "r * ?W + j < Suc r * ?W"
      using j by simp
    also have "\<dots> \<le> ?H * ?W"
      using r by (intro mult_le_mono1) simp
    finally have lt: "r * ?W + j < ?H * ?W" .
    have e: "dst + int r * int ?W + int j = dst + int (r * ?W + j)"
      "src + int r * int ?W + int j = src + int (r * ?W + j)"
      by simp_all
    show "memcpy dst src (?H * ?W) m (dst + int r * int ?W + int j) =
        m (src + int r * int ?W + int j)"
      unfolding e using lt by (rule memcpy_inside)
  next
    fix a
    assume a: "a \<notin> rect_bytes dst (int ?W) ?W ?H"
    have "a \<notin> {dst + int k | k. k < ?H * ?W}"
    proof
      assume "a \<in> {dst + int k | k. k < ?H * ?W}"
      then obtain k where k: "a = dst + int k" "k < ?H * ?W" by blast
      then have W: "0 < ?W" by (cases "?W = 0") simp_all
      have "k div ?W < ?H"
        using k(2) W by (simp add: less_mult_imp_div_less)
      moreover have "k mod ?W < ?W"
        using W by simp
      moreover have "a = dst + int (k div ?W) * int ?W + int (k mod ?W)"
        using k(1) by (metis add.assoc div_mult_mod_eq of_nat_add of_nat_mult)
      ultimately have "a \<in> rect_bytes dst (int ?W) ?W ?H"
        unfolding rect_bytes_def by blast
      with a show False by simp
    qed
    then show "memcpy dst src (?H * ?W) m a = m a"
      by (rule memcpy_outside)
  qed
qed

lemma util_copy_rect_unfold:
  assumes "0 < sint (util_format_get_blocksize tbl fmt)"
    and "0 < sint (util_format_get_blockwidth tbl fmt)"
    and "0 < sint (util_format_get_blockheight tbl fmt)"
  shows "util_copy_rect tbl dst fmt dst_stride dst_x dst_y width height
           src src_stride src_x src_y m =
         Inr (if copy_rect_width tbl fmt width = dst_stride \<and>
                 copy_rect_width tbl fmt width = src_stride
              then memcpy (copy_rect_origin tbl fmt dst dst_stride dst_x dst_y)
                     (copy_rect_origin tbl fmt src
                        (if sint src_stride < 0 then - src_stride else src_stride) src_x src_y)
                     (unat (copy_rect_height tbl fmt height * copy_rect_width tbl fmt width)) m
              else copy_rect_rows (unat (copy_rect_height tbl fmt height))
                     (copy_rect_origin tbl fmt dst dst_stride dst_x dst_y) dst_stride
                     (copy_rect_origin tbl fmt src
                        (if sint src_stride < 0 then - src_stride else src_stride) src_x src_y)
                     src_stride (copy_rect_width tbl fmt width) m)"
  using assms
  by (auto simp: util_copy_rect_def Let_def copy_rect_origin_def copy_rect_width_def
      copy_rect_height_def)

lemma util_copy_rect_copied:
  assumes "0 < sint (util_format_get_blocksize tbl fmt)"
    and "0 < sint (util_format_get_blockwidth tbl fmt)"
    and "0 < sint (util_format_get_blockheight tbl fmt)"
    and "unat (copy_rect_width tbl fmt width) \<le> unat dst_stride \<or>
         unat (copy_rect_height tbl fmt height) \<le> 1"
    and "unat (copy_rect_height tbl fmt height) * unat (copy_rect_width tbl fmt width) < 2 ^ 32"
    and "copy_rect_width tbl fmt width = dst_stride \<and> copy_rect_width tbl fmt width = src_stride
           \<longrightarrow> 0 \<le> sint src_stride"
    and "rect_bytes (copy_rect_origin tbl fmt dst dst_stride dst_x dst_y) (uint dst_stride)
           (unat (copy_rect_width tbl fmt width)) (unat (copy_rect_height tbl fmt height)) \<inter>
         rect_bytes (copy_rect_origin tbl fmt src
             (if sint src_stride < 0 then - src_stride else src_stride) src_x src_y)
           (sint src_stride)
           (unat (copy_rect_width tbl fmt width)) (unat (copy_rect_height tbl fmt height)) = {}"
  shows "\<exists>m'. util_copy_rect tbl dst fmt dst_stride dst_x dst_y width height
                 src src_stride src_x src_y m = Inr m' \<and>
              rect_copied m m'
                (copy_rect_origin tbl fmt dst dst_stride dst_x dst_y) (uint dst_stride)
                (copy_rect_origin tbl fmt src
                   (if sint src_stride < 0 then - src_stride else src_stride) src_x src_y)
                (sint src_stride)
                (unat (copy_rect_width tbl fmt width)) (unat (copy_rect_height tbl fmt height))"
proof (cases "copy_rect_width tbl fmt width = dst_stride \<and>
    copy_rect_width tbl fmt width = src_stride")
  case True
  then have e: "dst_stride = copy_rect_width tbl fmt width"
      "src_stride = copy_rect_width tbl fmt width"
    by blast+
  have nn: "0 \<le> sint (copy_rect_width tbl fmt width)"
    using assms(6) True by metis
  have res: "util_copy_rect tbl dst fmt dst_stride dst_x dst_y width height
      src src_stride src_x src_y m =
    Inr (memcpy (copy_rect_origin tbl fmt dst dst_stride dst_x dst_y)
      (copy_rect_origin tbl fmt src
         (if sint src_stride < 0 then - src_stride else src_stride) src_x src_y)
      (unat (copy_rect_height tbl fmt height * copy_rect_width tbl fmt width)) m)"
    using True by (auto simp: util_copy_rect_unfold [OF assms(1-3)])
  show ?thesis
    unfolding res
    using memcpy_rect_copied [OF nn assms(5)]
    unfolding e by blast
next
  case False
  have res: "util_copy_rect tbl dst fmt dst_stride dst_x dst_y width height
      src src_stride src_x src_y m =
    Inr (copy_rect_rows (unat (copy_rect_height tbl fmt height))
      (copy_rect_origin tbl fmt dst dst_stride dst_x dst_y) dst_stride
      (copy_rect_origin tbl fmt src
         (if sint src_stride < 0 then - src_stride else src_stride) src_x src_y)
      src_stride (copy_rect_width tbl fmt width) m)"
    using False by (auto simp: util_copy_rect_unfold [OF assms(1-3)])
  show ?thesis
    unfolding res
    using copy_rect_rows_copied [OF assms(4) assms(7)] by blast
qed

lemma translate_compatible:
  "util_is_format_compatible (description_table env src_format)
     (description_table env dst_format) \<Longrightarrow>
   util_copy_rect (description_table env) dst dst_format dst_stride dst_x dst_y width height
     src src_stride src_x src_y (mem s) = Inr m' \<Longrightarrow>
   util_format_translate env dst_format dst dst_stride dst_x dst_y
     src_format src src_stride src_x src_y width height s = Inr (True, s\<lparr>mem := m'\<rparr>)"
  by (simp add: util_format_translate_def Let_def)

text \<open>
  C2. For two formats that \<^verbatim>\<open>util_is_format_compatible\<close> accepts in both directions
  (and whose blocks are the same, as those of all plain formats are),
  \<^verbatim>\<open>util_format_translate\<close> from A to B is \<^verbatim>\<open>util_copy_rect\<close> and returns \<^verbatim>\<open>TRUE\<close>, and
  translating the result back from B to A gives, row by row and byte by byte, the bytes
  of the source rectangle. The buffers are those the C code is defined on: the rows of
  a destination do not overlap, source and destination of a copy do not overlap, the
  stride of the intermediate buffer is a positive \<^verbatim>\<open>int\<close> and the byte count of the
  rectangle fits 32 bits.
\<close>

theorem translate_round_trip:
  assumes "util_is_format_compatible (description_table env format_a)
             (description_table env format_b)"
    and "util_is_format_compatible (description_table env format_b)
           (description_table env format_a)"
    and "block (description_table env format_a) = block (description_table env format_b)"
    and "0 < sint (util_format_get_blocksize (description_table env) format_a)"
    and "0 < sint (util_format_get_blockwidth (description_table env) format_a)"
    and "0 < sint (util_format_get_blockheight (description_table env) format_a)"
    and "W = unat (copy_rect_width (description_table env) format_a width)"
    and "H = unat (copy_rect_height (description_table env) format_a height)"
    and "src0 = copy_rect_origin (description_table env) format_a src
                  (if sint src_stride < 0 then - src_stride else src_stride) src_x src_y"
    and "dst0 = copy_rect_origin (description_table env) format_b dst dst_stride dst_x dst_y"
    and "out0 = copy_rect_origin (description_table env) format_a out out_stride out_x out_y"
    and "0 \<le> sint dst_stride"
    and "W \<le> unat dst_stride \<or> H \<le> 1"
    and "W \<le> unat out_stride \<or> H \<le> 1"
    and "H * W < 2 ^ 32"
    and "rect_bytes dst0 (uint dst_stride) W H \<inter> rect_bytes src0 (sint src_stride) W H = {}"
    and "rect_bytes out0 (uint out_stride) W H \<inter> rect_bytes dst0 (uint dst_stride) W H = {}"
  shows "\<exists>m1 m2.
           util_copy_rect (description_table env) dst format_b dst_stride dst_x dst_y width height
             src src_stride src_x src_y (mem s) = Inr m1 \<and>
           util_format_translate env format_b dst dst_stride dst_x dst_y
             format_a src src_stride src_x src_y width height s = Inr (True, s\<lparr>mem := m1\<rparr>) \<and>
           util_format_translate env format_a out out_stride out_x out_y
             format_b dst dst_stride dst_x dst_y width height (s\<lparr>mem := m1\<rparr>) =
             Inr (True, s\<lparr>mem := m2\<rparr>) \<and>
           (\<forall>r < H. \<forall>j < W.
              m2 (out0 + int r * uint out_stride + int j) =
              mem s (src0 + int r * sint src_stride + int j))"
proof -
  let ?tbl = "description_table env"
  have b: "util_format_get_blocksize ?tbl format_b = util_format_get_blocksize ?tbl format_a"
    "util_format_get_blockwidth ?tbl format_b = util_format_get_blockwidth ?tbl format_a"
    "util_format_get_blockheight ?tbl format_b = util_format_get_blockheight ?tbl format_a"
    using assms(3)
    by (simp_all add: util_format_get_blocksize_def util_format_get_blockwidth_def
        util_format_get_blockheight_def)
  have g: "copy_rect_width ?tbl format_b = copy_rect_width ?tbl format_a"
    "copy_rect_height ?tbl format_b = copy_rect_height ?tbl format_a"
    "copy_rect_origin ?tbl format_b = copy_rect_origin ?tbl format_a"
    by (simp_all add: fun_eq_iff copy_rect_width_def copy_rect_height_def copy_rect_origin_def b)
  have sd: "sint dst_stride = uint dst_stride" "\<not> sint dst_stride < 0"
    using assms(12) sint_nonneg_eq_uint by simp_all
  have pd: "(if sint dst_stride < 0 then - dst_stride else dst_stride) = dst_stride"
    using sd(2) by simp
  have f1: "copy_rect_width ?tbl format_b width = dst_stride \<and>
      copy_rect_width ?tbl format_b width = src_stride \<longrightarrow> 0 \<le> sint src_stride"
    using assms(12) by auto
  have f2: "copy_rect_width ?tbl format_a width = out_stride \<and>
      copy_rect_width ?tbl format_a width = dst_stride \<longrightarrow> 0 \<le> sint dst_stride"
    using assms(12) by simp
  have h1: "unat (copy_rect_width ?tbl format_b width) \<le> unat dst_stride \<or>
      unat (copy_rect_height ?tbl format_b height) \<le> 1"
    "unat (copy_rect_height ?tbl format_b height) * unat (copy_rect_width ?tbl format_b width)
      < 2 ^ 32"
    "rect_bytes (copy_rect_origin ?tbl format_b dst dst_stride dst_x dst_y) (uint dst_stride)
       (unat (copy_rect_width ?tbl format_b width)) (unat (copy_rect_height ?tbl format_b height)) \<inter>
     rect_bytes (copy_rect_origin ?tbl format_b src
         (if sint src_stride < 0 then - src_stride else src_stride) src_x src_y)
       (sint src_stride)
       (unat (copy_rect_width ?tbl format_b width)) (unat (copy_rect_height ?tbl format_b height)) = {}"
    using assms(13,15,16) unfolding g assms(7-11) by simp_all
  have p1: "0 < sint (util_format_get_blocksize ?tbl format_b)"
    "0 < sint (util_format_get_blockwidth ?tbl format_b)"
    "0 < sint (util_format_get_blockheight ?tbl format_b)"
    using assms(4-6) unfolding b by simp_all
  have ex1: "\<exists>m1. util_copy_rect ?tbl dst format_b dst_stride dst_x dst_y width height
       src src_stride src_x src_y (mem s) = Inr m1 \<and>
     rect_copied (mem s) m1 dst0 (uint dst_stride) src0 (sint src_stride) W H"
    using util_copy_rect_copied [OF p1 h1(1,2) f1 h1(3), of "mem s"]
    unfolding g assms(7-11) .
  then obtain m1 where m1:
    "util_copy_rect ?tbl dst format_b dst_stride dst_x dst_y width height
       src src_stride src_x src_y (mem s) = Inr m1"
    "rect_copied (mem s) m1 dst0 (uint dst_stride) src0 (sint src_stride) W H"
    by (elim exE conjE)
  have h2: "unat (copy_rect_width ?tbl format_a width) \<le> unat out_stride \<or>
      unat (copy_rect_height ?tbl format_a height) \<le> 1"
    "unat (copy_rect_height ?tbl format_a height) * unat (copy_rect_width ?tbl format_a width)
      < 2 ^ 32"
    "rect_bytes (copy_rect_origin ?tbl format_a out out_stride out_x out_y) (uint out_stride)
       (unat (copy_rect_width ?tbl format_a width)) (unat (copy_rect_height ?tbl format_a height)) \<inter>
     rect_bytes (copy_rect_origin ?tbl format_a dst
         (if sint dst_stride < 0 then - dst_stride else dst_stride) dst_x dst_y)
       (sint dst_stride)
       (unat (copy_rect_width ?tbl format_a width)) (unat (copy_rect_height ?tbl format_a height)) = {}"
    using assms(14,15,17) unfolding g pd sd(1) assms(7-11) by simp_all
  have ex2: "\<exists>m2. util_copy_rect ?tbl out format_a out_stride out_x out_y width height
       dst dst_stride dst_x dst_y m1 = Inr m2 \<and>
     rect_copied m1 m2 out0 (uint out_stride) dst0 (uint dst_stride) W H"
    using util_copy_rect_copied [OF assms(4-6) h2(1,2) f2 h2(3), of m1]
    unfolding g pd sd(1) assms(7-11) by simp
  then obtain m2 where m2:
    "util_copy_rect ?tbl out format_a out_stride out_x out_y width height
       dst dst_stride dst_x dst_y m1 = Inr m2"
    "rect_copied m1 m2 out0 (uint out_stride) dst0 (uint dst_stride) W H"
    by (elim exE conjE)
  have t1: "util_format_translate env format_b dst dst_stride dst_x dst_y
      format_a src src_stride src_x src_y width height s = Inr (True, s\<lparr>mem := m1\<rparr>)"
    using translate_compatible [OF assms(1) m1(1)] .
  have m2': "util_copy_rect ?tbl out format_a out_stride out_x out_y width height
       dst dst_stride dst_x dst_y (mem (s\<lparr>mem := m1\<rparr>)) = Inr m2"
    using m2(1) by simp
  have t2: "util_format_translate env format_a out out_stride out_x out_y
      format_b dst dst_stride dst_x dst_y width height (s\<lparr>mem := m1\<rparr>) =
      Inr (True, s\<lparr>mem := m2\<rparr>)"
    using translate_compatible [OF assms(2) m2'] by simp
  have rt: "\<forall>r < H. \<forall>j < W.
      m2 (out0 + int r * uint out_stride + int j) =
      mem s (src0 + int r * sint src_stride + int j)"
    using m1(2) m2(2) unfolding rect_copied_def by simp
  from m1(1) t1 t2 rt show ?thesis by blast
qed


lemma rect_bytes_within:
  assumes "0 \<le> stride"
  shows "rect_bytes origin stride W H \<subseteq> {origin ..< origin + int H * stride + int W}"
proof
  fix a
  assume "a \<in> rect_bytes origin stride W H"
  then obtain r j where a: "a = origin + int r * stride + int j" "r < H" "j < W"
    by (auto simp: rect_bytes_def)
  have "int r * stride \<le> int H * stride"
    using a(2) assms by (intro mult_right_mono) simp_all
  moreover have "0 \<le> int r * stride"
    using assms by simp
  ultimately show "a \<in> {origin ..< origin + int H * stride + int W}"
    using a(1,3) by simp
qed

lemma rect_bytes_apart:
  assumes "0 \<le> s1" and "0 \<le> s2" and "o1 + int H1 * s1 + int W1 \<le> o2"
  shows "rect_bytes o1 s1 W1 H1 \<inter> rect_bytes o2 s2 W2 H2 = {}"
    and "rect_bytes o2 s2 W2 H2 \<inter> rect_bytes o1 s1 W1 H1 = {}"
proof -
  have "a \<in> rect_bytes o1 s1 W1 H1 \<Longrightarrow> a \<in> rect_bytes o2 s2 W2 H2 \<Longrightarrow> False" for a
  proof -
    assume "a \<in> rect_bytes o1 s1 W1 H1" and 2: "a \<in> rect_bytes o2 s2 W2 H2"
    then have "a < o1 + int H1 * s1 + int W1"
      using rect_bytes_within [OF assms(1), of o1 W1 H1] by auto
    moreover have "o2 \<le> a"
      using rect_bytes_lower [OF assms(2) 2] .
    ultimately show False
      using assms(3) by simp
  qed
  then show "rect_bytes o1 s1 W1 H1 \<inter> rect_bytes o2 s2 W2 H2 = {}"
    and "rect_bytes o2 s2 W2 H2 \<inter> rect_bytes o1 s1 W1 H1 = {}"
    by blast+
qed

lemma example_two_way:
  "util_is_format_compatible (example_table (PIPE_FORMAT_other 2))
     (example_table (PIPE_FORMAT_other 6))"
  "util_is_format_compatible (example_table (PIPE_FORMAT_other 6))
     (example_table (PIPE_FORMAT_other 2))"
  "format (example_table (PIPE_FORMAT_other 2)) \<noteq> format (example_table (PIPE_FORMAT_other 6))"
  "block (example_table (PIPE_FORMAT_other 2)) = block (example_table (PIPE_FORMAT_other 6))"
  "util_format_get_blocksize example_table (PIPE_FORMAT_other 2) = 4"
  "util_format_get_blockwidth example_table (PIPE_FORMAT_other 2) = 1"
  "util_format_get_blockheight example_table (PIPE_FORMAT_other 2) = 1"
  "util_format_get_blocksize example_table (PIPE_FORMAT_other 6) = 4"
  "util_format_get_blockwidth example_table (PIPE_FORMAT_other 6) = 1"
  "util_format_get_blockheight example_table (PIPE_FORMAT_other 6) = 1"
  by (simp_all add: util_is_format_compatible_def compatible_sizes_from_0
      compatible_swizzles_from_0 all_less_4 swizzle_matches_at_def b8g8r8x8_unorm_def
      b8g8r8x8_alt_def PIPE_SWIZZLE_defs unorm8_channel_def void8_channel_def
      util_format_get_blocksize_def util_format_get_blockwidth_def
      util_format_get_blockheight_def)

theorem translate_round_trip_witness:
  "\<exists>m1 m2.
     util_format_translate full_environment (PIPE_FORMAT_other 6) 1000 16 0 0
       (PIPE_FORMAT_other 2) 0 8 0 0 2 2 ramp_machine = Inr (True, ramp_machine\<lparr>mem := m1\<rparr>) \<and>
     util_format_translate full_environment (PIPE_FORMAT_other 2) 2000 16 0 0
       (PIPE_FORMAT_other 6) 1000 16 0 0 2 2 (ramp_machine\<lparr>mem := m1\<rparr>) =
       Inr (True, ramp_machine\<lparr>mem := m2\<rparr>) \<and>
     m2 2000 = 0 \<and> m2 2007 = 7 \<and> m2 2016 = 8 \<and> m2 2019 = 11"
proof -
  have t: "description_table full_environment = example_table"
    by (simp add: full_environment_def)
  have g: "copy_rect_width example_table (PIPE_FORMAT_other 2) 2 = 8"
    "copy_rect_height example_table (PIPE_FORMAT_other 2) 2 = 2"
    "copy_rect_origin example_table (PIPE_FORMAT_other 2) 0 8 0 0 = 0"
    "copy_rect_origin example_table (PIPE_FORMAT_other 6) 1000 16 0 0 = 1000"
    "copy_rect_origin example_table (PIPE_FORMAT_other 2) 2000 16 0 0 = 2000"
    by (simp_all add: copy_rect_width_def copy_rect_height_def copy_rect_origin_def
        example_two_way)
  have d: "rect_bytes 1000 (uint (16 :: 32 word)) 8 2 \<inter>
      rect_bytes 0 (sint (8 :: 32 word)) 8 2 = {}"
    "rect_bytes 2000 (uint (16 :: 32 word)) 8 2 \<inter>
      rect_bytes 1000 (uint (16 :: 32 word)) 8 2 = {}"
    using rect_bytes_apart(2) [of 8 16 0 2 8 1000 8 2]
      rect_bytes_apart(2) [of 16 16 1000 2 8 2000 8 2]
    by simp_all
  note T = translate_round_trip [where env = full_environment
      and format_a = "PIPE_FORMAT_other 2"
      and format_b = "PIPE_FORMAT_other 6" and W = 8 and H = 2 and width = 2 and height = 2
      and src = 0 and src_stride = 8 and src_x = 0 and src_y = 0 and src0 = 0
      and dst = 1000 and dst_stride = 16 and dst_x = 0 and dst_y = 0 and dst0 = 1000
      and out = 2000 and out_stride = 16 and out_x = 0 and out_y = 0 and out0 = 2000
      and s = ramp_machine, unfolded t]
  have h: "0 < sint (util_format_get_blocksize example_table (PIPE_FORMAT_other 2))"
    "0 < sint (util_format_get_blockwidth example_table (PIPE_FORMAT_other 2))"
    "0 < sint (util_format_get_blockheight example_table (PIPE_FORMAT_other 2))"
    "(8 :: nat) = unat (copy_rect_width example_table (PIPE_FORMAT_other 2) 2)"
    "(2 :: nat) = unat (copy_rect_height example_table (PIPE_FORMAT_other 2) 2)"
    "(0 :: int) = copy_rect_origin example_table (PIPE_FORMAT_other 2) 0
        (if sint (8 :: 32 word) < 0 then - 8 else 8) 0 0"
    "(1000 :: int) = copy_rect_origin example_table (PIPE_FORMAT_other 6) 1000 16 0 0"
    "(2000 :: int) = copy_rect_origin example_table (PIPE_FORMAT_other 2) 2000 16 0 0"
    "0 \<le> sint (16 :: 32 word)"
    "(8 :: nat) \<le> unat (16 :: 32 word) \<or> (2 :: nat) \<le> 1"
    "(2 :: nat) * 8 < 2 ^ 32"
    by (simp_all add: example_two_way g)
  have E: "\<exists>m1 m2.
      util_copy_rect example_table 1000 (PIPE_FORMAT_other 6) 16 0 0 2 2 0 8 0 0
        (mem ramp_machine) = Inr m1 \<and>
      util_format_translate full_environment (PIPE_FORMAT_other 6) 1000 16 0 0
        (PIPE_FORMAT_other 2) 0 8 0 0 2 2 ramp_machine = Inr (True, ramp_machine\<lparr>mem := m1\<rparr>) \<and>
      util_format_translate full_environment (PIPE_FORMAT_other 2) 2000 16 0 0
        (PIPE_FORMAT_other 6) 1000 16 0 0 2 2 (ramp_machine\<lparr>mem := m1\<rparr>) =
        Inr (True, ramp_machine\<lparr>mem := m2\<rparr>) \<and>
      (\<forall>r < 2. \<forall>j < 8. m2 (2000 + int r * uint (16 :: 32 word) + int j) =
         mem ramp_machine (0 + int r * sint (8 :: 32 word) + int j))"
    by (rule T [OF example_two_way(1,2,4) h(1-9) h(10) h(10) h(11) d])
  then obtain m1 m2 where r:
    "util_format_translate full_environment (PIPE_FORMAT_other 6) 1000 16 0 0
       (PIPE_FORMAT_other 2) 0 8 0 0 2 2 ramp_machine = Inr (True, ramp_machine\<lparr>mem := m1\<rparr>)"
    "util_format_translate full_environment (PIPE_FORMAT_other 2) 2000 16 0 0
       (PIPE_FORMAT_other 6) 1000 16 0 0 2 2 (ramp_machine\<lparr>mem := m1\<rparr>) =
       Inr (True, ramp_machine\<lparr>mem := m2\<rparr>)"
    "\<forall>r < 2. \<forall>j < 8. m2 (2000 + int r * uint (16 :: 32 word) + int j) =
       mem ramp_machine (0 + int r * sint (8 :: 32 word) + int j)"
    by blast
  have "m2 2000 = 0" "m2 2007 = 7" "m2 2016 = 8" "m2 2019 = 11"
    using r(3) [rule_format, of 0 0] r(3) [rule_format, of 0 7] r(3) [rule_format, of 1 0]
      r(3) [rule_format, of 1 3]
    by (simp_all add: ramp_machine_def)
  with r(1,2) show ?thesis by blast
qed

end
